theory Spec2Isabelle
  imports Complex_Main "HOL-Library.AList"
begin

section \<open>The room server of Levelling.io (backend/src/socket/handlers.ts)\<close>

text \<open>
  The server keeps three module-level JavaScript \<open>Map\<close>s: \<open>rooms\<close> (room id to a map
  from socket id to player record), \<open>globalFarmObjects\<close> (room id to a map from object id
  to collectible) and \<open>obstacles\<close> (room id to an array of obstacle points). A JavaScript
  \<open>Map\<close> iterates in insertion order, \<open>set\<close> on a present key keeps its place and \<open>set\<close>
  on a new key appends: this is an association list under \<open>AList.update\<close>, \<open>AList.delete\<close>
  and \<open>map_of\<close>.

  Scores are JavaScript numbers that only ever hold integers (they start at 0 and grow by
  integer amounts); they are modelled as unbounded \<open>int\<close>. Coordinates of players and
  collectibles are \<open>real\<close>, coordinates of obstacles are the integers the generator
  computes. Floating-point rounding is not modelled.
\<close>

subsection \<open>Data\<close>

type_synonym vec = "real \<times> real"

record PlayerData =
  player_id :: string
  name :: string
  color :: int
  position :: vec
  velocity :: vec
  score :: int
  isAlive :: bool
  respawnTime :: "int option"

record FarmObject =
  farm_id :: string
  farm_position :: vec
  farm_type :: string
  farm_value :: int

record Obstacle =
  obstacle_id :: string
  obstacle_x :: int
  obstacle_y :: int
  part :: string

type_synonym ('k, 'v) jsmap = "('k \<times> 'v) list"

record server =
  rooms :: "(string, (string, PlayerData) jsmap) jsmap"
  globalFarmObjects :: "(string, (string, FarmObject) jsmap) jsmap"
  obstacles :: "(string, Obstacle list) jsmap"

definition initial :: server where
  "initial = \<lparr>rooms = [], globalFarmObjects = [], obstacles = []\<rparr>"

definition has :: "('k, 'v) jsmap \<Rightarrow> 'k \<Rightarrow> bool" where
  "has m k = (map_of m k \<noteq> None)"

text \<open>What a handler does besides changing the three maps, in program order.\<close>

datatype scope =
    ToRoomExceptSender string  \<comment> \<open>\<open>socket.to(gameId).emit\<close>\<close>
  | ToSender                   \<comment> \<open>\<open>socket.emit\<close>\<close>

datatype payload =
    CurrentPlayers "PlayerData list"
  | ObstaclesUpdate "Obstacle list"
  | FarmObjectsUpdate "FarmObject list"
  | PlayerJoined string string int vec vec int bool
  | PlayerMoved string vec "vec option"
  | PlayerLeft string "string option"
  | PlayerShot string vec vec
  | PlayerKilled string string int int int
  | PlayerRespawned string vec
  | FarmObjectDestroyed string string int

datatype timer =
    RespawnTimer string string
  | FarmTimer string

datatype effect =
    Emit scope payload
  | SetTimeout timer nat
  | JoinRoom string

text \<open>
  The sources of nondeterminism of one handler run: the successive results of
  \<open>Math.random()\<close>, the successive results of \<open>Date.now()\<close>, and the rendering
  \<open>r.toString(36).substr(2, 9)\<close> of a random number.
\<close>

record env =
  rnd :: "nat \<Rightarrow> real"
  clock :: "nat \<Rightarrow> int"
  base36 :: "real \<Rightarrow> string"

text \<open>
  A handler run either never returns (\<open>None\<close>), throws (\<open>Some (Inl e)\<close>; nothing catches
  it, so the process ends) or returns (\<open>Some (Inr r)\<close>).
\<close>

datatype jsError = TypeError

type_synonym 'a outcome = "(jsError + 'a) option"

subsection \<open>Numbers in template literals\<close>

definition digit_char :: "nat \<Rightarrow> char" where
  "digit_char d = ''0123456789'' ! d"

fun toString_nat :: "nat \<Rightarrow> string" where
  "toString_nat n =
     (if n < 10 then [digit_char n] else toString_nat (n div 10) @ [digit_char (n mod 10)])"

declare toString_nat.simps [simp del]

definition toString :: "int \<Rightarrow> string" where
  "toString i = (if i < 0 then CHR ''-'' # toString_nat (nat (- i)) else toString_nat (nat i))"

subsection \<open>generateObstacles\<close>

definition rotatePoint :: "int \<Rightarrow> int \<Rightarrow> int \<Rightarrow> int \<times> int \<Rightarrow> int \<times> int" where
  "rotatePoint rotation baseX baseY p =
     (case p of (x, y) \<Rightarrow>
        if rotation = 1 then
          (let tempX = x - baseX; tempY = y - baseY in (baseX - tempY, baseY + tempX))
        else if rotation = 2 then
          (baseX - (x - baseX), baseY - (y - baseY))
        else if rotation = 3 then
          (let tempX = x - baseX; tempY = y - baseY in (baseX + tempY, baseY - tempX))
        else (x, y))"

definition stemPoint :: "int \<Rightarrow> int \<Rightarrow> int \<Rightarrow> nat \<Rightarrow> Obstacle" where
  "stemPoint baseX baseY rotation i =
     (case rotatePoint rotation baseX baseY (baseX, baseY + int i * 60) of (x, y) \<Rightarrow>
        \<lparr>obstacle_id =
           ''obstacle-L-'' @ toString baseX @ ''-'' @ toString baseY @ ''-'' @ toString (int i),
         obstacle_x = x, obstacle_y = y, part = ''stem''\<rparr>)"

definition footPoint :: "int \<Rightarrow> int \<Rightarrow> int \<Rightarrow> nat \<Rightarrow> Obstacle" where
  "footPoint baseX baseY rotation i =
     (case rotatePoint rotation baseX baseY (baseX + int i * 60, baseY + 2 * 60) of (x, y) \<Rightarrow>
        \<lparr>obstacle_id =
           ''obstacle-L-'' @ toString baseX @ ''-'' @ toString baseY @ ''-'' @ toString (int i + 3),
         obstacle_x = x, obstacle_y = y, part = ''foot''\<rparr>)"

definition createLShape :: "int \<Rightarrow> int \<Rightarrow> int \<Rightarrow> Obstacle list" where
  "createLShape baseX baseY rotation =
     map (stemPoint baseX baseY rotation) [0..<3] @ map (footPoint baseX baseY rotation) [1..<3]"

definition centerObstacles :: "(int \<times> int) list" where
  "centerObstacles = [(1000, 750), (1000, 650), (1000, 850), (900, 750), (1100, 750)]"

definition centerPoint :: "nat \<Rightarrow> int \<times> int \<Rightarrow> Obstacle" where
  "centerPoint i pos =
     \<lparr>obstacle_id = ''obstacle-center-'' @ toString (int i),
      obstacle_x = fst pos, obstacle_y = snd pos, part = ''center''\<rparr>"

definition roomObstaclesLayout :: "Obstacle list" where
  "roomObstaclesLayout =
     createLShape 300 300 0 @ createLShape 1700 300 1 @ createLShape 300 1100 3
     @ createLShape 1700 1100 2
     @ map (\<lambda>i. centerPoint i (centerObstacles ! i)) [0..<length centerObstacles]"

definition generateObstacles :: "server \<Rightarrow> string \<Rightarrow> server \<times> Obstacle list" where
  "generateObstacles s gameId =
     (let s' = (if \<not> has (obstacles s) gameId
                then s\<lparr>obstacles := AList.update gameId roomObstaclesLayout (obstacles s)\<rparr>
                else s)
      in (s', case map_of (obstacles s') gameId of Some os \<Rightarrow> os | None \<Rightarrow> []))"

subsection \<open>generateFarmObjects\<close>

definition farFromObstacle :: "real \<Rightarrow> real \<Rightarrow> Obstacle \<Rightarrow> bool" where
  "farFromObstacle x y obstacle =
     (let dx = x - of_int (obstacle_x obstacle); dy = y - of_int (obstacle_y obstacle)
      in sqrt (dx * dx + dy * dy) > 120)"

text \<open>
  The \<open>while (!validPosition)\<close> loop. It reads two random numbers per round, starting at
  index \<open>n\<close> of the stream, and returns the position with the index of the next unread
  number. The source has no bound on the rounds, so the loop is a partial function:
  \<open>None\<close> is the run that never leaves the loop.
\<close>

partial_function (option) samplePosition ::
  "Obstacle list \<Rightarrow> (nat \<Rightarrow> real) \<Rightarrow> nat \<Rightarrow> (real \<times> real \<times> nat) option" where
  "samplePosition roomObstacles r n =
     (let x = r n * 1800 + 100; y = r (n + 1) * 1300 + 100
      in if list_all (farFromObstacle x y) roomObstacles then Some (x, y, n + 2)
         else samplePosition roomObstacles r (n + 2))"

definition typesAndValues :: "(string \<times> int) list" where
  "typesAndValues = [(''crystal'', 5), (''coin'', 1), (''gem'', 10)]"

text \<open>
  The \<open>for (let i = 0; i < toCreate; i++)\<close> loop, with the number of rounds left as first
  counter. An index outside the table makes \<open>type\<close> undefined and \<open>type.type\<close> throw.
\<close>

fun farmLoop ::
  "env \<Rightarrow> Obstacle list \<Rightarrow> nat \<Rightarrow> nat \<Rightarrow> nat \<Rightarrow> (string, FarmObject) jsmap
     \<Rightarrow> ((string, FarmObject) jsmap \<times> nat) outcome" where
  "farmLoop E roomObstacles 0 i n roomFarmObjects = Some (Inr (roomFarmObjects, n))"
| "farmLoop E roomObstacles (Suc k) i n roomFarmObjects =
     (let ident = ''farm-'' @ toString (clock E i) @ ''-'' @ base36 E (rnd E n);
          idx = \<lfloor>rnd E (n + 1) * real (length typesAndValues)\<rfloor>
      in case samplePosition roomObstacles (rnd E) (n + 2) of
           None \<Rightarrow> None
         | Some (x, y, n') \<Rightarrow>
             if 0 \<le> idx \<and> idx < int (length typesAndValues) then
               farmLoop E roomObstacles k (i + 1) n'
                 (AList.update ident
                    \<lparr>farm_id = ident, farm_position = (x, y),
                     farm_type = fst (typesAndValues ! nat idx),
                     farm_value = snd (typesAndValues ! nat idx)\<rparr>
                    roomFarmObjects)
             else Some (Inl TypeError))"

definition generateFarmObjects ::
  "server \<Rightarrow> env \<Rightarrow> nat \<Rightarrow> string \<Rightarrow> nat \<Rightarrow> (server \<times> effect list \<times> nat) outcome" where
  "generateFarmObjects s E n gameId count =
     (let gfo = (if \<not> has (globalFarmObjects s) gameId
                 then AList.update gameId [] (globalFarmObjects s)
                 else globalFarmObjects s);
          roomFarmObjects = (case map_of gfo gameId of Some m \<Rightarrow> m | None \<Rightarrow> [])
      in if length roomFarmObjects < count then
           (let toCreate = count - length roomFarmObjects;
                roomObstacles = (case map_of (obstacles s) gameId of Some os \<Rightarrow> os | None \<Rightarrow> [])
            in case farmLoop E roomObstacles toCreate 0 n roomFarmObjects of
                 None \<Rightarrow> None
               | Some (Inl e) \<Rightarrow> Some (Inl e)
               | Some (Inr (objs, n')) \<Rightarrow>
                   Some (Inr (s\<lparr>globalFarmObjects := AList.update gameId objs gfo\<rparr>,
                     (if toCreate > 0 \<and> has (rooms s) gameId
                      then [Emit (ToRoomExceptSender gameId) (FarmObjectsUpdate (map snd objs)),
                            Emit ToSender (FarmObjectsUpdate (map snd objs))]
                      else []),
                     n')))
         else Some (Inr (s\<lparr>globalFarmObjects := gfo\<rparr>, [], n)))"

subsection \<open>The handlers\<close>

text \<open>
  The first part of the join handler: create the room if it is absent, add the player if
  the socket is not a member yet.
\<close>

definition addPlayer :: "server \<Rightarrow> string \<Rightarrow> string \<Rightarrow> string \<Rightarrow> int \<Rightarrow> server" where
  "addPlayer s sid gameId nm col =
     (let rooms1 = (if \<not> has (rooms s) gameId then AList.update gameId [] (rooms s)
                    else rooms s);
          roomPlayers0 = (case map_of rooms1 gameId of Some m \<Rightarrow> m | None \<Rightarrow> []);
          roomPlayers = (if \<not> has roomPlayers0 sid
                         then AList.update sid
                                \<lparr>player_id = sid, name = nm, color = col, position = (400, 300),
                                 velocity = (0, 0), score = 0, isAlive = True,
                                 respawnTime = None\<rparr>
                                roomPlayers0
                         else roomPlayers0)
      in s\<lparr>rooms := AList.update gameId roomPlayers rooms1\<rparr>)"

definition joinEffects ::
  "server \<Rightarrow> string \<Rightarrow> string \<Rightarrow> string \<Rightarrow> int \<Rightarrow> Obstacle list \<Rightarrow> effect list \<Rightarrow> effect list"
  where
  "joinEffects s3 sid gameId nm col roomObstacles effs =
     [JoinRoom gameId] @ effs
     @ [Emit ToSender
          (CurrentPlayers (map snd (case map_of (rooms s3) gameId of Some m \<Rightarrow> m | None \<Rightarrow> []))),
        Emit ToSender (ObstaclesUpdate roomObstacles)]
     @ (case map_of (globalFarmObjects s3) gameId of
          Some objs \<Rightarrow> [Emit ToSender (FarmObjectsUpdate (map snd objs))]
        | None \<Rightarrow> [])
     @ [Emit (ToRoomExceptSender gameId) (PlayerJoined sid nm col (400, 300) (0, 0) 0 True)]"

definition joinGame ::
  "server \<Rightarrow> string \<Rightarrow> env \<Rightarrow> string \<Rightarrow> string option \<Rightarrow> int option
     \<Rightarrow> (server \<times> effect list) outcome" where
  "joinGame s sid E gameId nameOpt colorOpt =
     (let nm = (case nameOpt of Some v \<Rightarrow> v
                | None \<Rightarrow> ''Player-'' @ toString \<lfloor>rnd E 0 * 1000\<rfloor>);
          n0 = (case nameOpt of Some v \<Rightarrow> 0 | None \<Rightarrow> 1);
          col = (case colorOpt of Some c \<Rightarrow> c | None \<Rightarrow> 1734143);
          s1 = addPlayer s sid gameId nm col;
          s2 = fst (generateObstacles s1 gameId);
          roomObstacles = snd (generateObstacles s1 gameId)
      in case generateFarmObjects s2 E n0 gameId 10 of
           None \<Rightarrow> None
         | Some (Inl e) \<Rightarrow> Some (Inl e)
         | Some (Inr (s3, effs, n')) \<Rightarrow>
             Some (Inr (s3, joinEffects s3 sid gameId nm col roomObstacles effs)))"

definition playerMove ::
  "server \<Rightarrow> string \<Rightarrow> string \<Rightarrow> vec \<Rightarrow> vec option \<Rightarrow> server \<times> effect list" where
  "playerMove s sid gameId pos vel =
     ((case map_of (rooms s) gameId of
         Some roomPlayers \<Rightarrow>
           (case map_of roomPlayers sid of
              Some player \<Rightarrow>
                s\<lparr>rooms := AList.update gameId
                     (AList.update sid
                        (player\<lparr>position := pos,
                                velocity := (case vel of Some v \<Rightarrow> v | None \<Rightarrow> velocity player)\<rparr>)
                        roomPlayers)
                     (rooms s)\<rparr>
            | None \<Rightarrow> s)
       | None \<Rightarrow> s),
      [Emit (ToRoomExceptSender gameId) (PlayerMoved sid pos vel)])"

text \<open>
  \<open>rooms.forEach\<close> of the disconnect handler, over the keys the map had when the
  iteration started; each round reads the room as it is now. The name of the leaving
  player is read from the room after the \<open>delete\<close>, as the source does.
\<close>

fun disconnectEach ::
  "string \<Rightarrow> string list \<Rightarrow> (string, (string, PlayerData) jsmap) jsmap
     \<Rightarrow> (string, (string, PlayerData) jsmap) jsmap \<times> effect list" where
  "disconnectEach sid [] R = (R, [])"
| "disconnectEach sid (roomId # ks) R =
     (case map_of R roomId of
        None \<Rightarrow> disconnectEach sid ks R
      | Some roomPlayers0 \<Rightarrow>
          if has roomPlayers0 sid then
            (let roomPlayers = AList.delete sid roomPlayers0;
                 R1 = AList.update roomId roomPlayers R;
                 R2 = (if length roomPlayers = 0 then AList.delete roomId R1 else R1);
                 left = Emit (ToRoomExceptSender roomId)
                          (PlayerLeft sid (map_option name (map_of roomPlayers sid)))
             in case disconnectEach sid ks R2 of (R3, effs) \<Rightarrow> (R3, left # effs))
          else disconnectEach sid ks R)"

definition disconnect :: "server \<Rightarrow> string \<Rightarrow> server \<times> effect list" where
  "disconnect s sid =
     (case disconnectEach sid (map fst (rooms s)) (rooms s) of
        (R, effs) \<Rightarrow> (s\<lparr>rooms := R\<rparr>, effs))"

definition playerShoot ::
  "server \<Rightarrow> string \<Rightarrow> string \<Rightarrow> vec \<Rightarrow> vec \<Rightarrow> server \<times> effect list" where
  "playerShoot s sid gameId direction pos =
     (s, [Emit (ToRoomExceptSender gameId) (PlayerShot sid direction pos)])"

definition pointsToSteal :: "PlayerData \<Rightarrow> int" where
  "pointsToSteal target = \<lfloor>real_of_int (score target) * 0.5\<rfloor>"

definition playerHit ::
  "server \<Rightarrow> string \<Rightarrow> int \<Rightarrow> string \<Rightarrow> string \<Rightarrow> string \<Rightarrow> server \<times> effect list" where
  "playerHit s sid now gameId shooterId targetId =
     (if shooterId = targetId then (s, [])
      else case map_of (rooms s) gameId of
             None \<Rightarrow> (s, [])
           | Some roomPlayers \<Rightarrow>
               (case (map_of roomPlayers shooterId, map_of roomPlayers targetId) of
                  (Some shooter, Some target) \<Rightarrow>
                    if isAlive target then
                      (let stolen = pointsToSteal target;
                           shooter' = shooter\<lparr>score := score shooter + (20 + stolen)\<rparr>;
                           t1 = score target - stolen;
                           t2 = (if t1 < 0 then 0 else t1);
                           target' = target\<lparr>score := t2, isAlive := False,
                                            respawnTime := Some (now + 3000)\<rparr>;
                           roomPlayers' = AList.update targetId target'
                                            (AList.update shooterId shooter' roomPlayers);
                           killed = PlayerKilled shooterId targetId (score shooter')
                                      (score target') stolen
                       in (s\<lparr>rooms := AList.update gameId roomPlayers' (rooms s)\<rparr>,
                           [SetTimeout (RespawnTimer gameId targetId) 3000,
                            Emit (ToRoomExceptSender gameId) killed,
                            Emit ToSender killed]))
                    else (s, [])
                | _ \<Rightarrow> (s, [])))"

text \<open>The callback of the respawn timer; \<open>rx\<close> and \<open>ry\<close> are its two random numbers.\<close>

definition respawnPlayer ::
  "server \<Rightarrow> string \<Rightarrow> real \<Rightarrow> real \<Rightarrow> string \<Rightarrow> string \<Rightarrow> server \<times> effect list" where
  "respawnPlayer s sid rx ry gameId targetId =
     (case map_of (rooms s) gameId of
        None \<Rightarrow> (s, [])
      | Some roomPlayers \<Rightarrow>
          (case map_of roomPlayers targetId of
             None \<Rightarrow> (s, [])
           | Some player \<Rightarrow>
               (let pos = (rx * 1800 + 100, ry * 1300 + 100);
                    player' = player\<lparr>isAlive := True, position := pos, velocity := (0, 0)\<rparr>
                in (s\<lparr>rooms := AList.update gameId (AList.update targetId player' roomPlayers)
                                  (rooms s)\<rparr>,
                    [Emit (ToRoomExceptSender gameId) (PlayerRespawned targetId pos),
                     Emit ToSender (PlayerRespawned targetId pos)]))))"

definition farmObjectHit :: "server \<Rightarrow> string \<Rightarrow> string \<Rightarrow> string \<Rightarrow> server \<times> effect list" where
  "farmObjectHit s sid gameId objectId =
     (case map_of (globalFarmObjects s) gameId of
        None \<Rightarrow> (s, [])
      | Some roomFarmObjects \<Rightarrow>
          (case map_of roomFarmObjects objectId of
             None \<Rightarrow> (s, [])
           | Some farmObject \<Rightarrow>
               (case map_of (rooms s) gameId of
                  None \<Rightarrow> (s, [])
                | Some roomPlayers \<Rightarrow>
                    (case map_of roomPlayers sid of
                       None \<Rightarrow> (s, [])
                     | Some player \<Rightarrow>
                         (let player' = player\<lparr>score := score player + farm_value farmObject\<rparr>;
                              destroyed = FarmObjectDestroyed objectId sid (score player')
                          in (s\<lparr>rooms := AList.update gameId
                                             (AList.update sid player' roomPlayers) (rooms s),
                                globalFarmObjects := AList.update gameId
                                             (AList.delete objectId roomFarmObjects)
                                             (globalFarmObjects s)\<rparr>,
                              [Emit (ToRoomExceptSender gameId) destroyed,
                               Emit ToSender destroyed,
                               SetTimeout (FarmTimer gameId) 2000]))))))"

definition collectResource :: "server \<Rightarrow> string \<Rightarrow> string \<Rightarrow> string \<Rightarrow> server \<times> effect list" where
  "collectResource s sid gameId resourceId =
     (case map_of (globalFarmObjects s) gameId of
        None \<Rightarrow> (s, [])
      | Some roomFarmObjects \<Rightarrow>
          (case map_of roomFarmObjects resourceId of
             None \<Rightarrow> (s, [])
           | Some farmObject \<Rightarrow>
               (case map_of (rooms s) gameId of
                  None \<Rightarrow> (s, [])
                | Some roomPlayers \<Rightarrow>
                    (case map_of roomPlayers sid of
                       None \<Rightarrow> (s, [])
                     | Some player \<Rightarrow>
                         (let player' = player\<lparr>score := score player + farm_value farmObject\<rparr>;
                              destroyed = FarmObjectDestroyed resourceId sid (score player')
                          in (s\<lparr>rooms := AList.update gameId
                                             (AList.update sid player' roomPlayers) (rooms s),
                                globalFarmObjects := AList.update gameId
                                             (AList.delete resourceId roomFarmObjects)
                                             (globalFarmObjects s)\<rparr>,
                              [Emit (ToRoomExceptSender gameId) destroyed,
                               Emit ToSender destroyed,
                               SetTimeout (FarmTimer gameId) 2000]))))))"

text \<open>The callback of the repopulation timer: \<open>generateFarmObjects(gameId)\<close>.\<close>

definition farmTimeout :: "server \<Rightarrow> env \<Rightarrow> string \<Rightarrow> (server \<times> effect list) outcome" where
  "farmTimeout s E gameId =
     (case generateFarmObjects s E 0 gameId 10 of
        None \<Rightarrow> None
      | Some (Inl e) \<Rightarrow> Some (Inl e)
      | Some (Inr (s', effs, n')) \<Rightarrow> Some (Inr (s', effs)))"

subsection \<open>Events and runs\<close>

text \<open>
  One event is one handler run of one socket (its identifier comes first) or one timer
  callback. A timer event may occur at any time here, whether or not it was scheduled:
  the runs of the server are among the runs of the model.
\<close>

datatype event =
    JoinGame string env string "string option" "int option"
  | PlayerMove string string vec "vec option"
  | Disconnect string
  | PlayerShoot string string vec vec
  | PlayerHit string int string string string
  | FarmObjectHit string string string
  | CollectResource string string string
  | RespawnTimeout string real real string string
  | FarmTimeout string env string

fun step :: "server \<Rightarrow> event \<Rightarrow> (server \<times> effect list) outcome" where
  "step s (JoinGame sid E gameId nameOpt colorOpt) = joinGame s sid E gameId nameOpt colorOpt"
| "step s (PlayerMove sid gameId pos vel) = Some (Inr (playerMove s sid gameId pos vel))"
| "step s (Disconnect sid) = Some (Inr (disconnect s sid))"
| "step s (PlayerShoot sid gameId direction pos) =
     Some (Inr (playerShoot s sid gameId direction pos))"
| "step s (PlayerHit sid now gameId shooterId targetId) =
     Some (Inr (playerHit s sid now gameId shooterId targetId))"
| "step s (FarmObjectHit sid gameId objectId) = Some (Inr (farmObjectHit s sid gameId objectId))"
| "step s (CollectResource sid gameId resourceId) =
     Some (Inr (collectResource s sid gameId resourceId))"
| "step s (RespawnTimeout sid rx ry gameId targetId) =
     Some (Inr (respawnPlayer s sid rx ry gameId targetId))"
| "step s (FarmTimeout sid E gameId) = farmTimeout s E gameId"

inductive reachable :: "server \<Rightarrow> bool" where
  reachable_initial: "reachable initial"
| reachable_step: "reachable s \<Longrightarrow> step s e = Some (Inr (s', effs)) \<Longrightarrow> reachable s'"

subsection \<open>Observations\<close>

text \<open>\<open>rooms.get(gameId)?.get(k)\<close> and \<open>globalFarmObjects.get(gameId)?.get(k)\<close>.\<close>

definition player :: "server \<Rightarrow> string \<Rightarrow> string \<Rightarrow> PlayerData option" where
  "player s gameId k = (case map_of (rooms s) gameId of None \<Rightarrow> None | Some ps \<Rightarrow> map_of ps k)"

definition farmObject :: "server \<Rightarrow> string \<Rightarrow> string \<Rightarrow> FarmObject option" where
  "farmObject s gameId k =
     (case map_of (globalFarmObjects s) gameId of None \<Rightarrow> None | Some fs \<Rightarrow> map_of fs k)"

definition isDead :: "server \<Rightarrow> string \<Rightarrow> string \<Rightarrow> bool" where
  "isDead s gameId k = (case player s gameId k of None \<Rightarrow> False | Some p \<Rightarrow> \<not> isAlive p)"

text \<open>
  The object-destroyed notifications for one identifier of one room. A successful collect
  emits the notification once to the room (\<open>socket.to(gameId)\<close>, everyone but the sender)
  and once to the sender; the count is of the room broadcasts, one per successful collect.
\<close>

fun isDestroyed :: "string \<Rightarrow> string \<Rightarrow> effect \<Rightarrow> bool" where
  "isDestroyed g oid (Emit (ToRoomExceptSender g') (FarmObjectDestroyed oid' sid sc)) =
     (g' = g \<and> oid' = oid)"
| "isDestroyed g oid e = False"

definition destroyedCount :: "string \<Rightarrow> string \<Rightarrow> effect list \<Rightarrow> nat" where
  "destroyedCount g oid effs = length (filter (isDestroyed g oid) effs)"

fun run :: "server \<Rightarrow> event list \<Rightarrow> (server \<times> effect list) outcome" where
  "run s [] = Some (Inr (s, []))"
| "run s (e # es) =
     (case step s e of
        None \<Rightarrow> None
      | Some (Inl x) \<Rightarrow> Some (Inl x)
      | Some (Inr (s', effs)) \<Rightarrow>
          (case run s' es of
             None \<Rightarrow> None
           | Some (Inl x) \<Rightarrow> Some (Inl x)
           | Some (Inr (s'', effs')) \<Rightarrow> Some (Inr (s'', effs @ effs'))))"

definition scoresNonNegative :: "server \<Rightarrow> bool" where
  "scoresNonNegative s = (\<forall>(g, ps) \<in> set (rooms s). \<forall>(k, p) \<in> set ps. 0 \<le> score p)"

definition valuesNonNegative :: "server \<Rightarrow> bool" where
  "valuesNonNegative s =
     (\<forall>(g, fs) \<in> set (globalFarmObjects s). \<forall>(k, f) \<in> set fs. 0 \<le> farm_value f)"

definition coords :: "Obstacle \<Rightarrow> int \<times> int" where
  "coords obstacle = (obstacle_x obstacle, obstacle_y obstacle)"

text \<open>
  The points of \<open>createLShape\<close> before the rotation is applied: the three of the first
  loop and the two of the second.
\<close>

definition lTemplate :: "int \<Rightarrow> int \<Rightarrow> (int \<times> int) list" where
  "lTemplate baseX baseY =
     map (\<lambda>i. (baseX, baseY + int i * 60)) [0..<3]
     @ map (\<lambda>i. (baseX + int i * 60, baseY + 2 * 60)) [1..<3]"

text \<open>
  Round \<open>k\<close> of the placement loop started at index \<open>n\<close> of the random stream: the
  position it samples, and whether the clearance test accepts it.
\<close>

definition sampleAt :: "(nat \<Rightarrow> real) \<Rightarrow> nat \<Rightarrow> nat \<Rightarrow> real \<times> real \<times> nat" where
  "sampleAt r n k = (r (n + 2 * k) * 1800 + 100, r (n + 2 * k + 1) * 1300 + 100, n + 2 * k + 2)"

definition accepts :: "Obstacle list \<Rightarrow> (nat \<Rightarrow> real) \<Rightarrow> nat \<Rightarrow> nat \<Rightarrow> bool" where
  "accepts roomObstacles r n k =
     list_all (farFromObstacle (r (n + 2 * k) * 1800 + 100) (r (n + 2 * k + 1) * 1300 + 100))
       roomObstacles"

text \<open>The state with the alive flag of one player set, everything else as it is.\<close>

definition setAlive :: "server \<Rightarrow> string \<Rightarrow> string \<Rightarrow> bool \<Rightarrow> server" where
  "setAlive s gameId k b =
     (case map_of (rooms s) gameId of
        None \<Rightarrow> s
      | Some ps \<Rightarrow>
          (case map_of ps k of
             None \<Rightarrow> s
           | Some p \<Rightarrow>
               s\<lparr>rooms := AList.update gameId (AList.update k (p\<lparr>isAlive := b\<rparr>) ps) (rooms s)\<rparr>))"

subsection \<open>A room with two players and one collectible\<close>

definition alice :: PlayerData where
  "alice = \<lparr>player_id = ''a'', name = ''Alice'', color = 1734143, position = (400, 300),
            velocity = (0, 0), score = 0, isAlive = True, respawnTime = None\<rparr>"

definition bob :: PlayerData where
  "bob = \<lparr>player_id = ''b'', name = ''Bob'', color = 255, position = (900, 500),
          velocity = (0, 0), score = 100, isAlive = True, respawnTime = None\<rparr>"

definition gem :: FarmObject where
  "gem = \<lparr>farm_id = ''farm-1-x'', farm_position = (600, 600), farm_type = ''gem'',
          farm_value = 10\<rparr>"

definition duel :: server where
  "duel = \<lparr>rooms = [(''r'', [(''a'', alice), (''b'', bob)])],
           globalFarmObjects = [(''r'', [(''farm-1-x'', gem)])],
           obstacles = [(''r'', roomObstaclesLayout)]\<rparr>"

definition deadBob :: PlayerData where
  "deadBob = bob\<lparr>score := 50, isAlive := False, respawnTime := Some 8000\<rparr>"

definition afterKill :: server where
  "afterKill = \<lparr>rooms = [(''r'', [(''a'', alice\<lparr>score := 70\<rparr>), (''b'', deadBob)])],
                globalFarmObjects = [(''r'', [(''farm-1-x'', gem)])],
                obstacles = [(''r'', roomObstaclesLayout)]\<rparr>"

definition afterCollect :: server where
  "afterCollect = \<lparr>rooms = [(''r'', [(''a'', alice\<lparr>score := 10\<rparr>), (''b'', bob)])],
                   globalFarmObjects = [(''r'', [])],
                   obstacles = [(''r'', roomObstaclesLayout)]\<rparr>"

subsection \<open>A first join, a last leave and a second join\<close>

text \<open>
  Three random sources: every \<open>Math.random()\<close> is 1/4, 1/2 or 3/4; the clock shows the
  number of the call.
\<close>

definition env0 :: env where
  "env0 = \<lparr>rnd = (\<lambda>n. 1 / 4), clock = (\<lambda>i. int i), base36 = (\<lambda>r. ''x'')\<rparr>"

definition envHalf :: env where
  "envHalf = \<lparr>rnd = (\<lambda>n. 1 / 2), clock = (\<lambda>i. int i), base36 = (\<lambda>r. ''y'')\<rparr>"

definition env1 :: env where
  "env1 = \<lparr>rnd = (\<lambda>n. 3 / 4), clock = (\<lambda>i. int i), base36 = (\<lambda>r. ''z'')\<rparr>"

definition crystal :: "nat \<Rightarrow> string \<times> FarmObject" where
  "crystal i =
     (''farm-'' @ toString (int i) @ ''-x'',
      \<lparr>farm_id = ''farm-'' @ toString (int i) @ ''-x'', farm_position = (550, 425),
       farm_type = ''crystal'', farm_value = 5\<rparr>)"

definition tenCrystals :: "(string, FarmObject) jsmap" where
  "tenCrystals = map crystal [0..<10]"

definition gemAt :: "nat \<Rightarrow> string \<times> FarmObject" where
  "gemAt i =
     (''farm-'' @ toString (int i) @ ''-z'',
      \<lparr>farm_id = ''farm-'' @ toString (int i) @ ''-z'', farm_position = (1450, 1075),
       farm_type = ''gem'', farm_value = 10\<rparr>)"

definition tenGems :: "(string, FarmObject) jsmap" where
  "tenGems = map gemAt [0..<10]"

definition newcomer :: PlayerData where
  "newcomer = \<lparr>player_id = ''b'', name = ''Bob'', color = 1734143, position = (400, 300),
               velocity = (0, 0), score = 0, isAlive = True, respawnTime = None\<rparr>"

definition joined :: server where
  "joined = \<lparr>rooms = [(''r'', [(''a'', alice)])],
             globalFarmObjects = [(''r'', tenCrystals)],
             obstacles = [(''r'', roomObstaclesLayout)]\<rparr>"

definition abandoned :: server where
  "abandoned = \<lparr>rooms = [],
                globalFarmObjects = [(''r'', tenCrystals)],
                obstacles = [(''r'', roomObstaclesLayout)]\<rparr>"

definition rejoined :: server where
  "rejoined = \<lparr>rooms = [(''r'', [(''b'', newcomer)])],
               globalFarmObjects = [(''r'', tenCrystals)],
               obstacles = [(''r'', roomObstaclesLayout)]\<rparr>"

definition freshRoom :: server where
  "freshRoom = \<lparr>rooms = [(''r'', [(''b'', newcomer)])],
                globalFarmObjects = [(''r'', tenGems)],
                obstacles = [(''r'', roomObstaclesLayout)]\<rparr>"

subsection \<open>Identifiers over a run\<close>

text \<open>
  The random source a step hands to \<open>generateFarmObjects\<close>: only a join and the
  repopulation timer call it.
\<close>

fun eventEnv :: "event \<Rightarrow> env option" where
  "eventEnv (JoinGame sid E gameId nameOpt colorOpt) = Some E"
| "eventEnv (FarmTimeout sid E gameId) = Some E"
| "eventEnv e = None"

text \<open>
  The identifiers \<open>farm-${Date.now() + i}-${suffix}\<close> that a random source can be read
  as: some reading of the clock and some random number give this string.
\<close>

definition renders :: "env \<Rightarrow> string \<Rightarrow> bool" where
  "renders E oid =
     (\<exists>i n. oid = ''farm-'' @ toString (clock E i) @ ''-'' @ base36 E (rnd E n))"

definition freshFor :: "string \<Rightarrow> event \<Rightarrow> bool" where
  "freshFor oid e = (case eventEnv e of None \<Rightarrow> True | Some E \<Rightarrow> \<not> renders E oid)"

text \<open>
  How often a step of the run puts identifier \<open>oid\<close> into room \<open>g\<close> when it was not
  stored there, and the number of object-destroyed notifications of a run that returns.
\<close>

fun issued :: "string \<Rightarrow> string \<Rightarrow> server \<Rightarrow> event list \<Rightarrow> nat" where
  "issued g oid s [] = 0"
| "issued g oid s (e # es) =
     (case step s e of
        Some (Inr (s', effs)) \<Rightarrow>
          (if farmObject s g oid = None \<and> farmObject s' g oid \<noteq> None then 1 else 0)
          + issued g oid s' es
      | _ \<Rightarrow> 0)"

definition destroyedInRun :: "string \<Rightarrow> string \<Rightarrow> server \<Rightarrow> event list \<Rightarrow> nat option" where
  "destroyedInRun g oid s es =
     (case run s es of Some (Inr (s', effs)) \<Rightarrow> Some (destroyedCount g oid effs) | _ \<Rightarrow> None)"

subsection \<open>A run that collects one identifier twice\<close>

definition nineCrystals :: "(string, FarmObject) jsmap" where
  "nineCrystals = map crystal [1..<10]"

text \<open>
  Collect \<open>farm-0-x\<close>, let the repopulation timer fire with the random source of the
  first join, collect \<open>farm-0-x\<close> again; and a run whose repopulation uses another random
  source.
\<close>

definition reissue :: "event list" where
  "reissue = [FarmObjectHit ''a'' ''r'' ''farm-0-x'', FarmTimeout ''a'' env0 ''r'',
              FarmObjectHit ''a'' ''r'' ''farm-0-x'']"

definition freshRun :: "event list" where
  "freshRun = [FarmObjectHit ''a'' ''r'' ''farm-1-x'', FarmTimeout ''a'' env1 ''r'',
               CollectResource ''b'' ''r'' ''farm-1-x'', FarmObjectHit ''a'' ''r'' ''farm-1-x'']"

definition collectedOnce :: server where
  "collectedOnce = \<lparr>rooms = [(''r'', [(''a'', alice\<lparr>score := 5\<rparr>)])],
         globalFarmObjects = [(''r'', nineCrystals)],
         obstacles = [(''r'', roomObstaclesLayout)]\<rparr>"

definition refilled :: server where
  "refilled = \<lparr>rooms = [(''r'', [(''a'', alice\<lparr>score := 5\<rparr>)])],
         globalFarmObjects = [(''r'', nineCrystals @ [crystal 0])],
         obstacles = [(''r'', roomObstaclesLayout)]\<rparr>"

definition refilledDuel :: server where
  "refilledDuel = \<lparr>rooms = [(''r'', [(''a'', alice\<lparr>score := 10\<rparr>), (''b'', bob)])],
                   globalFarmObjects = [(''r'', tenGems)],
                   obstacles = [(''r'', roomObstaclesLayout)]\<rparr>"

subsection \<open>Attempts of the placement loop\<close>

text \<open>
  The number of samples the loop has drawn when it returns \<open>y\<close>, having started at index
  \<open>n\<close>: two random numbers per sample.
\<close>

definition attemptsMade :: "nat \<Rightarrow> real \<times> real \<times> nat \<Rightarrow> nat" where
  "attemptsMade n y = (snd (snd y) - n) div 2"

text \<open>
  A random stream whose first \<open>B\<close> samples are the map centre, and the streams whose
  first \<open>B\<close> samples lie in a window around it.
\<close>

definition stubborn :: "nat \<Rightarrow> nat \<Rightarrow> real" where
  "stubborn B n = (if n < 2 * B then 1 / 2 else 1 / 4)"

definition nearCentre :: "nat \<Rightarrow> (nat \<Rightarrow> real) \<Rightarrow> bool" where
  "nearCentre B r = (\<forall>m<2 * B. \<bar>r m - 1 / 2\<bar> \<le> 1 / 40)"

text \<open>
  What \<open>Math.random()\<close> promises, and the layouts that leave no position of the sampled
  rectangle farther than the clearance radius from every obstacle.
\<close>

definition unitStream :: "(nat \<Rightarrow> real) \<Rightarrow> bool" where
  "unitStream r = (\<forall>m. 0 \<le> r m \<and> r m < 1)"

definition noClearance :: "Obstacle list \<Rightarrow> bool" where
  "noClearance roomObstacles =
     (\<forall>x y. 100 \<le> x \<and> x < 1900 \<and> 100 \<le> y \<and> y < 1400 \<longrightarrow>
            \<not> list_all (farFromObstacle x y) roomObstacles)"

definition gridObstacle :: "nat \<Rightarrow> nat \<Rightarrow> Obstacle" where
  "gridObstacle i j =
     \<lparr>obstacle_id = ''grid-'' @ toString (int i) @ ''-'' @ toString (int j),
      obstacle_x = 100 + 150 * int i, obstacle_y = 100 + 150 * int j, part = ''center''\<rparr>"

definition denseLayout :: "Obstacle list" where
  "denseLayout = concat (map (\<lambda>i. map (gridObstacle i) [0..<10]) [0..<13])"

text \<open>
  The collectibles and the obstacles stored under a room identifier (nothing stored reads
  as the empty list), and the obstacle list a join works with: the stored one, or the
  generated layout when none is stored.
\<close>

definition storedObjects :: "server \<Rightarrow> string \<Rightarrow> (string, FarmObject) jsmap" where
  "storedObjects s gameId =
     (case map_of (globalFarmObjects s) gameId of Some m \<Rightarrow> m | None \<Rightarrow> [])"

definition storedObstacles :: "server \<Rightarrow> string \<Rightarrow> Obstacle list" where
  "storedObstacles s gameId =
     (case map_of (obstacles s) gameId of Some os \<Rightarrow> os | None \<Rightarrow> [])"

definition obstaclesAfterJoin :: "server \<Rightarrow> string \<Rightarrow> Obstacle list" where
  "obstaclesAfterJoin s gameId =
     (case map_of (obstacles s) gameId of Some os \<Rightarrow> os | None \<Rightarrow> roomObstaclesLayout)"

definition crowded :: server where
  "crowded = \<lparr>rooms = [(''r'', [(''a'', alice)])],
              globalFarmObjects = [(''r'', [])],
              obstacles = [(''r'', denseLayout)]\<rparr>"

subsection \<open>A join into a room that was left behind\<close>

text \<open>
  The name, the colour and the index of the next unread random number that the join
  handler works with.
\<close>

definition joinName :: "env \<Rightarrow> string option \<Rightarrow> string" where
  "joinName E nameOpt =
     (case nameOpt of Some v \<Rightarrow> v | None \<Rightarrow> ''Player-'' @ toString \<lfloor>rnd E 0 * 1000\<rfloor>)"

definition joinColor :: "int option \<Rightarrow> int" where
  "joinColor colorOpt = (case colorOpt of Some c \<Rightarrow> c | None \<Rightarrow> 1734143)"

definition joinIndex :: "string option \<Rightarrow> nat" where
  "joinIndex nameOpt = (case nameOpt of Some v \<Rightarrow> 0 | None \<Rightarrow> 1)"

text \<open>
  A room identifier with the layout and one collectible stored and no member, and the
  state after a join that tops the collectibles up.
\<close>

definition sparse :: server where
  "sparse = \<lparr>rooms = [],
             globalFarmObjects = [(''r'', [(''farm-1-x'', gem)])],
             obstacles = [(''r'', roomObstaclesLayout)]\<rparr>"

definition topped :: server where
  "topped = \<lparr>rooms = [(''r'', [(''b'', newcomer)])],
             globalFarmObjects = [(''r'', (''farm-1-x'', gem) # map gemAt [0..<9])],
             obstacles = [(''r'', roomObstaclesLayout)]\<rparr>"

section \<open>Properties\<close>

subsection \<open>Association lists\<close>

lemma set_update_subset: "set (AList.update k v al) \<subseteq> insert (k, v) (set al)"
  by (induction al) auto

lemma set_delete_subset: "set (AList.delete k al) \<subseteq> set al"
  by (induction al) auto

lemma has_delete_same: "\<not> has (AList.delete k al) k"
  by (simp add: has_def delete_conv')

subsection \<open>Combat\<close>

lemma pointsToSteal_div: "pointsToSteal target = score target div 2"
  unfolding pointsToSteal_def by linarith

text \<open>
  C5. A hit whose shooter and target are the same identifier returns the state it was
  given, whole (players, collectibles, obstacles, room registry), and has no effect: no
  notification and no timer.
\<close>

theorem C5_self_hit_noop:
  "playerHit s sid now gameId shooterId shooterId = (s, [])"
  by (simp add: playerHit_def)

text \<open>
  C1. In a room holding a shooter and a live target with different identifiers, a hit
  steals \<open>floor(target.score * 0.5)\<close> (which is \<open>score div 2\<close>), adds 20 plus the stolen
  points to the shooter, leaves the target with \<open>max 0 (score - stolen)\<close>, dead, with
  respawn deadline \<open>now + 3000\<close>, schedules the respawn and emits the kill notification
  with both new scores and the stolen amount to the room and to the sender. From target
  100 and shooter 0 the scores are 70 and 50.
\<close>

theorem C1_valid_hit:
  assumes "shooterId \<noteq> targetId"
    and "player s gameId shooterId = Some shooter"
    and "player s gameId targetId = Some target"
    and "isAlive target"
  shows "player (fst (playerHit s sid now gameId shooterId targetId)) gameId shooterId
             = Some (shooter\<lparr>score := score shooter + 20 + score target div 2\<rparr>)
         \<and> player (fst (playerHit s sid now gameId shooterId targetId)) gameId targetId
             = Some (target\<lparr>score := max 0 (score target - score target div 2),
                             isAlive := False, respawnTime := Some (now + 3000)\<rparr>)
         \<and> \<lfloor>real_of_int (score target) * 0.5\<rfloor> = score target div 2
         \<and> snd (playerHit s sid now gameId shooterId targetId)
             = [SetTimeout (RespawnTimer gameId targetId) 3000,
                Emit (ToRoomExceptSender gameId)
                  (PlayerKilled shooterId targetId (score shooter + 20 + score target div 2)
                     (max 0 (score target - score target div 2)) (score target div 2)),
                Emit ToSender
                  (PlayerKilled shooterId targetId (score shooter + 20 + score target div 2)
                     (max 0 (score target - score target div 2)) (score target div 2))]
         \<and> (score target = 100 \<and> score shooter = 0 \<longrightarrow>
               score shooter + 20 + score target div 2 = 70
               \<and> max 0 (score target - score target div 2) = 50)"
proof -
  have fl: "\<lfloor>real_of_int (score target) * 0.5\<rfloor> = score target div 2" by linarith
  show ?thesis
    using assms fl
    by (auto simp add: playerHit_def player_def Let_def pointsToSteal_div update_conv' max_def
             split: option.splits)
qed

theorem C1_valid_hit_witness:
  "''a'' \<noteq> ''b'' \<and> player duel ''r'' ''a'' = Some alice \<and> player duel ''r'' ''b'' = Some bob
   \<and> isAlive bob
   \<and> player (fst (playerHit duel ''a'' 5000 ''r'' ''a'' ''b'')) ''r'' ''a''
        = Some (alice\<lparr>score := 70\<rparr>)
   \<and> player (fst (playerHit duel ''a'' 5000 ''r'' ''a'' ''b'')) ''r'' ''b''
        = Some (bob\<lparr>score := 50, isAlive := False, respawnTime := Some 8000\<rparr>)
   \<and> snd (playerHit duel ''a'' 5000 ''r'' ''a'' ''b'')
        = [SetTimeout (RespawnTimer ''r'' ''b'') 3000,
           Emit (ToRoomExceptSender ''r'') (PlayerKilled ''a'' ''b'' 70 50 50),
           Emit ToSender (PlayerKilled ''a'' ''b'' 70 50 50)]"
proof -
  have h1: "''a'' \<noteq> ''b''" by simp
  have h2: "player duel ''r'' ''a'' = Some alice" by (simp add: player_def duel_def)
  have h3: "player duel ''r'' ''b'' = Some bob" by (simp add: player_def duel_def)
  have h4: "isAlive bob" by (simp add: bob_def)
  have sa: "score alice = 0" by (simp add: alice_def)
  have sb: "score bob = 100" by (simp add: bob_def)
  show ?thesis
    using C1_valid_hit [OF h1 h2 h3 h4, of "''a''" 5000] h1 h2 h3 h4
    by (simp add: sa sb)
qed

subsection \<open>Disconnect\<close>

lemma disconnectEach_lookup:
  "map_of (fst (disconnectEach sid ks R)) g =
     (if g \<in> set ks then
        (case map_of R g of None \<Rightarrow> None
         | Some ps \<Rightarrow> if has ps sid
                      then (if AList.delete sid ps = [] then None else Some (AList.delete sid ps))
                      else Some ps)
      else map_of R g)"
proof (induction ks arbitrary: R)
  case Nil
  show ?case by simp
next
  case (Cons roomId ks)
  show ?case
  proof (cases "map_of R roomId")
    case None
    then show ?thesis using Cons.IH[of R] by (auto split: option.splits)
  next
    case (Some ps0)
    show ?thesis
    proof (cases "has ps0 sid")
      case False
      then show ?thesis using Some Cons.IH[of R] by (auto split: option.splits)
    next
      case True
      define R2 where "R2 = (if length (AList.delete sid ps0) = 0
          then AList.delete roomId (AList.update roomId (AList.delete sid ps0) R)
          else AList.update roomId (AList.delete sid ps0) R)"
      have fsteq: "fst (disconnectEach sid (roomId # ks) R) = fst (disconnectEach sid ks R2)"
        using Some True by (simp add: R2_def Let_def split: prod.splits)
      have look: "map_of R2 g = (if g = roomId
           then (if AList.delete sid ps0 = [] then None else Some (AList.delete sid ps0))
           else map_of R g)"
        by (simp add: R2_def delete_conv' update_conv')
      show ?thesis
        unfolding fsteq Cons.IH[of R2] look
        using Some True by (auto simp add: has_delete_same split: option.splits)
    qed
  qed
qed

lemma disconnectEach_left_None:
  "disconnectEach sid ks R = (R', effs) \<Longrightarrow> Emit sc (PlayerLeft p nm) \<in> set effs \<Longrightarrow>
     nm = None \<and> p = sid"
proof (induction ks arbitrary: R R' effs)
  case Nil
  then show ?case by simp
next
  case (Cons roomId ks)
  show ?case
  proof (cases "map_of R roomId")
    case None
    then show ?thesis using Cons by simp
  next
    case (Some ps0)
    show ?thesis
    proof (cases "has ps0 sid")
      case False
      then show ?thesis using Some Cons by simp
    next
      case True
      define R2 where "R2 = (if length (AList.delete sid ps0) = 0
          then AList.delete roomId (AList.update roomId (AList.delete sid ps0) R)
          else AList.update roomId (AList.delete sid ps0) R)"
      obtain R3 effs3 where r3: "disconnectEach sid ks R2 = (R3, effs3)"
        by (cases "disconnectEach sid ks R2")
      have "effs = Emit (ToRoomExceptSender roomId) (PlayerLeft sid None) # effs3"
        using Cons.prems(1) Some True r3
        by (simp add: R2_def Let_def delete_conv')
      then show ?thesis using Cons.prems(2) Cons.IH[OF r3] by auto
    qed
  qed
qed

lemma disconnectEach_left_member:
  "g \<in> set ks \<Longrightarrow> map_of R g = Some ps \<Longrightarrow> has ps sid \<Longrightarrow>
     Emit (ToRoomExceptSender g) (PlayerLeft sid None) \<in> set (snd (disconnectEach sid ks R))"
proof (induction ks arbitrary: R)
  case Nil
  then show ?case by simp
next
  case (Cons roomId ks)
  show ?case
  proof (cases "roomId = g")
    case True
    then show ?thesis using Cons.prems
      by (simp add: Let_def delete_conv' case_prod_beta)
  next
    case False
    then have gk: "g \<in> set ks" using Cons.prems by simp
    show ?thesis
    proof (cases "map_of R roomId")
      case None
      then show ?thesis using Cons.IH[OF gk Cons.prems(2,3)] by simp
    next
      case (Some ps0)
      show ?thesis
      proof (cases "has ps0 sid")
        case f: False
        then show ?thesis using Some Cons.IH[OF gk Cons.prems(2,3)] by simp
      next
        case t: True
        define R2 where "R2 = (if length (AList.delete sid ps0) = 0
          then AList.delete roomId (AList.update roomId (AList.delete sid ps0) R)
          else AList.update roomId (AList.delete sid ps0) R)"
        have "map_of R2 g = Some ps" using False Cons.prems(2)
          by (simp add: R2_def delete_conv' update_conv')
        from Cons.IH[OF gk this Cons.prems(3)]
        show ?thesis using Some t by (simp add: R2_def Let_def case_prod_beta)
      qed
    qed
  qed
qed

text \<open>
  C9. Every departure notification of a disconnect carries no name (the field is
  \<open>undefined\<close>): the handler deletes the player from the room and then reads the name
  from the room. One such notification goes to each room the player was a member of.
\<close>

theorem C9_left_name_undefined:
  "(\<forall>sc p nm. Emit sc (PlayerLeft p nm) \<in> set (snd (disconnect s sid)) \<longrightarrow> nm = None)
   \<and> (\<forall>g ps. map_of (rooms s) g = Some ps \<and> has ps sid \<longrightarrow>
         Emit (ToRoomExceptSender g) (PlayerLeft sid None) \<in> set (snd (disconnect s sid)))"
proof (intro conjI allI impI)
  fix sc p nm
  assume "Emit sc (PlayerLeft p nm) \<in> set (snd (disconnect s sid))"
  then show "nm = None"
    using disconnectEach_left_None[of sid "map fst (rooms s)" "rooms s" _ _ sc p nm]
    by (auto simp add: disconnect_def split: prod.splits)
next
  fix g ps
  assume a: "map_of (rooms s) g = Some ps \<and> has ps sid"
  then have "g \<in> set (map fst (rooms s))"
    by (metis map_of_eq_None_iff option.distinct(1) set_map)
  from disconnectEach_left_member[OF this, of "rooms s" ps sid] a
  have "Emit (ToRoomExceptSender g) (PlayerLeft sid None)
          \<in> set (snd (disconnectEach sid (map fst (rooms s)) (rooms s)))" by simp
  then show "Emit (ToRoomExceptSender g) (PlayerLeft sid None) \<in> set (snd (disconnect s sid))"
    by (simp add: disconnect_def case_prod_beta)
qed

theorem C9_left_name_undefined_witness:
  "map_of (rooms duel) ''r'' = Some [(''a'', alice), (''b'', bob)]
   \<and> has [(''a'', alice), (''b'', bob)] ''b''
   \<and> snd (disconnect duel ''b'') = [Emit (ToRoomExceptSender ''r'') (PlayerLeft ''b'' None)]
   \<and> Emit (ToRoomExceptSender ''r'') (PlayerLeft ''b'' None) \<in> set (snd (disconnect duel ''b''))"
proof -
  have h1: "map_of (rooms duel) ''r'' = Some [(''a'', alice), (''b'', bob)]"
    by (simp add: duel_def)
  have h2: "has [(''a'', alice), (''b'', bob)] ''b''" by (simp add: has_def)
  have ev: "snd (disconnect duel ''b'')
              = [Emit (ToRoomExceptSender ''r'') (PlayerLeft ''b'' None)]"
    by (simp add: disconnect_def duel_def has_def Let_def)
  show ?thesis
    using C9_left_name_undefined [of duel "''b''"] h1 h2 ev by simp
qed

subsection \<open>Collecting\<close>

lemma farmObjectHit_present:
  assumes "farmObject s gameId objectId = Some obj" and "player s gameId sid = Some p"
  shows "player (fst (farmObjectHit s sid gameId objectId)) gameId sid
           = Some (p\<lparr>score := score p + farm_value obj\<rparr>)
       \<and> farmObject (fst (farmObjectHit s sid gameId objectId)) gameId objectId = None
       \<and> snd (farmObjectHit s sid gameId objectId)
           = [Emit (ToRoomExceptSender gameId)
                (FarmObjectDestroyed objectId sid (score p + farm_value obj)),
              Emit ToSender (FarmObjectDestroyed objectId sid (score p + farm_value obj)),
              SetTimeout (FarmTimer gameId) 2000]"
  using assms
  by (auto simp add: farmObjectHit_def farmObject_def player_def Let_def update_conv' delete_conv'
           split: option.splits)

lemma collectResource_present:
  assumes "farmObject s gameId objectId = Some obj" and "player s gameId sid = Some p"
  shows "player (fst (collectResource s sid gameId objectId)) gameId sid
           = Some (p\<lparr>score := score p + farm_value obj\<rparr>)
       \<and> farmObject (fst (collectResource s sid gameId objectId)) gameId objectId = None
       \<and> snd (collectResource s sid gameId objectId)
           = [Emit (ToRoomExceptSender gameId)
                (FarmObjectDestroyed objectId sid (score p + farm_value obj)),
              Emit ToSender (FarmObjectDestroyed objectId sid (score p + farm_value obj)),
              SetTimeout (FarmTimer gameId) 2000]"
  using assms
  by (auto simp add: collectResource_def farmObject_def player_def Let_def update_conv' delete_conv'
           split: option.splits)

lemma farmObjectHit_absent:
  "farmObject s gameId objectId = None \<Longrightarrow> farmObjectHit s sid gameId objectId = (s, [])"
  by (auto simp add: farmObjectHit_def farmObject_def split: option.splits)

lemma collectResource_absent:
  "farmObject s gameId objectId = None \<Longrightarrow> collectResource s sid gameId objectId = (s, [])"
  by (auto simp add: collectResource_def farmObject_def split: option.splits)

lemma disconnectEach_no_destroyed:
  "destroyedCount g oid (snd (disconnectEach sid ks R)) = 0"
proof (induction ks arbitrary: R)
  case Nil
  show ?case by (simp add: destroyedCount_def)
next
  case (Cons roomId ks)
  show ?case using Cons.IH
    by (auto simp add: destroyedCount_def Let_def case_prod_beta split: option.splits)
qed

lemma generateFarmObjects_frame:
  "generateFarmObjects s E n gameId c = Some (Inr (s', effs, n')) \<Longrightarrow>
     rooms s' = rooms s \<and> obstacles s' = obstacles s \<and> destroyedCount g oid effs = 0"
  by (auto simp add: generateFarmObjects_def Let_def destroyedCount_def
        split: option.splits sum.splits if_splits)

lemma generateObstacles_frame:
  "rooms (fst (generateObstacles s gameId)) = rooms s
   \<and> globalFarmObjects (fst (generateObstacles s gameId)) = globalFarmObjects s"
  by (simp add: generateObstacles_def Let_def)

lemma joinGame_split:
  assumes "joinGame s sid E gameId nameOpt colorOpt = Some (Inr (s', effs))"
  obtains nm col n0 effs0 n' where
    "generateFarmObjects (fst (generateObstacles (addPlayer s sid gameId nm col) gameId))
        E n0 gameId 10 = Some (Inr (s', effs0, n'))"
    and "effs = joinEffects s' sid gameId nm col
                  (snd (generateObstacles (addPlayer s sid gameId nm col) gameId)) effs0"
  using assms unfolding joinGame_def Let_def
  by (auto split: option.splits sum.splits prod.splits)

lemma joinGame_no_destroyed:
  assumes "joinGame s sid E gameId nameOpt colorOpt = Some (Inr (s', effs))"
  shows "destroyedCount g oid effs = 0"
proof -
  from assms obtain nm col n0 effs0 n' where
    gen: "generateFarmObjects (fst (generateObstacles (addPlayer s sid gameId nm col) gameId))
        E n0 gameId 10 = Some (Inr (s', effs0, n'))"
    and ef: "effs = joinEffects s' sid gameId nm col
                  (snd (generateObstacles (addPlayer s sid gameId nm col) gameId)) effs0"
    by (rule joinGame_split)
  from generateFarmObjects_frame[OF gen, of g oid] have "destroyedCount g oid effs0 = 0" by simp
  then show ?thesis unfolding ef joinEffects_def destroyedCount_def
    by (auto split: option.splits)
qed

lemma step_other_no_destroyed:
  assumes "step s e = Some (Inr (s', effs))"
    and "\<forall>sid gameId objectId. e \<noteq> FarmObjectHit sid gameId objectId
           \<and> e \<noteq> CollectResource sid gameId objectId"
  shows "destroyedCount g oid effs = 0"
proof (cases e)
  case (JoinGame sid E gameId nameOpt colorOpt)
  then show ?thesis using assms(1) joinGame_no_destroyed by simp
next
  case (PlayerMove sid gameId pos vel)
  then show ?thesis using assms(1) by (auto simp add: playerMove_def destroyedCount_def)
next
  case (Disconnect sid)
  then show ?thesis using assms(1) disconnectEach_no_destroyed[of g oid sid]
    by (auto simp add: disconnect_def split: prod.splits) (metis snd_conv)
next
  case (PlayerShoot sid gameId direction pos)
  then show ?thesis using assms(1) by (auto simp add: playerShoot_def destroyedCount_def)
next
  case (PlayerHit sid now gameId shooterId targetId)
  then show ?thesis using assms(1)
    by (auto simp add: playerHit_def destroyedCount_def Let_def split: option.splits if_splits)
next
  case (FarmObjectHit sid gameId objectId)
  then show ?thesis using assms(2) by simp
next
  case (CollectResource sid gameId objectId)
  then show ?thesis using assms(2) by simp
next
  case (RespawnTimeout sid rx ry gameId targetId)
  then show ?thesis using assms(1)
    by (auto simp add: respawnPlayer_def destroyedCount_def Let_def split: option.splits)
next
  case (FarmTimeout sid E gameId)
  then show ?thesis using assms(1) generateFarmObjects_frame[where g=g and oid=oid]
    by (auto simp add: farmTimeout_def split: option.splits sum.splits prod.splits)
qed

lemma farmLoop_keeps:
  "farmLoop E obs k i n objs = Some (Inr (objs', n')) \<Longrightarrow> map_of objs oid \<noteq> None \<Longrightarrow>
     map_of objs' oid \<noteq> None"
proof (induction k arbitrary: i n objs)
  case 0
  then show ?case by simp
next
  case (Suc k)
  from Suc.prems(1) obtain x y m where
    sp: "samplePosition obs (rnd E) (n + 2) = Some (x, y, m)"
    by (auto simp add: Let_def split: option.splits)
  define ident where "ident = ''farm-'' @ toString (clock E i) @ ''-'' @ base36 E (rnd E n)"
  define idx where "idx = \<lfloor>rnd E (n + 1) * real (length typesAndValues)\<rfloor>"
  define obj where "obj = \<lparr>farm_id = ident, farm_position = (x, y),
                     farm_type = fst (typesAndValues ! nat idx),
                     farm_value = snd (typesAndValues ! nat idx)\<rparr>"
  from Suc.prems(1) sp have
    rec: "farmLoop E obs k (i + 1) m (AList.update ident obj objs) = Some (Inr (objs', n'))"
    by (auto simp add: Let_def ident_def idx_def obj_def split: if_splits)
  have "map_of (AList.update ident obj objs) oid \<noteq> None"
    using Suc.prems(2) by (simp add: update_conv')
  from Suc.IH[OF rec this] show ?case .
qed

lemma farmLoop_keeps':
  "farmLoop E obs k i n objs = Some (Inr (objs', n')) \<Longrightarrow> map_of objs oid = Some v \<Longrightarrow>
     \<exists>v'. map_of objs' oid = Some v'"
  using farmLoop_keeps[of E obs k i n objs objs' n' oid] by auto

lemma generateFarmObjects_keeps:
  "generateFarmObjects s E n gameId c = Some (Inr (s', effs, n')) \<Longrightarrow>
     farmObject s g oid \<noteq> None \<Longrightarrow> farmObject s' g oid \<noteq> None"
  by (auto simp add: generateFarmObjects_def Let_def farmObject_def has_def update_conv'
        split: option.splits sum.splits if_splits dest: farmLoop_keeps')

lemma farmObjectHit_count_eq:
  "destroyedCount g oid (snd (farmObjectHit s sid gameId objectId))
     + (if farmObject (fst (farmObjectHit s sid gameId objectId)) g oid \<noteq> None then 1 else 0)
   = (if farmObject s g oid \<noteq> None then 1 else 0)"
  by (auto simp add: farmObjectHit_def farmObject_def destroyedCount_def Let_def
        update_conv' delete_conv' split: option.splits)

lemma collectResource_count_eq:
  "destroyedCount g oid (snd (collectResource s sid gameId objectId))
     + (if farmObject (fst (collectResource s sid gameId objectId)) g oid \<noteq> None then 1 else 0)
   = (if farmObject s g oid \<noteq> None then 1 else 0)"
  by (auto simp add: collectResource_def farmObject_def destroyedCount_def Let_def
        update_conv' delete_conv' split: option.splits)

lemma joinGame_keeps:
  assumes "joinGame s sid E gameId nameOpt colorOpt = Some (Inr (s', effs))"
    and "farmObject s g oid \<noteq> None"
  shows "farmObject s' g oid \<noteq> None"
proof -
  from assms(1) obtain nm col n0 effs0 n' where
    gen: "generateFarmObjects (fst (generateObstacles (addPlayer s sid gameId nm col) gameId))
        E n0 gameId 10 = Some (Inr (s', effs0, n'))"
    by (rule joinGame_split)
  have "globalFarmObjects (fst (generateObstacles (addPlayer s sid gameId nm col) gameId))
          = globalFarmObjects s"
    by (simp add: generateObstacles_def addPlayer_def Let_def)
  then have "farmObject (fst (generateObstacles (addPlayer s sid gameId nm col) gameId)) g oid
          \<noteq> None"
    using assms(2) by (simp add: farmObject_def)
  from generateFarmObjects_keeps[OF gen this] show ?thesis .
qed

lemma step_other_keeps:
  assumes "step s e = Some (Inr (s', effs))"
    and "\<forall>sid gameId objectId. e \<noteq> FarmObjectHit sid gameId objectId
           \<and> e \<noteq> CollectResource sid gameId objectId"
    and "farmObject s g oid \<noteq> None"
  shows "farmObject s' g oid \<noteq> None"
proof (cases e)
  case (JoinGame sid E gameId nameOpt colorOpt)
  then show ?thesis using assms(1,3) joinGame_keeps by simp
next
  case (PlayerMove sid gameId pos vel)
  then show ?thesis using assms(1,3)
    by (auto simp add: playerMove_def farmObject_def split: option.splits)
next
  case (Disconnect sid)
  then show ?thesis using assms(1,3)
    by (auto simp add: disconnect_def farmObject_def split: prod.splits)
next
  case (PlayerShoot sid gameId direction pos)
  then show ?thesis using assms(1,3) by (auto simp add: playerShoot_def)
next
  case (PlayerHit sid now gameId shooterId targetId)
  then show ?thesis using assms(1,3)
    by (auto simp add: playerHit_def farmObject_def Let_def split: option.splits if_splits)
next
  case (FarmObjectHit sid gameId objectId)
  then show ?thesis using assms(2) by simp
next
  case (CollectResource sid gameId objectId)
  then show ?thesis using assms(2) by simp
next
  case (RespawnTimeout sid rx ry gameId targetId)
  then show ?thesis using assms(1,3)
    by (auto simp add: respawnPlayer_def farmObject_def Let_def split: option.splits)
next
  case (FarmTimeout sid E gameId)
  then show ?thesis using assms(1,3) generateFarmObjects_keeps[where g=g and oid=oid]
    by (auto simp add: farmTimeout_def split: option.splits sum.splits prod.splits)
qed

lemma step_count_eq:
  assumes "step s e = Some (Inr (s', effs))"
    and "farmObject s' g oid = None \<or> farmObject s g oid \<noteq> None"
  shows "destroyedCount g oid effs + (if farmObject s' g oid \<noteq> None then 1 else 0)
           = (if farmObject s g oid \<noteq> None then 1 else 0)"
proof (cases "\<exists>sid gameId objectId. e = FarmObjectHit sid gameId objectId
           \<or> e = CollectResource sid gameId objectId")
  case True
  then obtain sid gameId objectId where
    "e = FarmObjectHit sid gameId objectId \<or> e = CollectResource sid gameId objectId" by blast
  then show ?thesis
  proof
    assume e: "e = FarmObjectHit sid gameId objectId"
    with assms(1) have "s' = fst (farmObjectHit s sid gameId objectId)"
      "effs = snd (farmObjectHit s sid gameId objectId)" by (simp_all add: prod_eq_iff)
    then show ?thesis using farmObjectHit_count_eq[of g oid s sid gameId objectId] by simp
  next
    assume e: "e = CollectResource sid gameId objectId"
    with assms(1) have "s' = fst (collectResource s sid gameId objectId)"
      "effs = snd (collectResource s sid gameId objectId)" by (simp_all add: prod_eq_iff)
    then show ?thesis using collectResource_count_eq[of g oid s sid gameId objectId] by simp
  qed
next
  case False
  then have n: "\<forall>sid gameId objectId. e \<noteq> FarmObjectHit sid gameId objectId
           \<and> e \<noteq> CollectResource sid gameId objectId" by blast
  have "destroyedCount g oid effs = 0"
    using step_other_no_destroyed[OF assms(1) n] .
  moreover have "farmObject s g oid \<noteq> None \<Longrightarrow> farmObject s' g oid \<noteq> None"
    using step_other_keeps[OF assms(1) n] .
  ultimately show ?thesis using assms(2) by auto
qed

subsection \<open>Dead players\<close>

lemma collectResource_eq: "collectResource s sid gameId k = farmObjectHit s sid gameId k"
  by (simp add: collectResource_def farmObjectHit_def)

lemma playerHit_dead: "isDead s g t \<Longrightarrow> playerHit s sid now g shooter t = (s, [])"
  by (auto simp add: isDead_def player_def playerHit_def split: option.splits)

lemma playerHit_absent:
  "player s g shooter = None \<or> player s g t = None \<Longrightarrow> playerHit s sid now g shooter t = (s, [])"
  by (auto simp add: player_def playerHit_def split: option.splits)

lemma respawnPlayer_absent:
  "player s g t = None \<Longrightarrow> respawnPlayer s sid rx ry g t = (s, [])"
  by (auto simp add: player_def respawnPlayer_def split: option.splits)

lemma respawnPlayer_alive:
  "player s g t = Some p \<Longrightarrow>
     player (fst (respawnPlayer s sid rx ry g t)) g t
       = Some (p\<lparr>isAlive := True, position := (rx * 1800 + 100, ry * 1300 + 100),
                 velocity := (0, 0)\<rparr>)"
  by (auto simp add: player_def respawnPlayer_def Let_def update_conv' split: option.splits)

lemma playerHit_kills:
  "shooter \<noteq> t \<Longrightarrow> player s g shooter = Some q \<Longrightarrow> player s g t = Some p \<Longrightarrow> isAlive p \<Longrightarrow>
     isDead (fst (playerHit s sid now g shooter t)) g t"
  by (auto simp add: isDead_def player_def playerHit_def Let_def update_conv' split: option.splits)

lemma player_addPlayer:
  "player s g t = Some p \<Longrightarrow> player (addPlayer s sid gameId nm col) g t = Some p"
  by (auto simp add: player_def addPlayer_def Let_def has_def update_conv' split: option.splits)

lemma joinGame_rooms:
  assumes "joinGame s sid E gameId nameOpt colorOpt = Some (Inr (s', effs))"
  obtains nm col where "rooms s' = rooms (addPlayer s sid gameId nm col)"
proof -
  from assms obtain nm col n0 effs0 n' where
    gen: "generateFarmObjects (fst (generateObstacles (addPlayer s sid gameId nm col) gameId))
        E n0 gameId 10 = Some (Inr (s', effs0, n'))"
    by (rule joinGame_split)
  from generateFarmObjects_frame[OF gen] generateObstacles_frame
  have "rooms s' = rooms (addPlayer s sid gameId nm col)" by simp
  then show ?thesis by (rule that)
qed

lemma player_cong: "rooms s' = rooms s \<Longrightarrow> player s' g t = player s g t"
  by (simp add: player_def)

lemma player_disconnect:
  "player (fst (disconnect s sid)) g t = None \<or> player (fst (disconnect s sid)) g t = player s g t"
proof -
  have r: "rooms (fst (disconnect s sid)) = fst (disconnectEach sid (map fst (rooms s)) (rooms s))"
    by (simp add: disconnect_def case_prod_beta)
  show ?thesis
    unfolding player_def r disconnectEach_lookup
    by (auto simp add: delete_conv' split: option.splits)
qed

lemma step_stays_dead:
  assumes "step s e = Some (Inr (s', effs))" and "isDead s g t"
    and "\<forall>sid rx ry. e \<noteq> RespawnTimeout sid rx ry g t"
  shows "player s' g t = None \<or> isDead s' g t"
proof (cases e)
  case (JoinGame sid E gameId nameOpt colorOpt)
  with assms(1) have j: "joinGame s sid E gameId nameOpt colorOpt = Some (Inr (s', effs))" by simp
  from j obtain nm col where r: "rooms s' = rooms (addPlayer s sid gameId nm col)"
    by (rule joinGame_rooms)
  from assms(2) obtain p where p: "player s g t = Some p" "\<not> isAlive p"
    by (auto simp add: isDead_def split: option.splits)
  have "player s' g t = Some p" using player_cong[OF r] player_addPlayer[OF p(1)] by simp
  then show ?thesis using p by (simp add: isDead_def)
next
  case (PlayerMove sid gameId pos vel)
  then show ?thesis using assms(1,2)
    by (auto simp add: playerMove_def isDead_def player_def update_conv'
          split: option.splits if_splits)
next
  case (Disconnect sid)
  then have "s' = fst (disconnect s sid)" using assms(1) by (simp add: prod_eq_iff)
  then show ?thesis using player_disconnect[of s sid g t] assms(2) by (auto simp add: isDead_def)
next
  case (PlayerShoot sid gameId direction pos)
  then show ?thesis using assms(1,2) by (auto simp add: playerShoot_def)
next
  case (PlayerHit sid now gameId shooterId targetId)
  then show ?thesis using assms(1,2)
    by (auto simp add: playerHit_def isDead_def player_def Let_def update_conv'
          split: option.splits if_splits)
next
  case (FarmObjectHit sid gameId objectId)
  then show ?thesis using assms(1,2)
    by (auto simp add: farmObjectHit_def isDead_def player_def Let_def update_conv'
          split: option.splits if_splits)
next
  case (CollectResource sid gameId objectId)
  then show ?thesis using assms(1,2)
    by (auto simp add: collectResource_def isDead_def player_def Let_def update_conv'
          split: option.splits if_splits)
next
  case (RespawnTimeout sid rx ry gameId targetId)
  then have "gameId \<noteq> g \<or> targetId \<noteq> t" using assms(3) by auto
  then show ?thesis using assms(1,2) RespawnTimeout
    by (auto simp add: respawnPlayer_def isDead_def player_def Let_def update_conv'
          split: option.splits if_splits)
next
  case (FarmTimeout sid E gameId)
  then have "rooms s' = rooms s" using assms(1) generateFarmObjects_frame
    by (auto simp add: farmTimeout_def split: option.splits sum.splits prod.splits)
  then show ?thesis using assms(2) by (simp add: isDead_def player_def)
qed

lemma duel_kill: "playerHit duel ''a'' 5000 ''r'' ''a'' ''b'' =
   (afterKill, [SetTimeout (RespawnTimer ''r'' ''b'') 3000,
           Emit (ToRoomExceptSender ''r'') (PlayerKilled ''a'' ''b'' 70 50 50),
           Emit ToSender (PlayerKilled ''a'' ''b'' 70 50 50)])"
  by (simp add: playerHit_def duel_def afterKill_def deadBob_def alice_def bob_def Let_def
        pointsToSteal_div)

lemma duel_collect: "farmObjectHit duel ''a'' ''r'' ''farm-1-x'' =
   (afterCollect, [Emit (ToRoomExceptSender ''r'') (FarmObjectDestroyed ''farm-1-x'' ''a'' 10),
      Emit ToSender (FarmObjectDestroyed ''farm-1-x'' ''a'' 10),
      SetTimeout (FarmTimer ''r'') 2000])"
  by (simp add: farmObjectHit_def duel_def afterCollect_def alice_def gem_def Let_def)

lemma farmObjectHit_setAlive:
  assumes "farmObject s g oid = Some obj" and "player s g sid = Some p"
  shows "farmObjectHit (setAlive s g sid b) sid g oid
           = (setAlive (fst (farmObjectHit s sid g oid)) g sid b, snd (farmObjectHit s sid g oid))"
proof -
  obtain R F Ob where s: "s = \<lparr>rooms = R, globalFarmObjects = F, obstacles = Ob\<rparr>"
    by (cases s) simp
  show ?thesis
    using assms unfolding s
    by (cases p)
       (auto simp add: farmObjectHit_def setAlive_def farmObject_def player_def Let_def
          update_conv' split: option.splits)
qed

text \<open>
  C10. Collection does not look at the alive flag. A member of the room whose \<open>isAlive\<close>
  is false collects an existing object by projectile or by proximity: the score is
  credited, the object is removed, the object-destroyed notification goes to the room and
  to the sender and the repopulation timer is set. The outcome is the one of the same
  player alive: the handler commutes with setting the flag.
\<close>

theorem C10_dead_player_collects:
  assumes "farmObject s g oid = Some obj" and "player s g sid = Some p" and "\<not> isAlive p"
  shows "player (fst (farmObjectHit s sid g oid)) g sid
           = Some (p\<lparr>score := score p + farm_value obj\<rparr>)
       \<and> farmObject (fst (farmObjectHit s sid g oid)) g oid = None
       \<and> snd (farmObjectHit s sid g oid)
           = [Emit (ToRoomExceptSender g) (FarmObjectDestroyed oid sid (score p + farm_value obj)),
              Emit ToSender (FarmObjectDestroyed oid sid (score p + farm_value obj)),
              SetTimeout (FarmTimer g) 2000]
       \<and> collectResource s sid g oid = farmObjectHit s sid g oid
       \<and> farmObjectHit (setAlive s g sid True) sid g oid
           = (setAlive (fst (farmObjectHit s sid g oid)) g sid True,
              snd (farmObjectHit s sid g oid))"
  using farmObjectHit_present[OF assms(1,2)] collectResource_eq[of s sid g oid]
    farmObjectHit_setAlive[OF assms(1,2), of True]
  by simp

theorem C10_dead_player_collects_witness:
  "farmObject afterKill ''r'' ''farm-1-x'' = Some gem
   \<and> player afterKill ''r'' ''b'' = Some deadBob \<and> \<not> isAlive deadBob
   \<and> player (fst (farmObjectHit afterKill ''b'' ''r'' ''farm-1-x'')) ''r'' ''b''
        = Some (deadBob\<lparr>score := 60\<rparr>)
   \<and> farmObject (fst (farmObjectHit afterKill ''b'' ''r'' ''farm-1-x'')) ''r'' ''farm-1-x'' = None
   \<and> snd (collectResource afterKill ''b'' ''r'' ''farm-1-x'')
        = [Emit (ToRoomExceptSender ''r'') (FarmObjectDestroyed ''farm-1-x'' ''b'' 60),
           Emit ToSender (FarmObjectDestroyed ''farm-1-x'' ''b'' 60),
           SetTimeout (FarmTimer ''r'') 2000]"
proof -
  have h1: "farmObject afterKill ''r'' ''farm-1-x'' = Some gem"
    by (simp add: farmObject_def afterKill_def)
  have h2: "player afterKill ''r'' ''b'' = Some deadBob" by (simp add: player_def afterKill_def)
  have h3: "\<not> isAlive deadBob" by (simp add: deadBob_def)
  have v: "score deadBob = 50" "farm_value gem = 10" by (simp_all add: deadBob_def gem_def)
  show ?thesis
    using C10_dead_player_collects [OF h1 h2 h3] h1 h2 h3 by (simp add: v)
qed

text \<open>
  C4. A hit on a dead target is a no-op; a hit whose shooter or target is not in the room
  (or whose room does not exist) is a no-op; the respawn callback is a no-op when the room
  or the target is gone. A valid hit leaves the target dead, a step other than the
  respawn callback for that player leaves a dead player dead (or removes it), and the
  respawn callback sets it alive.
\<close>

theorem C4_dead_target_noop:
  "(isDead s g t \<longrightarrow> playerHit s sid now g shooter t = (s, []))
   \<and> (player s g shooter = None \<or> player s g t = None \<longrightarrow>
        playerHit s sid now g shooter t = (s, []))
   \<and> (player s g t = None \<longrightarrow> respawnPlayer s sid rx ry g t = (s, []))
   \<and> (shooter \<noteq> t \<and> player s g shooter = Some q \<and> player s g t = Some p \<and> isAlive p \<longrightarrow>
        isDead (fst (playerHit s sid now g shooter t)) g t)
   \<and> (step s e = Some (Inr (s', effs)) \<and> isDead s g t
        \<and> (\<forall>sid' rx' ry'. e \<noteq> RespawnTimeout sid' rx' ry' g t) \<longrightarrow>
        player s' g t = None \<or> isDead s' g t)
   \<and> (player s g t = Some p \<longrightarrow>
        player (fst (respawnPlayer s sid rx ry g t)) g t
          = Some (p\<lparr>isAlive := True, position := (rx * 1800 + 100, ry * 1300 + 100),
                    velocity := (0, 0)\<rparr>))"
proof (intro conjI impI)
  assume "isDead s g t"
  then show "playerHit s sid now g shooter t = (s, [])" by (rule playerHit_dead)
next
  assume "player s g shooter = None \<or> player s g t = None"
  then show "playerHit s sid now g shooter t = (s, [])" by (rule playerHit_absent)
next
  assume "player s g t = None"
  then show "respawnPlayer s sid rx ry g t = (s, [])" by (rule respawnPlayer_absent)
next
  assume "shooter \<noteq> t \<and> player s g shooter = Some q \<and> player s g t = Some p \<and> isAlive p"
  then show "isDead (fst (playerHit s sid now g shooter t)) g t"
    using playerHit_kills by blast
next
  assume "step s e = Some (Inr (s', effs)) \<and> isDead s g t
        \<and> (\<forall>sid' rx' ry'. e \<noteq> RespawnTimeout sid' rx' ry' g t)"
  then show "player s' g t = None \<or> isDead s' g t"
    using step_stays_dead by blast
next
  assume "player s g t = Some p"
  then show "player (fst (respawnPlayer s sid rx ry g t)) g t
          = Some (p\<lparr>isAlive := True, position := (rx * 1800 + 100, ry * 1300 + 100),
                    velocity := (0, 0)\<rparr>)" by (rule respawnPlayer_alive)
qed

theorem C4_dead_target_noop_witness:
  "isDead afterKill ''r'' ''b''
   \<and> playerHit afterKill ''a'' 6000 ''r'' ''a'' ''b'' = (afterKill, [])
   \<and> player duel ''r'' ''z'' = None
   \<and> playerHit duel ''a'' 6000 ''r'' ''a'' ''z'' = (duel, [])
   \<and> playerHit duel ''a'' 6000 ''r'' ''z'' ''b'' = (duel, [])
   \<and> player duel ''q'' ''b'' = None
   \<and> respawnPlayer duel ''a'' (1/2) (1/2) ''q'' ''b'' = (duel, [])
   \<and> respawnPlayer duel ''a'' (1/2) (1/2) ''r'' ''z'' = (duel, [])
   \<and> step afterKill (PlayerHit ''a'' 6000 ''r'' ''a'' ''b'') = Some (Inr (afterKill, []))
   \<and> player (fst (respawnPlayer afterKill ''a'' (1/2) (1/2) ''r'' ''b'')) ''r'' ''b''
        = Some (deadBob\<lparr>isAlive := True, position := (1000, 750), velocity := (0, 0)\<rparr>)"
proof -
  have d: "isDead afterKill ''r'' ''b''"
    by (simp add: isDead_def player_def afterKill_def deadBob_def)
  have z: "player duel ''r'' ''z'' = None" by (simp add: player_def duel_def)
  have q: "player duel ''q'' ''b'' = None" by (simp add: player_def duel_def)
  have b: "player afterKill ''r'' ''b'' = Some deadBob" by (simp add: player_def afterKill_def)
  note t1 = C4_dead_target_noop [of afterKill "''r''" "''b''" "''a''" 6000 "''a''" "1/2" "1/2"
               _ deadBob]
  note t2 = C4_dead_target_noop [of duel "''r''" "''z''" "''a''" 6000 "''a''" "1/2" "1/2"]
  note t3 = C4_dead_target_noop [of duel "''r''" "''b''" "''a''" 6000 "''z''"]
  note t4 = C4_dead_target_noop [of duel "''q''" "''b''" "''a''" 6000 "''a''" "1/2" "1/2"]
  have k: "playerHit afterKill ''a'' 6000 ''r'' ''a'' ''b'' = (afterKill, [])" using t1 d by blast
  show ?thesis
    using t1 t2 t3 t4 d z q b k by simp
qed

subsection \<open>Evaluating the generators\<close>

lemma upt3: "[0..<3] = [0, 1, 2]" "[Suc 0..<3] = [1, 2]" "[0..<5] = [0,1,2,3,4]"
  by (simp_all add: upt_rec)

lemma toString_digits:
  "toString 0 = ''0''" "toString 1 = ''1''" "toString 2 = ''2''" "toString 3 = ''3''"
  "toString 4 = ''4''" "toString 5 = ''5''"
  "toString 300 = ''300''" "toString 1700 = ''1700''" "toString 1100 = ''1100''"
  by (simp_all add: toString_def toString_nat.simps digit_char_def)

lemma createLShape_coords:
  "map coords (createLShape bx by r) = map (rotatePoint r bx by) (lTemplate bx by)"
  by (simp add: createLShape_def lTemplate_def stemPoint_def footPoint_def coords_def
        case_prod_beta comp_def)

lemma layout_explicit:
  "roomObstaclesLayout =
    [\<lparr>obstacle_id = ''obstacle-L-300-300-0'', obstacle_x = 300, obstacle_y = 300, part = ''stem''\<rparr>,
     \<lparr>obstacle_id = ''obstacle-L-300-300-1'', obstacle_x = 300, obstacle_y = 360, part = ''stem''\<rparr>,
     \<lparr>obstacle_id = ''obstacle-L-300-300-2'', obstacle_x = 300, obstacle_y = 420, part = ''stem''\<rparr>,
     \<lparr>obstacle_id = ''obstacle-L-300-300-4'', obstacle_x = 360, obstacle_y = 420, part = ''foot''\<rparr>,
     \<lparr>obstacle_id = ''obstacle-L-300-300-5'', obstacle_x = 420, obstacle_y = 420, part = ''foot''\<rparr>,
     \<lparr>obstacle_id = ''obstacle-L-1700-300-0'', obstacle_x = 1700, obstacle_y = 300, part = ''stem''\<rparr>,
     \<lparr>obstacle_id = ''obstacle-L-1700-300-1'', obstacle_x = 1640, obstacle_y = 300, part = ''stem''\<rparr>,
     \<lparr>obstacle_id = ''obstacle-L-1700-300-2'', obstacle_x = 1580, obstacle_y = 300, part = ''stem''\<rparr>,
     \<lparr>obstacle_id = ''obstacle-L-1700-300-4'', obstacle_x = 1580, obstacle_y = 360, part = ''foot''\<rparr>,
     \<lparr>obstacle_id = ''obstacle-L-1700-300-5'', obstacle_x = 1580, obstacle_y = 420, part = ''foot''\<rparr>,
     \<lparr>obstacle_id = ''obstacle-L-300-1100-0'', obstacle_x = 300, obstacle_y = 1100, part = ''stem''\<rparr>,
     \<lparr>obstacle_id = ''obstacle-L-300-1100-1'', obstacle_x = 360, obstacle_y = 1100, part = ''stem''\<rparr>,
     \<lparr>obstacle_id = ''obstacle-L-300-1100-2'', obstacle_x = 420, obstacle_y = 1100, part = ''stem''\<rparr>,
     \<lparr>obstacle_id = ''obstacle-L-300-1100-4'', obstacle_x = 420, obstacle_y = 1040, part = ''foot''\<rparr>,
     \<lparr>obstacle_id = ''obstacle-L-300-1100-5'', obstacle_x = 420, obstacle_y = 980, part = ''foot''\<rparr>,
     \<lparr>obstacle_id = ''obstacle-L-1700-1100-0'', obstacle_x = 1700, obstacle_y = 1100, part = ''stem''\<rparr>,
     \<lparr>obstacle_id = ''obstacle-L-1700-1100-1'', obstacle_x = 1700, obstacle_y = 1040, part = ''stem''\<rparr>,
     \<lparr>obstacle_id = ''obstacle-L-1700-1100-2'', obstacle_x = 1700, obstacle_y = 980, part = ''stem''\<rparr>,
     \<lparr>obstacle_id = ''obstacle-L-1700-1100-4'', obstacle_x = 1640, obstacle_y = 980, part = ''foot''\<rparr>,
     \<lparr>obstacle_id = ''obstacle-L-1700-1100-5'', obstacle_x = 1580, obstacle_y = 980, part = ''foot''\<rparr>,
     \<lparr>obstacle_id = ''obstacle-center-0'', obstacle_x = 1000, obstacle_y = 750, part = ''center''\<rparr>,
     \<lparr>obstacle_id = ''obstacle-center-1'', obstacle_x = 1000, obstacle_y = 650, part = ''center''\<rparr>,
     \<lparr>obstacle_id = ''obstacle-center-2'', obstacle_x = 1000, obstacle_y = 850, part = ''center''\<rparr>,
     \<lparr>obstacle_id = ''obstacle-center-3'', obstacle_x = 900, obstacle_y = 750, part = ''center''\<rparr>,
     \<lparr>obstacle_id = ''obstacle-center-4'', obstacle_x = 1100, obstacle_y = 750, part = ''center''\<rparr>]"
  by (simp add: roomObstaclesLayout_def createLShape_def stemPoint_def footPoint_def
        rotatePoint_def centerPoint_def centerObstacles_def upt3 toString_digits)

lemma sqrt_14400: "sqrt 14400 = 120"
  by (rule real_sqrt_unique) simp_all

lemma farFromObstacle_iff:
  "farFromObstacle x y obstacle =
     (14400 < (x - of_int (obstacle_x obstacle)) * (x - of_int (obstacle_x obstacle))
              + (y - of_int (obstacle_y obstacle)) * (y - of_int (obstacle_y obstacle)))"
proof -
  have "\<And>z::real. (120 < sqrt z) = (14400 < z)"
    using real_sqrt_less_iff[of 14400] by (simp add: sqrt_14400)
  then show ?thesis by (simp add: farFromObstacle_def Let_def)
qed

lemma layout_accepts_quarter: "list_all (farFromObstacle 550 425) roomObstaclesLayout"
  by (simp add: layout_explicit farFromObstacle_iff)

lemma layout_accepts_three_quarters: "list_all (farFromObstacle 1450 1075) roomObstaclesLayout"
  by (simp add: layout_explicit farFromObstacle_iff)

lemma layout_rejects_half: "\<not> list_all (farFromObstacle 1000 750) roomObstaclesLayout"
  by (simp add: layout_explicit farFromObstacle_iff)

lemma sample_env0: "samplePosition roomObstaclesLayout (rnd env0) n = Some (550, 425, n + 2)"
  by (subst samplePosition.simps) (simp add: env0_def layout_accepts_quarter)

lemma sample_env1: "samplePosition roomObstaclesLayout (rnd env1) n = Some (1450, 1075, n + 2)"
  by (subst samplePosition.simps) (simp add: env1_def layout_accepts_three_quarters)

lemma env0_fields: "rnd env0 n = 1 / 4" "clock env0 i = int i" "base36 env0 r = ''x''"
  by (simp_all add: env0_def)

lemma farmLoop_env0_step:
  "farmLoop env0 roomObstaclesLayout (Suc k) i n objs =
     farmLoop env0 roomObstaclesLayout k (i + 1) (n + 2 + 2)
       (AList.update (fst (crystal i)) (snd (crystal i)) objs)"
proof -
  have idx: "\<lfloor>rnd env0 (n + 1) * real (length typesAndValues)\<rfloor> = 0"
    by (simp add: env0_fields typesAndValues_def)
  show ?thesis
    unfolding farmLoop.simps Let_def sample_env0 idx
    by (simp add: crystal_def typesAndValues_def env0_fields)
qed

lemma farmLoop_env0:
  "farmLoop env0 roomObstaclesLayout k i n objs =
     Some (Inr (fold (\<lambda>j. AList.update (fst (crystal j)) (snd (crystal j))) [i..<i + k] objs,
                n + 4 * k))"
proof (induction k arbitrary: i n objs)
  case 0
  show ?case by simp
next
  case (Suc k)
  have u: "[i..<i + Suc k] = i # [i + 1..<i + 1 + k]" by (simp add: upt_conv_Cons)
  show ?case
    unfolding farmLoop_env0_step Suc.IH u by simp
qed

lemma upt10: "[0..<10] = [0, 1, 2, 3, 4, 5, 6, 7, 8, 9]"
  by (simp add: upt_rec)

lemma toString_more:
  "toString 6 = ''6''" "toString 7 = ''7''" "toString 8 = ''8''" "toString 9 = ''9''"
  by (simp_all add: toString_def toString_nat.simps digit_char_def)

lemma fold_crystals:
  "fold (\<lambda>j. AList.update (fst (crystal j)) (snd (crystal j))) [0..<10] [] = tenCrystals"
  by (simp add: tenCrystals_def upt10 crystal_def toString_digits toString_more)

lemma length_tenCrystals: "length tenCrystals = 10"
  by (simp add: tenCrystals_def)

lemma first_join:
  "joinGame initial ''a'' env0 ''r'' (Some ''Alice'') None =
     Some (Inr (joined,
       [JoinRoom ''r'',
        Emit (ToRoomExceptSender ''r'') (FarmObjectsUpdate (map snd tenCrystals)),
        Emit ToSender (FarmObjectsUpdate (map snd tenCrystals)),
        Emit ToSender (CurrentPlayers [alice]),
        Emit ToSender (ObstaclesUpdate roomObstaclesLayout),
        Emit ToSender (FarmObjectsUpdate (map snd tenCrystals)),
        Emit (ToRoomExceptSender ''r'') (PlayerJoined ''a'' ''Alice'' 1734143 (400, 300) (0, 0) 0 True)]))"
proof -
  have a: "addPlayer initial ''a'' ''r'' ''Alice'' 1734143
             = \<lparr>rooms = [(''r'', [(''a'', alice)])], globalFarmObjects = [], obstacles = []\<rparr>"
    by (simp add: addPlayer_def initial_def has_def Let_def alice_def)
  have g: "generateFarmObjects
             \<lparr>rooms = [(''r'', [(''a'', alice)])], globalFarmObjects = [],
              obstacles = [(''r'', roomObstaclesLayout)]\<rparr> env0 0 ''r'' 10
           = Some (Inr (joined,
               [Emit (ToRoomExceptSender ''r'') (FarmObjectsUpdate (map snd tenCrystals)),
                Emit ToSender (FarmObjectsUpdate (map snd tenCrystals))], 40))"
    by (simp add: generateFarmObjects_def has_def Let_def farmLoop_env0 fold_crystals joined_def)
  have o: "generateObstacles \<lparr>rooms = [(''r'', [(''a'', alice)])], globalFarmObjects = [], obstacles = []\<rparr> ''r''
     = (\<lparr>rooms = [(''r'', [(''a'', alice)])], globalFarmObjects = [],
              obstacles = [(''r'', roomObstaclesLayout)]\<rparr>, roomObstaclesLayout)"
    by (simp add: generateObstacles_def has_def Let_def)
  have r: "rooms joined = [(''r'', [(''a'', alice)])]" 
    "globalFarmObjects joined = [(''r'', tenCrystals)]" by (simp_all add: joined_def)
  show ?thesis
    by (simp add: joinGame_def Let_def a o g joinEffects_def r)
qed

subsection \<open>Scores\<close>

lemma ball_update:
  "\<forall>(k, v) \<in> set m. P v \<Longrightarrow> P v0 \<Longrightarrow> \<forall>(k, v) \<in> set (AList.update k0 v0 m). P v"
  using set_update_subset[of k0 v0 m] by fastforce

lemma ball_delete:
  "\<forall>(k, v) \<in> set m. P v \<Longrightarrow> \<forall>(k, v) \<in> set (AList.delete k0 m). P v"
  using set_delete_subset[of k0 m] by fastforce

lemma ball_lookup: "\<forall>(k, v) \<in> set m. P v \<Longrightarrow> map_of m k0 = Some v0 \<Longrightarrow> P v0"
  by (auto dest: map_of_SomeD)

lemma typesAndValues_nonneg:
  "0 \<le> idx \<Longrightarrow> idx < int (length typesAndValues) \<Longrightarrow> 0 \<le> snd (typesAndValues ! nat idx)"
proof -
  assume a: "0 \<le> idx" "idx < int (length typesAndValues)"
  then have "nat idx = 0 \<or> nat idx = 1 \<or> nat idx = 2" by (auto simp add: typesAndValues_def)
  then show ?thesis by (auto simp add: typesAndValues_def)
qed

lemma farmLoop_values:
  "farmLoop E obs k i n objs = Some (Inr (objs', n')) \<Longrightarrow>
     \<forall>(k, f) \<in> set objs. 0 \<le> farm_value f \<Longrightarrow> \<forall>(k, f) \<in> set objs'. 0 \<le> farm_value f"
proof (induction k arbitrary: i n objs)
  case 0
  then show ?case by simp
next
  case (Suc k)
  from Suc.prems(1) obtain x y m where
    sp: "samplePosition obs (rnd E) (n + 2) = Some (x, y, m)"
    by (auto simp add: Let_def split: option.splits)
  define ident where "ident = ''farm-'' @ toString (clock E i) @ ''-'' @ base36 E (rnd E n)"
  define idx where "idx = \<lfloor>rnd E (n + 1) * real (length typesAndValues)\<rfloor>"
  define obj where "obj = \<lparr>farm_id = ident, farm_position = (x, y),
                     farm_type = fst (typesAndValues ! nat idx),
                     farm_value = snd (typesAndValues ! nat idx)\<rparr>"
  from Suc.prems(1) sp have ok: "0 \<le> idx \<and> idx < int (length typesAndValues)"
    by (auto simp add: Let_def idx_def split: if_splits)
  from Suc.prems(1) sp have
    rec: "farmLoop E obs k (i + 1) m (AList.update ident obj objs) = Some (Inr (objs', n'))"
    by (auto simp add: Let_def ident_def idx_def obj_def split: if_splits)
  have "0 \<le> farm_value obj" using ok typesAndValues_nonneg by (simp add: obj_def)
  then have "\<forall>(k, f) \<in> set (AList.update ident obj objs). 0 \<le> farm_value f"
    using Suc.prems(2) by (rule ball_update[rotated])
  from Suc.IH[OF rec this] show ?case .
qed

lemma generateFarmObjects_values:
  assumes "generateFarmObjects s E n gameId c = Some (Inr (s', effs, n'))"
    and "valuesNonNegative s"
  shows "valuesNonNegative s'"
proof -
  let ?P = "\<lambda>fs::(string, FarmObject) jsmap. \<forall>(k, f) \<in> set fs. 0 \<le> farm_value f"
  define gfo where "gfo = (if \<not> has (globalFarmObjects s) gameId
                 then AList.update gameId [] (globalFarmObjects s)
                 else globalFarmObjects s)"
  define roomFarmObjects where
    "roomFarmObjects = (case map_of gfo gameId of Some m \<Rightarrow> m | None \<Rightarrow> [])"
  have g: "\<forall>(k, fs) \<in> set gfo. ?P fs"
    using assms(2) ball_update[of "globalFarmObjects s" ?P "[]" gameId]
    by (simp add: gfo_def valuesNonNegative_def)
  have r: "?P roomFarmObjects"
  proof (cases "map_of gfo gameId")
    case None
    then show ?thesis by (simp add: roomFarmObjects_def)
  next
    case (Some m)
    then show ?thesis using ball_lookup[OF g Some] by (simp add: roomFarmObjects_def)
  qed
  show ?thesis
  proof (cases "length roomFarmObjects < c")
    case False
    then have "s' = s\<lparr>globalFarmObjects := gfo\<rparr>"
      using assms(1) by (simp add: generateFarmObjects_def Let_def gfo_def roomFarmObjects_def)
    then show ?thesis using g by (simp add: valuesNonNegative_def)
  next
    case True
    then obtain objs where
      fl: "farmLoop E (case map_of (obstacles s) gameId of Some os \<Rightarrow> os | None \<Rightarrow> [])
             (c - length roomFarmObjects) 0 n roomFarmObjects = Some (Inr (objs, n'))"
      and s': "s' = s\<lparr>globalFarmObjects := AList.update gameId objs gfo\<rparr>"
      using assms(1) unfolding generateFarmObjects_def Let_def gfo_def[symmetric]
        roomFarmObjects_def[symmetric]
      by (auto split: option.splits sum.splits)
    have "?P objs" using farmLoop_values[OF fl r] .
    then have "\<forall>(k, fs) \<in> set (AList.update gameId objs gfo). ?P fs"
      using g by (rule ball_update[rotated])
    then show ?thesis by (simp add: s' valuesNonNegative_def)
  qed
qed

lemma scoresNonNegative_cong: "rooms s' = rooms s \<Longrightarrow> scoresNonNegative s' = scoresNonNegative s"
  by (simp add: scoresNonNegative_def)

lemma valuesNonNegative_cong:
  "globalFarmObjects s' = globalFarmObjects s \<Longrightarrow> valuesNonNegative s' = valuesNonNegative s"
  by (simp add: valuesNonNegative_def)

lemma addPlayer_scores:
  assumes "scoresNonNegative s"
  shows "scoresNonNegative (addPlayer s sid gameId nm col)"
proof -
  let ?P = "\<lambda>ps::(string, PlayerData) jsmap. \<forall>(k, p) \<in> set ps. 0 \<le> score p"
  define rooms1 where "rooms1 = (if \<not> has (rooms s) gameId then AList.update gameId [] (rooms s)
                    else rooms s)"
  define roomPlayers0 where
    "roomPlayers0 = (case map_of rooms1 gameId of Some m \<Rightarrow> m | None \<Rightarrow> [])"
  define new where "new = \<lparr>player_id = sid, name = nm, color = col, position = (400, 300),
                                 velocity = (0, 0), score = 0, isAlive = True,
                                 respawnTime = None\<rparr>"
  define roomPlayers where "roomPlayers = (if \<not> has roomPlayers0 sid
                         then AList.update sid new roomPlayers0 else roomPlayers0)"
  have r1: "\<forall>(k, ps) \<in> set rooms1. ?P ps"
    using assms ball_update[of "rooms s" ?P "[]" gameId]
    by (simp add: rooms1_def scoresNonNegative_def)
  have r0: "?P roomPlayers0"
  proof (cases "map_of rooms1 gameId")
    case None
    then show ?thesis by (simp add: roomPlayers0_def)
  next
    case (Some m)
    then show ?thesis using ball_lookup[OF r1 Some] by (simp add: roomPlayers0_def)
  qed
  have "0 \<le> score new" by (simp add: new_def)
  then have rp: "?P roomPlayers"
    using r0 ball_update[of roomPlayers0 "\<lambda>p. 0 \<le> score p" new sid]
    by (simp add: roomPlayers_def)
  have "\<forall>(k, ps) \<in> set (AList.update gameId roomPlayers rooms1). ?P ps"
    using r1 rp by (rule ball_update)
  moreover have "rooms (addPlayer s sid gameId nm col) = AList.update gameId roomPlayers rooms1"
    by (simp add: addPlayer_def Let_def rooms1_def roomPlayers0_def roomPlayers_def new_def)
  ultimately show ?thesis by (simp add: scoresNonNegative_def)
qed

lemma disconnectEach_scores:
  "\<forall>(k, ps) \<in> set R. \<forall>(k, p) \<in> set ps. 0 \<le> score p \<Longrightarrow>
     \<forall>(k, ps) \<in> set (fst (disconnectEach sid ks R)). \<forall>(k, p) \<in> set ps. 0 \<le> score p"
proof (induction ks arbitrary: R)
  case Nil
  then show ?case by simp
next
  case (Cons roomId ks)
  let ?P = "\<lambda>ps::(string, PlayerData) jsmap. \<forall>(k, p) \<in> set ps. 0 \<le> score p"
  show ?case
  proof (cases "map_of R roomId")
    case None
    then show ?thesis using Cons.IH[OF Cons.prems] by simp
  next
    case (Some ps0)
    show ?thesis
    proof (cases "has ps0 sid")
      case False
      then show ?thesis using Some Cons.IH[OF Cons.prems] by simp
    next
      case True
      define R2 where "R2 = (if length (AList.delete sid ps0) = 0
          then AList.delete roomId (AList.update roomId (AList.delete sid ps0) R)
          else AList.update roomId (AList.delete sid ps0) R)"
      have "?P ps0" using ball_lookup[OF Cons.prems Some] .
      then have "?P (AList.delete sid ps0)" by (rule ball_delete)
      then have u: "\<forall>(k, ps) \<in> set (AList.update roomId (AList.delete sid ps0) R). ?P ps"
        using Cons.prems by (rule ball_update[rotated])
      have "\<forall>(k, ps) \<in> set R2. ?P ps"
        unfolding R2_def using u ball_delete[OF u, of roomId] by simp
      from Cons.IH[OF this]
      show ?thesis using Some True by (simp add: R2_def Let_def case_prod_beta)
    qed
  qed
qed

lemma playerHit_scores:
  assumes "scoresNonNegative s"
  shows "scoresNonNegative (fst (playerHit s sid now gameId shooterId targetId))"
proof (cases "shooterId \<noteq> targetId \<and> (\<exists>ps sh tg. map_of (rooms s) gameId = Some ps
          \<and> map_of ps shooterId = Some sh \<and> map_of ps targetId = Some tg \<and> isAlive tg)")
  case False
  then have "playerHit s sid now gameId shooterId targetId = (s, [])"
    by (auto simp add: playerHit_def split: option.splits)
  then show ?thesis using assms by simp
next
  case True
  then obtain ps sh tg where h: "shooterId \<noteq> targetId" "map_of (rooms s) gameId = Some ps"
    "map_of ps shooterId = Some sh" "map_of ps targetId = Some tg" "isAlive tg" by blast
  let ?P = "\<lambda>p::PlayerData. 0 \<le> score p"
  have all: "\<forall>(k, ps) \<in> set (rooms s). \<forall>(k, p) \<in> set ps. ?P p"
    using assms by (simp add: scoresNonNegative_def)
  have ps: "\<forall>(k, p) \<in> set ps. ?P p" using ball_lookup[OF all h(2)] .
  have sh: "0 \<le> score sh" using ball_lookup[OF ps h(3)] .
  have tg: "0 \<le> score tg" using ball_lookup[OF ps h(4)] .
  define sh' where "sh' = sh\<lparr>score := score sh + (20 + pointsToSteal tg)\<rparr>"
  define tg' where "tg' = tg\<lparr>score := (if score tg - pointsToSteal tg < 0 then 0
                                         else score tg - pointsToSteal tg),
                              isAlive := False, respawnTime := Some (now + 3000)\<rparr>"
  have "0 \<le> score sh'" using sh tg by (simp add: sh'_def pointsToSteal_div)
  then have p1: "\<forall>(k, p) \<in> set (AList.update shooterId sh' ps). ?P p"
    using ps by (rule ball_update[rotated])
  have "0 \<le> score tg'" by (simp add: tg'_def)
  then have p2: "\<forall>(k, p) \<in> set (AList.update targetId tg' (AList.update shooterId sh' ps)). ?P p"
    using p1 by (rule ball_update[rotated])
  have "\<forall>(k, qs) \<in> set (AList.update gameId
            (AList.update targetId tg' (AList.update shooterId sh' ps)) (rooms s)).
          \<forall>(k, p) \<in> set qs. ?P p"
    using all p2 by (rule ball_update)
  moreover have "rooms (fst (playerHit s sid now gameId shooterId targetId))
        = AList.update gameId (AList.update targetId tg' (AList.update shooterId sh' ps)) (rooms s)"
    using h by (simp add: playerHit_def Let_def sh'_def tg'_def)
  ultimately show ?thesis by (simp add: scoresNonNegative_def)
qed

lemma farmObjectHit_scores:
  assumes "scoresNonNegative s" and "valuesNonNegative s"
  shows "scoresNonNegative (fst (farmObjectHit s sid gameId objectId))
       \<and> valuesNonNegative (fst (farmObjectHit s sid gameId objectId))"
proof (cases "\<exists>fs obj ps p. map_of (globalFarmObjects s) gameId = Some fs
          \<and> map_of fs objectId = Some obj \<and> map_of (rooms s) gameId = Some ps
          \<and> map_of ps sid = Some p")
  case False
  then have "farmObjectHit s sid gameId objectId = (s, [])"
    by (auto simp add: farmObjectHit_def split: option.splits)
  then show ?thesis using assms by simp
next
  case True
  then obtain fs obj ps p where h: "map_of (globalFarmObjects s) gameId = Some fs"
    "map_of fs objectId = Some obj" "map_of (rooms s) gameId = Some ps"
    "map_of ps sid = Some p" by blast
  let ?P = "\<lambda>p::PlayerData. 0 \<le> score p"
  let ?Q = "\<lambda>f::FarmObject. 0 \<le> farm_value f"
  have all: "\<forall>(k, ps) \<in> set (rooms s). \<forall>(k, p) \<in> set ps. ?P p"
    using assms(1) by (simp add: scoresNonNegative_def)
  have allf: "\<forall>(k, fs) \<in> set (globalFarmObjects s). \<forall>(k, f) \<in> set fs. ?Q f"
    using assms(2) by (simp add: valuesNonNegative_def)
  have ps: "\<forall>(k, p) \<in> set ps. ?P p" using ball_lookup[OF all h(3)] .
  have fs: "\<forall>(k, f) \<in> set fs. ?Q f" using ball_lookup[OF allf h(1)] .
  have p: "0 \<le> score p" using ball_lookup[OF ps h(4)] .
  have v: "0 \<le> farm_value obj" using ball_lookup[OF fs h(2)] .
  define p' where "p' = p\<lparr>score := score p + farm_value obj\<rparr>"
  have "0 \<le> score p'" using p v by (simp add: p'_def)
  then have "\<forall>(k, p) \<in> set (AList.update sid p' ps). ?P p"
    using ps by (rule ball_update[rotated])
  then have r: "\<forall>(k, qs) \<in> set (AList.update gameId (AList.update sid p' ps) (rooms s)).
          \<forall>(k, p) \<in> set qs. ?P p"
    using all by (rule ball_update[rotated])
  have "\<forall>(k, f) \<in> set (AList.delete objectId fs). ?Q f" using fs by (rule ball_delete)
  then have f: "\<forall>(k, gs) \<in> set (AList.update gameId (AList.delete objectId fs)
                   (globalFarmObjects s)). \<forall>(k, f) \<in> set gs. ?Q f"
    using allf by (rule ball_update[rotated])
  have "fst (farmObjectHit s sid gameId objectId)
          = s\<lparr>rooms := AList.update gameId (AList.update sid p' ps) (rooms s),
              globalFarmObjects := AList.update gameId (AList.delete objectId fs)
                                     (globalFarmObjects s)\<rparr>"
    using h by (simp add: farmObjectHit_def Let_def p'_def)
  then show ?thesis using r f by (simp add: scoresNonNegative_def valuesNonNegative_def)
qed

lemma playerMove_scores:
  assumes "scoresNonNegative s"
  shows "scoresNonNegative (fst (playerMove s sid gameId pos vel))"
proof (cases "\<exists>ps p. map_of (rooms s) gameId = Some ps \<and> map_of ps sid = Some p")
  case False
  then have "fst (playerMove s sid gameId pos vel) = s"
    by (auto simp add: playerMove_def split: option.splits)
  then show ?thesis using assms by simp
next
  case True
  then obtain ps p where h: "map_of (rooms s) gameId = Some ps" "map_of ps sid = Some p" by blast
  let ?P = "\<lambda>p::PlayerData. 0 \<le> score p"
  have all: "\<forall>(k, ps) \<in> set (rooms s). \<forall>(k, p) \<in> set ps. ?P p"
    using assms(1) by (simp add: scoresNonNegative_def)
  have ps: "\<forall>(k, p) \<in> set ps. ?P p" using ball_lookup[OF all h(1)] .
  have p: "0 \<le> score p" using ball_lookup[OF ps h(2)] .
  define p' where "p' = p\<lparr>position := pos,
                          velocity := (case vel of Some v \<Rightarrow> v | None \<Rightarrow> velocity p)\<rparr>"
  have "0 \<le> score p'" using p by (simp add: p'_def)
  then have "\<forall>(k, p) \<in> set (AList.update sid p' ps). ?P p"
    using ps by (rule ball_update[rotated])
  then have r: "\<forall>(k, qs) \<in> set (AList.update gameId (AList.update sid p' ps) (rooms s)).
          \<forall>(k, p) \<in> set qs. ?P p"
    using all by (rule ball_update[rotated])
  have "fst (playerMove s sid gameId pos vel)
          = s\<lparr>rooms := AList.update gameId (AList.update sid p' ps) (rooms s)\<rparr>"
    using h by (simp add: playerMove_def p'_def)
  then show ?thesis using r by (simp add: scoresNonNegative_def)
qed

lemma respawnPlayer_scores:
  assumes "scoresNonNegative s"
  shows "scoresNonNegative (fst (respawnPlayer s sid rx ry gameId targetId))"
proof (cases "\<exists>ps p. map_of (rooms s) gameId = Some ps \<and> map_of ps targetId = Some p")
  case False
  then have "fst (respawnPlayer s sid rx ry gameId targetId) = s"
    by (auto simp add: respawnPlayer_def split: option.splits)
  then show ?thesis using assms by simp
next
  case True
  then obtain ps p where h: "map_of (rooms s) gameId = Some ps" "map_of ps targetId = Some p"
    by blast
  let ?P = "\<lambda>p::PlayerData. 0 \<le> score p"
  have all: "\<forall>(k, ps) \<in> set (rooms s). \<forall>(k, p) \<in> set ps. ?P p"
    using assms(1) by (simp add: scoresNonNegative_def)
  have ps: "\<forall>(k, p) \<in> set ps. ?P p" using ball_lookup[OF all h(1)] .
  have p: "0 \<le> score p" using ball_lookup[OF ps h(2)] .
  define p' where "p' = p\<lparr>isAlive := True, position := (rx * 1800 + 100, ry * 1300 + 100),
                          velocity := (0, 0)\<rparr>"
  have "0 \<le> score p'" using p by (simp add: p'_def)
  then have "\<forall>(k, p) \<in> set (AList.update targetId p' ps). ?P p"
    using ps by (rule ball_update[rotated])
  then have r: "\<forall>(k, qs) \<in> set (AList.update gameId (AList.update targetId p' ps) (rooms s)).
          \<forall>(k, p) \<in> set qs. ?P p"
    using all by (rule ball_update[rotated])
  have "fst (respawnPlayer s sid rx ry gameId targetId)
          = s\<lparr>rooms := AList.update gameId (AList.update targetId p' ps) (rooms s)\<rparr>"
    using h by (simp add: respawnPlayer_def Let_def p'_def)
  then show ?thesis using r by (simp add: scoresNonNegative_def)
qed

lemma generateFarmObjects_rooms:
  "generateFarmObjects s E n gameId c = Some (Inr (s', effs, n')) \<Longrightarrow>
     rooms s' = rooms s \<and> obstacles s' = obstacles s"
  by (auto simp add: generateFarmObjects_def Let_def split: option.splits sum.splits if_splits)

lemma step_invariant:
  assumes "step s e = Some (Inr (s', effs))"
    and "scoresNonNegative s" and "valuesNonNegative s"
  shows "scoresNonNegative s' \<and> valuesNonNegative s'"
proof (cases e)
  case (JoinGame sid E gameId nameOpt colorOpt)
  with assms(1) have "joinGame s sid E gameId nameOpt colorOpt = Some (Inr (s', effs))" by simp
  then obtain nm col n0 effs0 n' where
    gen: "generateFarmObjects (fst (generateObstacles (addPlayer s sid gameId nm col) gameId))
        E n0 gameId 10 = Some (Inr (s', effs0, n'))"
    by (rule joinGame_split)
  let ?s2 = "fst (generateObstacles (addPlayer s sid gameId nm col) gameId)"
  have r: "rooms ?s2 = rooms (addPlayer s sid gameId nm col)"
    and f: "globalFarmObjects ?s2 = globalFarmObjects s"
    by (simp_all add: generateObstacles_def addPlayer_def Let_def)
  have "scoresNonNegative ?s2"
    using addPlayer_scores[OF assms(2)] scoresNonNegative_cong[OF r] by simp
  moreover have "rooms s' = rooms ?s2" using generateFarmObjects_rooms[OF gen] by simp
  ultimately have a: "scoresNonNegative s'" using scoresNonNegative_cong by blast
  have "valuesNonNegative ?s2" using assms(3) valuesNonNegative_cong[OF f] by simp
  then have "valuesNonNegative s'" using generateFarmObjects_values[OF gen] by simp
  then show ?thesis using a by simp
next
  case (PlayerMove sid gameId pos vel)
  then have s': "s' = fst (playerMove s sid gameId pos vel)" using assms(1)
    by (simp add: prod_eq_iff)
  have "globalFarmObjects s' = globalFarmObjects s"
    unfolding s' by (simp add: playerMove_def split: option.splits)
  then show ?thesis using playerMove_scores[OF assms(2)] assms(3) s'
    by (simp add: valuesNonNegative_def)
next
  case (Disconnect sid)
  then have s': "s' = fst (disconnect s sid)" using assms(1) by (simp add: prod_eq_iff)
  have r: "rooms s' = fst (disconnectEach sid (map fst (rooms s)) (rooms s))"
    and f: "globalFarmObjects s' = globalFarmObjects s"
    unfolding s' by (simp_all add: disconnect_def case_prod_beta)
  have "scoresNonNegative s'"
    using disconnectEach_scores[of "rooms s" sid "map fst (rooms s)"] assms(2)
    by (simp add: scoresNonNegative_def r)
  then show ?thesis using assms(3) f by (simp add: valuesNonNegative_def)
next
  case (PlayerShoot sid gameId direction pos)
  then show ?thesis using assms by (simp add: playerShoot_def)
next
  case (PlayerHit sid now gameId shooterId targetId)
  then have s': "s' = fst (playerHit s sid now gameId shooterId targetId)" using assms(1)
    by (simp add: prod_eq_iff)
  have "globalFarmObjects s' = globalFarmObjects s"
    unfolding s' by (simp add: playerHit_def Let_def split: option.splits)
  then show ?thesis using playerHit_scores[OF assms(2)] assms(3) s'
    by (simp add: valuesNonNegative_def)
next
  case (FarmObjectHit sid gameId objectId)
  then have "s' = fst (farmObjectHit s sid gameId objectId)" using assms(1)
    by (simp add: prod_eq_iff)
  then show ?thesis using farmObjectHit_scores[OF assms(2,3)] by simp
next
  case (CollectResource sid gameId resourceId)
  then have "s' = fst (farmObjectHit s sid gameId resourceId)" using assms(1)
    by (simp add: prod_eq_iff collectResource_eq)
  then show ?thesis using farmObjectHit_scores[OF assms(2,3)] by simp
next
  case (RespawnTimeout sid rx ry gameId targetId)
  then have s': "s' = fst (respawnPlayer s sid rx ry gameId targetId)" using assms(1)
    by (simp add: prod_eq_iff)
  have "globalFarmObjects s' = globalFarmObjects s"
    unfolding s' by (simp add: respawnPlayer_def Let_def split: option.splits)
  then show ?thesis using respawnPlayer_scores[OF assms(2)] assms(3) s'
    by (simp add: valuesNonNegative_def)
next
  case (FarmTimeout sid E gameId)
  with assms(1) obtain effs0 n' where
    gen: "generateFarmObjects s E 0 gameId 10 = Some (Inr (s', effs0, n'))"
    by (auto simp add: farmTimeout_def split: option.splits sum.splits prod.splits)
  have "rooms s' = rooms s" using generateFarmObjects_rooms[OF gen] by simp
  then have "scoresNonNegative s'" using assms(2) by (simp add: scoresNonNegative_def)
  then show ?thesis using generateFarmObjects_values[OF gen assms(3)] by simp
qed

lemma reachable_invariant: "reachable s \<Longrightarrow> scoresNonNegative s \<and> valuesNonNegative s"
proof (induction rule: reachable.induct)
  case reachable_initial
  show ?case by (simp add: scoresNonNegative_def valuesNonNegative_def initial_def)
next
  case (reachable_step s e s' effs)
  then show ?case using step_invariant by blast
qed

lemma run_reachable: "reachable s \<Longrightarrow> run s es = Some (Inr (s', effs)) \<Longrightarrow> reachable s'"
proof (induction es arbitrary: s effs)
  case Nil
  then show ?case by simp
next
  case (Cons e es)
  from Cons.prems(2) obtain s1 effs1 effs2 where
    st: "step s e = Some (Inr (s1, effs1))" and rn: "run s1 es = Some (Inr (s', effs2))"
    by (auto split: option.splits sum.splits prod.splits)
  have "reachable s1" using Cons.prems(1) st by (rule reachable_step)
  then show ?case using rn by (rule Cons.IH)
qed

text \<open>
  C3. In every state reachable from the initial state by any sequence of events (join,
  move, disconnect, shoot, hit, the two collects, and the two timer callbacks), every
  score stored in every room is a non-negative integer. A hit keeps the scores
  non-negative in any state where they are, and so does a collect where the values of the
  collectibles are non-negative too (they are 5, 1 or 10).
\<close>

theorem C3_scores_never_negative:
  "(reachable s \<longrightarrow> scoresNonNegative s
      \<and> (\<forall>g k p. player s g k = Some p \<longrightarrow> 0 \<le> score p))
   \<and> (scoresNonNegative s \<longrightarrow>
        scoresNonNegative (fst (playerHit s sid now gameId shooterId targetId)))
   \<and> (scoresNonNegative s \<and> valuesNonNegative s \<longrightarrow>
        scoresNonNegative (fst (farmObjectHit s sid gameId objectId))
        \<and> scoresNonNegative (fst (collectResource s sid gameId objectId)))"
proof (intro conjI impI allI)
  assume "reachable s"
  then show "scoresNonNegative s" using reachable_invariant by blast
next
  fix g k p
  assume r: "reachable s" and p: "player s g k = Some p"
  from r have all: "\<forall>(g, ps) \<in> set (rooms s). \<forall>(k, p) \<in> set ps. 0 \<le> score p"
    using reachable_invariant by (simp add: scoresNonNegative_def)
  from p obtain ps where m: "map_of (rooms s) g = Some ps" "map_of ps k = Some p"
    by (auto simp add: player_def split: option.splits)
  have "\<forall>(k, p) \<in> set ps. 0 \<le> score p" using ball_lookup[OF all m(1)] .
  then show "0 \<le> score p" using m(2) by (rule ball_lookup)
next
  assume "scoresNonNegative s"
  then show "scoresNonNegative (fst (playerHit s sid now gameId shooterId targetId))"
    by (rule playerHit_scores)
next
  assume a: "scoresNonNegative s \<and> valuesNonNegative s"
  then show "scoresNonNegative (fst (farmObjectHit s sid gameId objectId))"
    using farmObjectHit_scores by blast
  from a show "scoresNonNegative (fst (collectResource s sid gameId objectId))"
    using farmObjectHit_scores by (simp add: collectResource_eq)
qed

lemma reachable_joined: "reachable joined"
proof -
  have "step initial (JoinGame ''a'' env0 ''r'' (Some ''Alice'') None)
          = Some (Inr (joined,
       [JoinRoom ''r'',
        Emit (ToRoomExceptSender ''r'') (FarmObjectsUpdate (map snd tenCrystals)),
        Emit ToSender (FarmObjectsUpdate (map snd tenCrystals)),
        Emit ToSender (CurrentPlayers [alice]),
        Emit ToSender (ObstaclesUpdate roomObstaclesLayout),
        Emit ToSender (FarmObjectsUpdate (map snd tenCrystals)),
        Emit (ToRoomExceptSender ''r'') (PlayerJoined ''a'' ''Alice'' 1734143 (400, 300) (0, 0) 0 True)]))"
    by (simp add: first_join)
  with reachable_initial show ?thesis by (rule reachable_step)
qed

lemma joined_first_crystal: "farmObject joined ''r'' ''farm-0-x'' = Some (snd (crystal 0))"
  by (simp add: farmObject_def joined_def tenCrystals_def upt10 crystal_def toString_digits)

lemma joined_alice: "player joined ''r'' ''a'' = Some alice"
  by (simp add: player_def joined_def)

lemma reachable_collected: "reachable (fst (farmObjectHit joined ''a'' ''r'' ''farm-0-x''))"
proof -
  have "step joined (FarmObjectHit ''a'' ''r'' ''farm-0-x'')
          = Some (Inr (fst (farmObjectHit joined ''a'' ''r'' ''farm-0-x''),
                       snd (farmObjectHit joined ''a'' ''r'' ''farm-0-x'')))" by simp
  with reachable_joined show ?thesis by (rule reachable_step)
qed

theorem C3_scores_never_negative_witness:
  "reachable (fst (farmObjectHit joined ''a'' ''r'' ''farm-0-x''))
   \<and> player (fst (farmObjectHit joined ''a'' ''r'' ''farm-0-x'')) ''r'' ''a''
        = Some (alice\<lparr>score := 5\<rparr>)
   \<and> scoresNonNegative (fst (farmObjectHit joined ''a'' ''r'' ''farm-0-x''))
   \<and> (0::int) \<le> score (alice\<lparr>score := 5\<rparr>)
   \<and> scoresNonNegative duel \<and> valuesNonNegative duel
   \<and> scoresNonNegative (fst (playerHit duel ''a'' 5000 ''r'' ''a'' ''b''))
   \<and> scoresNonNegative (fst (collectResource duel ''b'' ''r'' ''farm-1-x''))"
proof -
  have p: "player (fst (farmObjectHit joined ''a'' ''r'' ''farm-0-x'')) ''r'' ''a''
        = Some (alice\<lparr>score := 5\<rparr>)"
    using farmObjectHit_present[OF joined_first_crystal joined_alice]
    by (simp add: crystal_def alice_def)
  have d: "scoresNonNegative duel" "valuesNonNegative duel"
    by (simp_all add: scoresNonNegative_def valuesNonNegative_def duel_def alice_def bob_def
          gem_def)
  show ?thesis
    using C3_scores_never_negative
            [of "fst (farmObjectHit joined ''a'' ''r'' ''farm-0-x'')" "''a''" 5000 "''r''"
                "''a''" "''b''" "''farm-1-x''"]
          C3_scores_never_negative [of duel "''a''" 5000 "''r''" "''a''" "''b''" "''farm-1-x''"]
          C3_scores_never_negative [of duel "''b''" 5000 "''r''" "''a''" "''b''" "''farm-1-x''"]
          reachable_collected p d
    by simp
qed

subsection \<open>Obstacles\<close>

lemma rotatePoint_formulas:
  "rotatePoint 0 bx by p = p"
  "rotatePoint 1 bx by (x, y) = (bx - (y - by), by + (x - bx))"
  "rotatePoint 2 bx by (x, y) = (2 * bx - x, 2 * by - y)"
  "rotatePoint 3 bx by (x, y) = (bx + (y - by), by - (x - bx))"
  "rotatePoint 1 bx by (rotatePoint 3 bx by p) = p"
  "rotatePoint 3 bx by (rotatePoint 1 bx by p) = p"
  "rotatePoint 2 bx by p = rotatePoint 1 bx by (rotatePoint 1 bx by p)"
  "rotatePoint 3 bx by p = rotatePoint 1 bx by (rotatePoint 2 bx by p)"
  by (simp_all add: rotatePoint_def Let_def split: prod.splits)

lemma generateObstacles_new:
  "\<not> has (obstacles s) g \<Longrightarrow>
     snd (generateObstacles s g) = roomObstaclesLayout
     \<and> map_of (obstacles (fst (generateObstacles s g))) g = Some roomObstaclesLayout"
  by (simp add: generateObstacles_def Let_def update_conv')

lemma generateObstacles_fixed:
  assumes "\<forall>(k, obs) \<in> set (obstacles s). obs = roomObstaclesLayout"
  shows "\<forall>(k, obs) \<in> set (obstacles (fst (generateObstacles s g))). obs = roomObstaclesLayout"
proof (cases "has (obstacles s) g")
  case True
  then show ?thesis using assms by (simp add: generateObstacles_def Let_def)
next
  case False
  have "\<forall>(k, obs) \<in> set (AList.update g roomObstaclesLayout (obstacles s)).
          obs = roomObstaclesLayout"
    using assms by (rule ball_update) simp
  then show ?thesis using False by (simp add: generateObstacles_def Let_def)
qed

lemma step_obstacles:
  assumes "step s e = Some (Inr (s', effs))"
    and "\<forall>(k, obs) \<in> set (obstacles s). obs = roomObstaclesLayout"
  shows "\<forall>(k, obs) \<in> set (obstacles s'). obs = roomObstaclesLayout"
proof (cases e)
  case (JoinGame sid E gameId nameOpt colorOpt)
  with assms(1) have "joinGame s sid E gameId nameOpt colorOpt = Some (Inr (s', effs))" by simp
  then obtain nm col n0 effs0 n' where
    gen: "generateFarmObjects (fst (generateObstacles (addPlayer s sid gameId nm col) gameId))
        E n0 gameId 10 = Some (Inr (s', effs0, n'))"
    by (rule joinGame_split)
  have "obstacles (addPlayer s sid gameId nm col) = obstacles s"
    by (simp add: addPlayer_def Let_def)
  then have "\<forall>(k, obs) \<in> set (obstacles (addPlayer s sid gameId nm col)).
               obs = roomObstaclesLayout" using assms(2) by simp
  from generateObstacles_fixed[OF this, of gameId] generateFarmObjects_rooms[OF gen]
  show ?thesis by simp
next
  case (PlayerMove sid gameId pos vel)
  then have "obstacles s' = obstacles s" using assms(1)
    by (auto simp add: playerMove_def split: option.splits)
  then show ?thesis using assms(2) by simp
next
  case (Disconnect sid)
  then have "obstacles s' = obstacles s" using assms(1)
    by (auto simp add: disconnect_def split: prod.splits)
  then show ?thesis using assms(2) by simp
next
  case (PlayerShoot sid gameId direction pos)
  then show ?thesis using assms by (simp add: playerShoot_def)
next
  case (PlayerHit sid now gameId shooterId targetId)
  then have "obstacles s' = obstacles s" using assms(1)
    by (auto simp add: playerHit_def Let_def split: option.splits if_splits)
  then show ?thesis using assms(2) by simp
next
  case (FarmObjectHit sid gameId objectId)
  then have "obstacles s' = obstacles s" using assms(1)
    by (auto simp add: farmObjectHit_def Let_def split: option.splits)
  then show ?thesis using assms(2) by simp
next
  case (CollectResource sid gameId resourceId)
  then have "obstacles s' = obstacles s" using assms(1)
    by (auto simp add: collectResource_def Let_def split: option.splits)
  then show ?thesis using assms(2) by simp
next
  case (RespawnTimeout sid rx ry gameId targetId)
  then have "obstacles s' = obstacles s" using assms(1)
    by (auto simp add: respawnPlayer_def Let_def split: option.splits)
  then show ?thesis using assms(2) by simp
next
  case (FarmTimeout sid E gameId)
  with assms(1) obtain effs0 n' where
    gen: "generateFarmObjects s E 0 gameId 10 = Some (Inr (s', effs0, n'))"
    by (auto simp add: farmTimeout_def split: option.splits sum.splits prod.splits)
  then show ?thesis using generateFarmObjects_rooms[OF gen] assms(2) by simp
qed

lemma reachable_obstacles:
  "reachable s \<Longrightarrow> \<forall>(k, obs) \<in> set (obstacles s). obs = roomObstaclesLayout"
proof (induction rule: reachable.induct)
  case reachable_initial
  show ?case by (simp add: initial_def)
next
  case (reachable_step s e s' effs)
  then show ?case using step_obstacles by blast
qed

text \<open>
  C7. The generated obstacle list has 25 points: four L-formations of 5 points, then the
  five centre points. Each formation is the 5-point template at its base point under
  \<open>rotatePoint\<close>, which is the identity for 0, \<open>(bx - (y - by), by + (x - bx))\<close> for 1, the
  mirror image in both axes about the base for 2, and the inverse of rotation 1 for 3
  (rotations 2 and 3 are rotation 1 applied two and three times). The four formations lie
  in the four quadrants about the centre point (1000, 750). The list is a constant: it does
  not depend on the room identifier, on the state or on a random number, and in every
  reachable state every room's stored obstacle list is this list.
\<close>

theorem C7_obstacle_layout:
  "length roomObstaclesLayout = 25
   \<and> roomObstaclesLayout
       = createLShape 300 300 0 @ createLShape 1700 300 1 @ createLShape 300 1100 3
         @ createLShape 1700 1100 2
         @ map (\<lambda>i. centerPoint i (centerObstacles ! i)) [0..<length centerObstacles]
   \<and> length centerObstacles = 5
   \<and> length (createLShape bx by r) = 5
   \<and> map coords (createLShape bx by r) = map (rotatePoint r bx by) (lTemplate bx by)
   \<and> lTemplate bx by
       = [(bx, by), (bx, by + 60), (bx, by + 120), (bx + 60, by + 120), (bx + 120, by + 120)]
   \<and> rotatePoint 0 bx by (x, y) = (x, y)
   \<and> rotatePoint 1 bx by (x, y) = (bx - (y - by), by + (x - bx))
   \<and> rotatePoint 2 bx by (x, y) = (2 * bx - x, 2 * by - y)
   \<and> rotatePoint 1 bx by (rotatePoint 3 bx by (x, y)) = (x, y)
   \<and> rotatePoint 3 bx by (rotatePoint 1 bx by (x, y)) = (x, y)
   \<and> rotatePoint 2 bx by (x, y) = rotatePoint 1 bx by (rotatePoint 1 bx by (x, y))
   \<and> rotatePoint 3 bx by (x, y) = rotatePoint 1 bx by (rotatePoint 2 bx by (x, y))
   \<and> map coords roomObstaclesLayout
       = [(300, 300), (300, 360), (300, 420), (360, 420), (420, 420),
          (1700, 300), (1640, 300), (1580, 300), (1580, 360), (1580, 420),
          (300, 1100), (360, 1100), (420, 1100), (420, 1040), (420, 980),
          (1700, 1100), (1700, 1040), (1700, 980), (1640, 980), (1580, 980),
          (1000, 750), (1000, 650), (1000, 850), (900, 750), (1100, 750)]
   \<and> list_all (\<lambda>p. fst p < 1000 \<and> snd p < 750) (map coords (createLShape 300 300 0))
   \<and> list_all (\<lambda>p. 1000 < fst p \<and> snd p < 750) (map coords (createLShape 1700 300 1))
   \<and> list_all (\<lambda>p. fst p < 1000 \<and> 750 < snd p) (map coords (createLShape 300 1100 3))
   \<and> list_all (\<lambda>p. 1000 < fst p \<and> 750 < snd p) (map coords (createLShape 1700 1100 2))
   \<and> (\<not> has (obstacles s) g \<longrightarrow>
        snd (generateObstacles s g) = roomObstaclesLayout
        \<and> map_of (obstacles (fst (generateObstacles s g))) g = Some roomObstaclesLayout)
   \<and> (reachable s \<and> map_of (obstacles s) g = Some obs \<longrightarrow> obs = roomObstaclesLayout)"
proof (intro conjI impI)
  show "length roomObstaclesLayout = 25" by (simp add: layout_explicit)
  show "roomObstaclesLayout
       = createLShape 300 300 0 @ createLShape 1700 300 1 @ createLShape 300 1100 3
         @ createLShape 1700 1100 2
         @ map (\<lambda>i. centerPoint i (centerObstacles ! i)) [0..<length centerObstacles]"
    by (rule roomObstaclesLayout_def)
  show "length centerObstacles = 5" by (simp add: centerObstacles_def)
  show "length (createLShape bx by r) = 5" by (simp add: createLShape_def)
  show "map coords (createLShape bx by r) = map (rotatePoint r bx by) (lTemplate bx by)"
    by (rule createLShape_coords)
  show "lTemplate bx by
       = [(bx, by), (bx, by + 60), (bx, by + 120), (bx + 60, by + 120), (bx + 120, by + 120)]"
    by (simp add: lTemplate_def upt3)
  show "rotatePoint 0 bx by (x, y) = (x, y)" by (rule rotatePoint_formulas)
  show "rotatePoint 1 bx by (x, y) = (bx - (y - by), by + (x - bx))"
    by (rule rotatePoint_formulas)
  show "rotatePoint 2 bx by (x, y) = (2 * bx - x, 2 * by - y)" by (rule rotatePoint_formulas)
  show "rotatePoint 1 bx by (rotatePoint 3 bx by (x, y)) = (x, y)" by (rule rotatePoint_formulas)
  show "rotatePoint 3 bx by (rotatePoint 1 bx by (x, y)) = (x, y)" by (rule rotatePoint_formulas)
  show "rotatePoint 2 bx by (x, y) = rotatePoint 1 bx by (rotatePoint 1 bx by (x, y))"
    by (rule rotatePoint_formulas)
  show "rotatePoint 3 bx by (x, y) = rotatePoint 1 bx by (rotatePoint 2 bx by (x, y))"
    by (rule rotatePoint_formulas)
  show "map coords roomObstaclesLayout
       = [(300, 300), (300, 360), (300, 420), (360, 420), (420, 420),
          (1700, 300), (1640, 300), (1580, 300), (1580, 360), (1580, 420),
          (300, 1100), (360, 1100), (420, 1100), (420, 1040), (420, 980),
          (1700, 1100), (1700, 1040), (1700, 980), (1640, 980), (1580, 980),
          (1000, 750), (1000, 650), (1000, 850), (900, 750), (1100, 750)]"
    by (simp add: layout_explicit coords_def)
  show "list_all (\<lambda>p. fst p < 1000 \<and> snd p < 750) (map coords (createLShape 300 300 0))"
    by (simp add: createLShape_coords lTemplate_def upt3 rotatePoint_def)
  show "list_all (\<lambda>p. 1000 < fst p \<and> snd p < 750) (map coords (createLShape 1700 300 1))"
    by (simp add: createLShape_coords lTemplate_def upt3 rotatePoint_def)
  show "list_all (\<lambda>p. fst p < 1000 \<and> 750 < snd p) (map coords (createLShape 300 1100 3))"
    by (simp add: createLShape_coords lTemplate_def upt3 rotatePoint_def)
  show "list_all (\<lambda>p. 1000 < fst p \<and> 750 < snd p) (map coords (createLShape 1700 1100 2))"
    by (simp add: createLShape_coords lTemplate_def upt3 rotatePoint_def)
next
  assume "\<not> has (obstacles s) g"
  then show "snd (generateObstacles s g) = roomObstaclesLayout"
    using generateObstacles_new by blast
next
  assume "\<not> has (obstacles s) g"
  then show "map_of (obstacles (fst (generateObstacles s g))) g = Some roomObstaclesLayout"
    using generateObstacles_new by blast
next
  assume a: "reachable s \<and> map_of (obstacles s) g = Some obs"
  then have "\<forall>(k, obs) \<in> set (obstacles s). obs = roomObstaclesLayout"
    using reachable_obstacles by blast
  then show "obs = roomObstaclesLayout" using a ball_lookup[of "obstacles s"
      "\<lambda>obs. obs = roomObstaclesLayout" g obs] by blast
qed

theorem C7_obstacle_layout_witness:
  "\<not> has (obstacles initial) ''r''
   \<and> snd (generateObstacles initial ''r'') = roomObstaclesLayout
   \<and> snd (generateObstacles initial ''another room'') = roomObstaclesLayout
   \<and> reachable joined \<and> map_of (obstacles joined) ''r'' = Some roomObstaclesLayout
   \<and> length roomObstaclesLayout = 25"
proof -
  have h: "\<not> has (obstacles initial) ''r''" "\<not> has (obstacles initial) ''another room''"
    by (simp_all add: has_def initial_def)
  have m: "map_of (obstacles joined) ''r'' = Some roomObstaclesLayout" by (simp add: joined_def)
  show ?thesis
    using C7_obstacle_layout [of 0 0 0 0 0 initial "''r''"]
          C7_obstacle_layout [of 0 0 0 0 0 initial "''another room''"]
          h m reachable_joined
    by simp
qed

subsection \<open>The placement loop\<close>

lemma accepts_shift: "accepts obs r (n + 2) j = accepts obs r n (Suc j)"
  by (simp add: accepts_def add.commute add.left_commute)

lemma sampleAt_shift: "sampleAt r (n + 2) k = sampleAt r n (Suc k)"
  by (simp add: sampleAt_def add.commute add.left_commute)

lemma samplePosition_unfold:
  "samplePosition obs r n =
     (if accepts obs r n 0 then Some (sampleAt r n 0) else samplePosition obs r (n + 2))"
  by (subst samplePosition.simps) (simp add: accepts_def sampleAt_def Let_def)

lemma samplePosition_first:
  "accepts obs r n k \<Longrightarrow> (\<forall>j<k. \<not> accepts obs r n j) \<Longrightarrow>
     samplePosition obs r n = Some (sampleAt r n k)"
proof (induction k arbitrary: n)
  case 0
  then show ?case by (subst samplePosition_unfold) simp
next
  case (Suc k)
  have a: "accepts obs r (n + 2) k" using Suc.prems(1) by (simp only: accepts_shift)
  have b: "\<forall>j<k. \<not> accepts obs r (n + 2) j"
    using Suc.prems(2) by (simp only: accepts_shift) auto
  have c: "\<not> accepts obs r n 0" using Suc.prems(2) by simp
  show ?case
    by (subst samplePosition_unfold) (simp only: c if_False Suc.IH[OF a b] sampleAt_shift)
qed

lemma samplePosition_Some_accepts:
  assumes "samplePosition obs r n = Some y"
  shows "\<exists>k. accepts obs r n k \<and> y = sampleAt r n k"
proof (rule samplePosition.raw_induct
         [where P = "\<lambda>obs r n y. \<exists>k. accepts obs r n k \<and> y = sampleAt r n k", OF _ assms])
  fix f :: "Obstacle list \<Rightarrow> (nat \<Rightarrow> real) \<Rightarrow> nat \<Rightarrow> (real \<times> real \<times> nat) option"
  fix obs r n y
  assume ih: "\<And>obs r n y. f obs r n = Some y \<Longrightarrow>
                 \<exists>k. accepts obs r n k \<and> y = sampleAt r n k"
    and body: "(let x = r n * 1800 + 100; y = r (n + 1) * 1300 + 100
                in if list_all (farFromObstacle x y) obs then Some (x, y, n + 2)
                   else f obs r (n + 2)) = Some y"
  show "\<exists>k. accepts obs r n k \<and> y = sampleAt r n k"
  proof (cases "accepts obs r n 0")
    case True
    then have "y = sampleAt r n 0" using body by (simp add: accepts_def sampleAt_def Let_def)
    then show ?thesis using True by blast
  next
    case False
    then have e: "f obs r (n + 2) = Some y"
      using body by (simp add: accepts_def Let_def)
    have "\<exists>k. accepts obs r (n + 2) k \<and> y = sampleAt r (n + 2) k"
      using e by (rule ih)
    then obtain k where "accepts obs r (n + 2) k" "y = sampleAt r (n + 2) k"
      by blast
    then have "accepts obs r n (Suc k) \<and> y = sampleAt r n (Suc k)"
      by (simp only: accepts_shift sampleAt_shift)
    then show ?thesis by blast
  qed
qed

lemma samplePosition_None: "(\<forall>k. \<not> accepts obs r n k) \<Longrightarrow> samplePosition obs r n = None"
proof (rule ccontr)
  assume a: "\<forall>k. \<not> accepts obs r n k" and "samplePosition obs r n \<noteq> None"
  then obtain y where "samplePosition obs r n = Some y" by auto
  from samplePosition_Some_accepts[OF this] a show False by blast
qed

lemma sample_half: "samplePosition roomObstaclesLayout (rnd envHalf) n = None"
proof (rule samplePosition_None, rule allI)
  fix k
  show "\<not> accepts roomObstaclesLayout (rnd envHalf) n k"
    using layout_rejects_half by (simp add: accepts_def envHalf_def)
qed

lemma addPlayer_initial:
  "addPlayer initial sid ''r'' nm col
     = \<lparr>rooms = [(''r'', [(sid, \<lparr>player_id = sid, name = nm, color = col, position = (400, 300),
                                 velocity = (0, 0), score = 0, isAlive = True,
                                 respawnTime = None\<rparr>)])],
        globalFarmObjects = [], obstacles = []\<rparr>"
  by (simp add: addPlayer_def initial_def has_def Let_def)

lemma generateObstacles_first:
  "generateObstacles \<lparr>rooms = R, globalFarmObjects = [], obstacles = []\<rparr> ''r''
     = (\<lparr>rooms = R, globalFarmObjects = [], obstacles = [(''r'', roomObstaclesLayout)]\<rparr>,
        roomObstaclesLayout)"
  by (simp add: generateObstacles_def has_def Let_def)

subsection \<open>Room lifecycle\<close>

lemma delete_only_member: "fst ` set ps = {sid} \<Longrightarrow> AList.delete sid ps = []"
proof -
  assume a: "fst ` set ps = {sid}"
  have "\<And>p. p \<in> set ps \<Longrightarrow> fst p = sid"
  proof -
    fix p assume "p \<in> set ps"
    then have "fst p \<in> fst ` set ps" by (rule imageI)
    then show "fst p = sid" using a by simp
  qed
  then show ?thesis by (force simp add: AList.delete_eq filter_empty_conv)
qed

lemma has_only_member: "fst ` set ps = {sid} \<Longrightarrow> has ps sid"
proof -
  assume "fst ` set ps = {sid}"
  then have "sid \<in> fst ` set ps" by simp
  then show ?thesis by (simp add: has_def map_of_eq_None_iff)
qed

lemma disconnect_last_member:
  assumes "map_of (rooms s) g = Some ps" and "fst ` set ps = {sid}"
  shows "map_of (rooms (fst (disconnect s sid))) g = None"
proof -
  have k: "g \<in> set (map fst (rooms s))"
    using assms(1) by (metis map_of_eq_None_iff option.distinct(1) set_map)
  have r: "rooms (fst (disconnect s sid)) = fst (disconnectEach sid (map fst (rooms s)) (rooms s))"
    by (simp add: disconnect_def case_prod_beta)
  show ?thesis
    unfolding r disconnectEach_lookup
    using k assms(1) has_only_member[OF assms(2)] delete_only_member[OF assms(2)] by simp
qed

lemma disconnect_frame:
  "globalFarmObjects (fst (disconnect s sid)) = globalFarmObjects s
   \<and> obstacles (fst (disconnect s sid)) = obstacles s"
  by (simp add: disconnect_def case_prod_beta)

lemma joinGame_obstacles_kept:
  assumes "joinGame s sid E g nameOpt colorOpt = Some (Inr (s', effs))"
    and "map_of (obstacles s) g = Some obs"
  shows "map_of (obstacles s') g = Some obs \<and> Emit ToSender (ObstaclesUpdate obs) \<in> set effs"
proof -
  from assms(1) obtain nm col n0 effs0 n' where
    gen: "generateFarmObjects (fst (generateObstacles (addPlayer s sid g nm col) g))
        E n0 g 10 = Some (Inr (s', effs0, n'))"
    and ef: "effs = joinEffects s' sid g nm col
                  (snd (generateObstacles (addPlayer s sid g nm col) g)) effs0"
    by (rule joinGame_split)
  have o: "obstacles (addPlayer s sid g nm col) = obstacles s"
    by (simp add: addPlayer_def Let_def)
  have go: "generateObstacles (addPlayer s sid g nm col) g = (addPlayer s sid g nm col, obs)"
    using assms(2) o by (simp add: generateObstacles_def has_def Let_def)
  have "obstacles s' = obstacles s" using generateFarmObjects_rooms[OF gen] go o by simp
  then show ?thesis using assms(2) ef go by (simp add: joinEffects_def)
qed

lemma joinGame_full_room_kept:
  assumes "joinGame s sid E g nameOpt colorOpt = Some (Inr (s', effs))"
    and "map_of (globalFarmObjects s) g = Some objs" and "10 \<le> length objs"
  shows "globalFarmObjects s' = globalFarmObjects s
       \<and> Emit ToSender (FarmObjectsUpdate (map snd objs)) \<in> set effs"
proof -
  from assms(1) obtain nm col n0 effs0 n' where
    gen: "generateFarmObjects (fst (generateObstacles (addPlayer s sid g nm col) g))
        E n0 g 10 = Some (Inr (s', effs0, n'))"
    and ef: "effs = joinEffects s' sid g nm col
                  (snd (generateObstacles (addPlayer s sid g nm col) g)) effs0"
    by (rule joinGame_split)
  let ?s2 = "fst (generateObstacles (addPlayer s sid g nm col) g)"
  have f: "globalFarmObjects ?s2 = globalFarmObjects s"
    by (simp add: generateObstacles_def addPlayer_def Let_def)
  have "s' = ?s2\<lparr>globalFarmObjects := globalFarmObjects ?s2\<rparr>"
    using gen assms(2,3) f by (simp add: generateFarmObjects_def has_def Let_def)
  then have "globalFarmObjects s' = globalFarmObjects s" using f by simp
  then show ?thesis using assms(2) ef by (simp add: joinEffects_def)
qed

lemma disconnect_joined:
  "disconnect joined ''a'' = (abandoned, [Emit (ToRoomExceptSender ''r'') (PlayerLeft ''a'' None)])"
  by (simp add: disconnect_def joined_def abandoned_def has_def Let_def)

lemma second_join:
  "joinGame abandoned ''b'' env1 ''r'' (Some ''Bob'') None =
     Some (Inr (rejoined,
       [JoinRoom ''r'',
        Emit ToSender (CurrentPlayers [newcomer]),
        Emit ToSender (ObstaclesUpdate roomObstaclesLayout),
        Emit ToSender (FarmObjectsUpdate (map snd tenCrystals)),
        Emit (ToRoomExceptSender ''r'') (PlayerJoined ''b'' ''Bob'' 1734143 (400, 300) (0, 0) 0 True)]))"
proof -
  have a: "addPlayer abandoned ''b'' ''r'' ''Bob'' 1734143 = rejoined"
    by (simp add: addPlayer_def abandoned_def rejoined_def newcomer_def has_def Let_def)
  have o: "generateObstacles rejoined ''r'' = (rejoined, roomObstaclesLayout)"
    by (simp add: generateObstacles_def rejoined_def has_def Let_def)
  have g: "generateFarmObjects rejoined env1 0 ''r'' 10 = Some (Inr (rejoined, [], 0))"
    by (simp add: generateFarmObjects_def rejoined_def has_def Let_def length_tenCrystals)
  have r: "rooms rejoined = [(''r'', [(''b'', newcomer)])]"
    "globalFarmObjects rejoined = [(''r'', tenCrystals)]" by (simp_all add: rejoined_def)
  show ?thesis
    by (simp add: joinGame_def Let_def a o g joinEffects_def r)
qed

lemma env1_fields: "rnd env1 n = 3 / 4" "clock env1 i = int i" "base36 env1 r = ''z''"
  by (simp_all add: env1_def)

lemma farmLoop_env1_step:
  "farmLoop env1 roomObstaclesLayout (Suc k) i n objs =
     farmLoop env1 roomObstaclesLayout k (i + 1) (n + 2 + 2)
       (AList.update (fst (gemAt i)) (snd (gemAt i)) objs)"
proof -
  have idx: "\<lfloor>rnd env1 (n + 1) * real (length typesAndValues)\<rfloor> = 2"
    by (simp add: env1_fields typesAndValues_def)
  show ?thesis
    unfolding farmLoop.simps Let_def sample_env1 idx
    by (simp add: gemAt_def typesAndValues_def env1_fields)
qed

lemma farmLoop_env1:
  "farmLoop env1 roomObstaclesLayout k i n objs =
     Some (Inr (fold (\<lambda>j. AList.update (fst (gemAt j)) (snd (gemAt j))) [i..<i + k] objs,
                n + 4 * k))"
proof (induction k arbitrary: i n objs)
  case 0
  show ?case by simp
next
  case (Suc k)
  have u: "[i..<i + Suc k] = i # [i + 1..<i + 1 + k]" by (simp add: upt_conv_Cons)
  show ?case
    unfolding farmLoop_env1_step Suc.IH u by simp
qed

lemma fold_gems:
  "fold (\<lambda>j. AList.update (fst (gemAt j)) (snd (gemAt j))) [0..<10] [] = tenGems"
  by (simp add: tenGems_def upt10 gemAt_def toString_digits toString_more)

lemma fresh_join:
  "joinGame initial ''b'' env1 ''r'' (Some ''Bob'') None =
     Some (Inr (freshRoom,
       [JoinRoom ''r'',
        Emit (ToRoomExceptSender ''r'') (FarmObjectsUpdate (map snd tenGems)),
        Emit ToSender (FarmObjectsUpdate (map snd tenGems)),
        Emit ToSender (CurrentPlayers [newcomer]),
        Emit ToSender (ObstaclesUpdate roomObstaclesLayout),
        Emit ToSender (FarmObjectsUpdate (map snd tenGems)),
        Emit (ToRoomExceptSender ''r'') (PlayerJoined ''b'' ''Bob'' 1734143 (400, 300) (0, 0) 0 True)]))"
proof -
  have a: "addPlayer initial ''b'' ''r'' ''Bob'' 1734143
             = \<lparr>rooms = [(''r'', [(''b'', newcomer)])], globalFarmObjects = [], obstacles = []\<rparr>"
    by (simp add: addPlayer_initial newcomer_def)
  have g: "generateFarmObjects
             \<lparr>rooms = [(''r'', [(''b'', newcomer)])], globalFarmObjects = [],
              obstacles = [(''r'', roomObstaclesLayout)]\<rparr> env1 0 ''r'' 10
           = Some (Inr (freshRoom,
               [Emit (ToRoomExceptSender ''r'') (FarmObjectsUpdate (map snd tenGems)),
                Emit ToSender (FarmObjectsUpdate (map snd tenGems))], 40))"
    by (simp add: generateFarmObjects_def has_def Let_def farmLoop_env1 fold_gems freshRoom_def)
  have r: "rooms freshRoom = [(''r'', [(''b'', newcomer)])]"
    "globalFarmObjects freshRoom = [(''r'', tenGems)]" by (simp_all add: freshRoom_def)
  show ?thesis
    by (simp add: joinGame_def Let_def a generateObstacles_first g joinEffects_def r)
qed

lemma crystals_not_gems: "tenCrystals \<noteq> tenGems"
proof
  assume "tenCrystals = tenGems"
  then have "hd tenCrystals = hd tenGems" by simp
  then show False by (simp add: tenCrystals_def tenGems_def upt10 crystal_def gemAt_def)
qed

text \<open>
  C6 (as the claim states it, refuted). The first player joins a new room \<open>r\<close> and ten
  crystals are generated; the player disconnects and the room leaves the registry; a
  second player joins \<open>r\<close> with another random source. The second join generates nothing:
  it returns the ten crystals left over from the destroyed room, where a join to a room
  that never existed would, with the same random source, have generated ten gems.
\<close>

theorem C6_rejoin_reuses_leftovers_counterexample:
  "joinGame initial ''a'' env0 ''r'' (Some ''Alice'') None =
     Some (Inr (joined,
       [JoinRoom ''r'',
        Emit (ToRoomExceptSender ''r'') (FarmObjectsUpdate (map snd tenCrystals)),
        Emit ToSender (FarmObjectsUpdate (map snd tenCrystals)),
        Emit ToSender (CurrentPlayers [alice]),
        Emit ToSender (ObstaclesUpdate roomObstaclesLayout),
        Emit ToSender (FarmObjectsUpdate (map snd tenCrystals)),
        Emit (ToRoomExceptSender ''r'') (PlayerJoined ''a'' ''Alice'' 1734143 (400, 300) (0, 0) 0 True)]))
   \<and> disconnect joined ''a''
       = (abandoned, [Emit (ToRoomExceptSender ''r'') (PlayerLeft ''a'' None)])
   \<and> map_of (rooms abandoned) ''r'' = None
   \<and> joinGame abandoned ''b'' env1 ''r'' (Some ''Bob'') None =
     Some (Inr (rejoined,
       [JoinRoom ''r'',
        Emit ToSender (CurrentPlayers [newcomer]),
        Emit ToSender (ObstaclesUpdate roomObstaclesLayout),
        Emit ToSender (FarmObjectsUpdate (map snd tenCrystals)),
        Emit (ToRoomExceptSender ''r'') (PlayerJoined ''b'' ''Bob'' 1734143 (400, 300) (0, 0) 0 True)]))
   \<and> globalFarmObjects rejoined = globalFarmObjects joined
   \<and> joinGame initial ''b'' env1 ''r'' (Some ''Bob'') None =
     Some (Inr (freshRoom,
       [JoinRoom ''r'',
        Emit (ToRoomExceptSender ''r'') (FarmObjectsUpdate (map snd tenGems)),
        Emit ToSender (FarmObjectsUpdate (map snd tenGems)),
        Emit ToSender (CurrentPlayers [newcomer]),
        Emit ToSender (ObstaclesUpdate roomObstaclesLayout),
        Emit ToSender (FarmObjectsUpdate (map snd tenGems)),
        Emit (ToRoomExceptSender ''r'') (PlayerJoined ''b'' ''Bob'' 1734143 (400, 300) (0, 0) 0 True)]))
   \<and> globalFarmObjects freshRoom \<noteq> globalFarmObjects rejoined"
proof -
  have 1: "map_of (rooms abandoned) ''r'' = None" by (simp add: abandoned_def)
  have 2: "globalFarmObjects rejoined = globalFarmObjects joined"
    by (simp add: rejoined_def joined_def)
  have 3: "globalFarmObjects freshRoom \<noteq> globalFarmObjects rejoined"
    using crystals_not_gems by (simp add: rejoined_def freshRoom_def)
  show ?thesis
    using first_join disconnect_joined second_join fresh_join 1 2 3 by simp
qed

subsection \<open>Collecting over a run\<close>

lemma collect_never_adds:
  "farmObject s g oid = None \<Longrightarrow> farmObject (fst (farmObjectHit s sid gameId objectId)) g oid = None"
  using farmObjectHit_count_eq[of g oid s sid gameId objectId] by (auto split: if_splits)

lemma step_account:
  assumes "step s e = Some (Inr (s', effs))"
  shows "destroyedCount g oid effs + (if farmObject s' g oid \<noteq> None then 1 else 0)
           = (if farmObject s g oid \<noteq> None then 1 else 0)
             + (if farmObject s g oid = None \<and> farmObject s' g oid \<noteq> None then 1 else 0)"
proof (cases "farmObject s' g oid = None \<or> farmObject s g oid \<noteq> None")
  case True
  then show ?thesis using step_count_eq[OF assms True] by auto
next
  case False
  then have a: "farmObject s g oid = None" and b: "farmObject s' g oid \<noteq> None" by simp_all
  have n: "\<forall>sid gameId objectId. e \<noteq> FarmObjectHit sid gameId objectId
           \<and> e \<noteq> CollectResource sid gameId objectId"
  proof (intro allI conjI notI)
    fix sid gameId objectId
    assume "e = FarmObjectHit sid gameId objectId"
    with assms have "s' = fst (farmObjectHit s sid gameId objectId)" by (simp add: prod_eq_iff)
    then show False using collect_never_adds[OF a] b by simp
  next
    fix sid gameId objectId
    assume "e = CollectResource sid gameId objectId"
    with assms have "s' = fst (farmObjectHit s sid gameId objectId)"
      by (simp add: prod_eq_iff collectResource_eq)
    then show False using collect_never_adds[OF a] b by simp
  qed
  have "destroyedCount g oid effs = 0" using step_other_no_destroyed[OF assms n] .
  then show ?thesis using a b by simp
qed

lemma run_account:
  "run s es = Some (Inr (s', effs)) \<Longrightarrow>
     destroyedCount g oid effs + (if farmObject s' g oid \<noteq> None then 1 else 0)
       = (if farmObject s g oid \<noteq> None then 1 else 0) + issued g oid s es"
proof (induction es arbitrary: s s' effs)
  case Nil
  then show ?case by (simp add: destroyedCount_def)
next
  case (Cons e es)
  from Cons.prems obtain s1 effs1 s2 effs2 where
    st: "step s e = Some (Inr (s1, effs1))" and rn: "run s1 es = Some (Inr (s2, effs2))"
    and eq: "s' = s2" "effs = effs1 @ effs2"
    by (auto split: option.splits sum.splits prod.splits)
  note c1 = step_account[OF st, of g oid]
  note c2 = Cons.IH[OF rn]
  have d: "destroyedCount g oid effs = destroyedCount g oid effs1 + destroyedCount g oid effs2"
    by (simp add: eq destroyedCount_def)
  have i: "issued g oid s (e # es)
             = (if farmObject s g oid = None \<and> farmObject s1 g oid \<noteq> None then 1 else 0)
               + issued g oid s1 es"
    using st by simp
  show ?case unfolding d i eq(1) using c1 c2 by (auto split: if_splits)
qed

lemma farmLoop_fresh:
  "farmLoop E obs k i n objs = Some (Inr (objs', n')) \<Longrightarrow> \<not> renders E oid \<Longrightarrow>
     map_of objs' oid = map_of objs oid"
proof (induction k arbitrary: i n objs)
  case 0
  then show ?case by simp
next
  case (Suc k)
  from Suc.prems(1) obtain x y m where
    sp: "samplePosition obs (rnd E) (n + 2) = Some (x, y, m)"
    by (auto simp add: Let_def split: option.splits)
  define ident where "ident = ''farm-'' @ toString (clock E i) @ ''-'' @ base36 E (rnd E n)"
  define idx where "idx = \<lfloor>rnd E (n + 1) * real (length typesAndValues)\<rfloor>"
  define obj where "obj = \<lparr>farm_id = ident, farm_position = (x, y),
                     farm_type = fst (typesAndValues ! nat idx),
                     farm_value = snd (typesAndValues ! nat idx)\<rparr>"
  from Suc.prems(1) sp have
    rec: "farmLoop E obs k (i + 1) m (AList.update ident obj objs) = Some (Inr (objs', n'))"
    by (auto simp add: Let_def ident_def idx_def obj_def split: if_splits)
  have "ident \<noteq> oid" using Suc.prems(2) by (auto simp add: renders_def ident_def)
  then have "map_of (AList.update ident obj objs) oid = map_of objs oid"
    by (simp add: update_conv')
  then show ?case using Suc.IH[OF rec Suc.prems(2)] by simp
qed

lemma generateFarmObjects_fresh:
  "generateFarmObjects s E n gameId c = Some (Inr (s', effs, n')) \<Longrightarrow> \<not> renders E oid \<Longrightarrow>
     farmObject s' g oid = farmObject s g oid"
  by (auto simp add: generateFarmObjects_def Let_def farmObject_def has_def update_conv'
        split: option.splits sum.splits if_splits dest: farmLoop_fresh)

lemma step_fresh:
  assumes "step s e = Some (Inr (s', effs))" and "freshFor oid e"
    and "farmObject s g oid = None"
  shows "farmObject s' g oid = None"
proof (cases e)
  case (JoinGame sid E gameId nameOpt colorOpt)
  then have fr: "\<not> renders E oid" using assms(2) by (simp add: freshFor_def)
  from assms(1) JoinGame
  have "joinGame s sid E gameId nameOpt colorOpt = Some (Inr (s', effs))" by simp
  then obtain nm col n0 effs0 n' where
    gen: "generateFarmObjects (fst (generateObstacles (addPlayer s sid gameId nm col) gameId))
        E n0 gameId 10 = Some (Inr (s', effs0, n'))"
    by (rule joinGame_split)
  have "globalFarmObjects (fst (generateObstacles (addPlayer s sid gameId nm col) gameId))
          = globalFarmObjects s"
    by (simp add: generateObstacles_def addPlayer_def Let_def)
  then have "farmObject (fst (generateObstacles (addPlayer s sid gameId nm col) gameId)) g oid
          = None" using assms(3) by (simp add: farmObject_def)
  then show ?thesis using generateFarmObjects_fresh[OF gen fr, of g] by simp
next
  case (PlayerMove sid gameId pos vel)
  then show ?thesis using assms(1,3)
    by (auto simp add: playerMove_def farmObject_def split: option.splits)
next
  case (Disconnect sid)
  then show ?thesis using assms(1,3)
    by (auto simp add: disconnect_def farmObject_def split: prod.splits)
next
  case (PlayerShoot sid gameId direction pos)
  then show ?thesis using assms(1,3) by (auto simp add: playerShoot_def)
next
  case (PlayerHit sid now gameId shooterId targetId)
  then show ?thesis using assms(1,3)
    by (auto simp add: playerHit_def farmObject_def Let_def split: option.splits if_splits)
next
  case (FarmObjectHit sid gameId objectId)
  with assms(1) have "s' = fst (farmObjectHit s sid gameId objectId)" by (simp add: prod_eq_iff)
  then show ?thesis using collect_never_adds[OF assms(3)] by simp
next
  case (CollectResource sid gameId objectId)
  with assms(1) have "s' = fst (farmObjectHit s sid gameId objectId)"
    by (simp add: prod_eq_iff collectResource_eq)
  then show ?thesis using collect_never_adds[OF assms(3)] by simp
next
  case (RespawnTimeout sid rx ry gameId targetId)
  then show ?thesis using assms(1,3)
    by (auto simp add: respawnPlayer_def farmObject_def Let_def split: option.splits)
next
  case (FarmTimeout sid E gameId)
  then have fr: "\<not> renders E oid" using assms(2) by (simp add: freshFor_def)
  from assms(1) FarmTimeout obtain effs0 n' where
    gen: "generateFarmObjects s E 0 gameId 10 = Some (Inr (s', effs0, n'))"
    by (auto simp add: farmTimeout_def split: option.splits sum.splits prod.splits)
  show ?thesis using generateFarmObjects_fresh[OF gen fr, of g] assms(3) by simp
qed

lemma issued_fresh: "\<forall>e \<in> set es. freshFor oid e \<Longrightarrow> issued g oid s es = 0"
proof (induction es arbitrary: s)
  case Nil
  show ?case by simp
next
  case (Cons e es)
  show ?case
  proof (cases "step s e")
    case None
    then show ?thesis by simp
  next
    case (Some r)
    show ?thesis
    proof (cases r)
      case (Inl x)
      then show ?thesis using Some by simp
    next
      case (Inr p)
      obtain s1 effs1 where p: "p = (s1, effs1)" by (cases p)
      have st: "step s e = Some (Inr (s1, effs1))" using Some Inr p by simp
      have f: "freshFor oid e" using Cons.prems by simp
      have "\<not> (farmObject s g oid = None \<and> farmObject s1 g oid \<noteq> None)"
      proof
        assume ab: "farmObject s g oid = None \<and> farmObject s1 g oid \<noteq> None"
        then have "farmObject s g oid = None" by simp
        from step_fresh[OF st f this] ab show False by simp
      qed
      moreover have "issued g oid s1 es = 0" using Cons.IH Cons.prems by simp
      ultimately show ?thesis using st by simp
    qed
  qed
qed

lemma renders_env1: "\<not> renders env1 ''farm-1-x''"
proof
  assume "renders env1 ''farm-1-x''"
  then obtain i where "''farm-1-x'' = ''farm-'' @ toString (int i) @ ''-z''"
    by (auto simp add: renders_def env1_def)
  then have "last ''farm-1-x'' = last (''farm-'' @ toString (int i) @ ''-z'')" by simp
  then show False by simp
qed

lemma delete_first_crystal: "AList.delete ''farm-0-x'' tenCrystals = nineCrystals"
proof -
  have "[1..<10] = [1, 2, 3, 4, 5, 6, 7, 8, 9]" by (simp add: upt_rec)
  then show ?thesis
    by (simp add: tenCrystals_def nineCrystals_def upt10 crystal_def toString_digits toString_more)
qed

lemma nine_keys: "map_of nineCrystals ''farm-0-x'' = None"
proof -
  have "[1..<10] = [1, 2, 3, 4, 5, 6, 7, 8, 9]" by (simp add: upt_rec)
  then show ?thesis
    by (simp add: nineCrystals_def crystal_def toString_digits toString_more)
qed

lemma length_nineCrystals: "length nineCrystals = 9"
  by (simp add: nineCrystals_def)

lemma step_one:
  "farmObjectHit joined ''a'' ''r'' ''farm-0-x'' =
     (collectedOnce, [Emit (ToRoomExceptSender ''r'') (FarmObjectDestroyed ''farm-0-x'' ''a'' 5),
           Emit ToSender (FarmObjectDestroyed ''farm-0-x'' ''a'' 5),
           SetTimeout (FarmTimer ''r'') 2000])"
proof -
  have m: "map_of tenCrystals ''farm-0-x'' = Some (snd (crystal 0))"
    by (simp add: tenCrystals_def upt10 crystal_def toString_digits)
  show ?thesis
    by (simp add: farmObjectHit_def joined_def m delete_first_crystal collectedOnce_def Let_def crystal_def
          alice_def)
qed

lemma update_append_new:
  "map_of al k = None \<Longrightarrow> AList.update k v al = al @ [(k, v)]"
  by (induction al) (auto split: if_splits)

lemma step_two:
  "farmTimeout collectedOnce env0 ''r'' =
     Some (Inr (refilled,
       [Emit (ToRoomExceptSender ''r'') (FarmObjectsUpdate (map snd (nineCrystals @ [crystal 0]))),
        Emit ToSender (FarmObjectsUpdate (map snd (nineCrystals @ [crystal 0])))]))"
proof -
  have k: "fst (crystal 0) = ''farm-0-x''" by (simp add: crystal_def toString_digits)
  have f: "farmLoop env0 roomObstaclesLayout (Suc 0) 0 0 nineCrystals
             = Some (Inr (nineCrystals @ [crystal 0], 4))"
    unfolding farmLoop_env0_step
    using update_append_new[OF nine_keys, of "snd (crystal 0)"] by (simp add: k[symmetric])
  have ten: "10 - length nineCrystals = Suc 0" by (simp add: length_nineCrystals)
  show ?thesis
    by (simp add: farmTimeout_def generateFarmObjects_def collectedOnce_def refilled_def has_def Let_def
          length_nineCrystals f del: farmLoop.simps)
qed

lemma step_three:
  "destroyedCount ''r'' ''farm-0-x'' (snd (farmObjectHit refilled ''a'' ''r'' ''farm-0-x'')) = 1"
proof -
  have "map_of (nineCrystals @ [crystal 0]) ''farm-0-x'' = Some (snd (crystal 0))"
    using nine_keys by (simp add: map_add_def crystal_def toString_digits)
  then have "farmObject refilled ''r'' ''farm-0-x'' \<noteq> None" by (simp add: farmObject_def refilled_def)
  moreover have "player refilled ''r'' ''a'' = Some (alice\<lparr>score := 5\<rparr>)"
    by (simp add: player_def refilled_def)
  ultimately show ?thesis
    using farmObjectHit_count_eq[of "''r''" "''farm-0-x''" refilled "''a''" "''r''" "''farm-0-x''"]
      farmObjectHit_present[of refilled "''r''" "''farm-0-x''" _ "''a''"]
    by auto
qed

text \<open>
  C2 (as the claim states it, refuted). From the state after the first join, which is
  reachable, a member collects \<open>farm-0-x\<close>, the repopulation timer fires and generates the
  identifier \<open>farm-0-x\<close> again (same clock reading, same suffix), and the member collects
  it again: two collects naming one identifier succeed, and the run emits two
  object-destroyed broadcasts for it.
\<close>

theorem C2_reissued_identifier_counterexample:
  "reachable joined
   \<and> farmObject joined ''r'' ''farm-0-x'' = Some (snd (crystal 0))
   \<and> destroyedInRun ''r'' ''farm-0-x'' joined reissue = Some 2"
proof -
  obtain s3 effs3 where h3: "farmObjectHit refilled ''a'' ''r'' ''farm-0-x'' = (s3, effs3)"
    by (cases "farmObjectHit refilled ''a'' ''r'' ''farm-0-x''")
  have c3: "destroyedCount ''r'' ''farm-0-x'' effs3 = 1" using step_three h3 by simp
  have "run joined reissue
          = Some (Inr (s3,
              [Emit (ToRoomExceptSender ''r'') (FarmObjectDestroyed ''farm-0-x'' ''a'' 5),
               Emit ToSender (FarmObjectDestroyed ''farm-0-x'' ''a'' 5),
               SetTimeout (FarmTimer ''r'') 2000]
              @ [Emit (ToRoomExceptSender ''r'')
                   (FarmObjectsUpdate (map snd (nineCrystals @ [crystal 0]))),
                 Emit ToSender (FarmObjectsUpdate (map snd (nineCrystals @ [crystal 0])))]
              @ effs3))"
    by (simp add: reissue_def step_one step_two h3)
  then have "destroyedInRun ''r'' ''farm-0-x'' joined reissue = Some 2"
    using c3 by (simp add: destroyedInRun_def destroyedCount_def)
  then show ?thesis using reachable_joined joined_first_crystal by simp
qed

lemma refill_duel:
  "farmTimeout afterCollect env1 ''r'' =
     Some (Inr (refilledDuel,
       [Emit (ToRoomExceptSender ''r'') (FarmObjectsUpdate (map snd tenGems)),
        Emit ToSender (FarmObjectsUpdate (map snd tenGems))]))"
  by (simp add: farmTimeout_def generateFarmObjects_def afterCollect_def refilledDuel_def has_def
        Let_def farmLoop_env1 fold_gems del: farmLoop.simps)

lemma gems_no_x: "farmObject refilledDuel ''r'' ''farm-1-x'' = None"
  by (simp add: farmObject_def refilledDuel_def tenGems_def upt10 gemAt_def toString_digits
        toString_more)

text \<open>
  C2 (amended). A collect (by projectile or by proximity, the two handlers are the same
  function) of a stored object by a member credits the value, removes the object and emits
  the object-destroyed notification; after it, and in any state where the identifier is
  not stored, a collect naming the identifier returns the state unchanged with no effect.
  Over every run that returns, the object-destroyed broadcasts for an identifier, plus one
  if it is stored at the end, are as many as the times it was put into the room, plus one
  if it was stored at the start. Only a join or a repopulation whose random source renders
  the identifier puts it into the room; in a run where none does, it is put there zero
  times, and the broadcasts for it, plus one if it is stored at the end, are one if it was
  stored at the start and zero otherwise.
\<close>

theorem C2_collect_accounting:
  "(farmObject s g oid = Some obj \<and> player s g sid = Some p \<longrightarrow>
      player (fst (farmObjectHit s sid g oid)) g sid
        = Some (p\<lparr>score := score p + farm_value obj\<rparr>)
      \<and> farmObject (fst (farmObjectHit s sid g oid)) g oid = None
      \<and> snd (farmObjectHit s sid g oid)
          = [Emit (ToRoomExceptSender g) (FarmObjectDestroyed oid sid (score p + farm_value obj)),
             Emit ToSender (FarmObjectDestroyed oid sid (score p + farm_value obj)),
             SetTimeout (FarmTimer g) 2000]
      \<and> collectResource s sid g oid = farmObjectHit s sid g oid
      \<and> farmObjectHit (fst (farmObjectHit s sid g oid)) sid2 g oid
          = (fst (farmObjectHit s sid g oid), [])
      \<and> collectResource (fst (farmObjectHit s sid g oid)) sid2 g oid
          = (fst (farmObjectHit s sid g oid), []))
   \<and> (farmObject s g oid = None \<longrightarrow>
        farmObjectHit s sid g oid = (s, []) \<and> collectResource s sid g oid = (s, []))
   \<and> (run s es = Some (Inr (s', effs)) \<longrightarrow>
        destroyedCount g oid effs + (if farmObject s' g oid \<noteq> None then 1 else 0)
          = (if farmObject s g oid \<noteq> None then 1 else 0) + issued g oid s es)
   \<and> (list_all (freshFor oid) es \<longrightarrow> issued g oid s es = 0)
   \<and> (list_all (freshFor oid) es \<and> run s es = Some (Inr (s', effs)) \<longrightarrow>
        destroyedCount g oid effs + (if farmObject s' g oid \<noteq> None then 1 else 0)
          = (if farmObject s g oid \<noteq> None then 1 else 0))
   \<and> (step s e = Some (Inr (s', effs)) \<and> farmObject s g oid = None
        \<and> farmObject s' g oid \<noteq> None \<longrightarrow>
        (\<exists>E. eventEnv e = Some E \<and> renders E oid))"
proof (intro conjI impI)
  assume a: "farmObject s g oid = Some obj \<and> player s g sid = Some p"
  then have a1: "farmObject s g oid = Some obj" and a2: "player s g sid = Some p" by simp_all
  note pr = farmObjectHit_present[OF a1 a2]
  show "player (fst (farmObjectHit s sid g oid)) g sid
        = Some (p\<lparr>score := score p + farm_value obj\<rparr>)" using pr by simp
  show gone: "farmObject (fst (farmObjectHit s sid g oid)) g oid = None" using pr by simp
  show "snd (farmObjectHit s sid g oid)
          = [Emit (ToRoomExceptSender g) (FarmObjectDestroyed oid sid (score p + farm_value obj)),
             Emit ToSender (FarmObjectDestroyed oid sid (score p + farm_value obj)),
             SetTimeout (FarmTimer g) 2000]" using pr by simp
  show "collectResource s sid g oid = farmObjectHit s sid g oid" by (rule collectResource_eq)
  show "farmObjectHit (fst (farmObjectHit s sid g oid)) sid2 g oid
          = (fst (farmObjectHit s sid g oid), [])" by (rule farmObjectHit_absent[OF gone])
  show "collectResource (fst (farmObjectHit s sid g oid)) sid2 g oid
          = (fst (farmObjectHit s sid g oid), [])" by (rule collectResource_absent[OF gone])
next
  assume "farmObject s g oid = None"
  then show "farmObjectHit s sid g oid = (s, [])" by (rule farmObjectHit_absent)
next
  assume "farmObject s g oid = None"
  then show "collectResource s sid g oid = (s, [])" by (rule collectResource_absent)
next
  assume "run s es = Some (Inr (s', effs))"
  then show "destroyedCount g oid effs + (if farmObject s' g oid \<noteq> None then 1 else 0)
          = (if farmObject s g oid \<noteq> None then 1 else 0) + issued g oid s es"
    by (rule run_account)
next
  assume "list_all (freshFor oid) es"
  then have "\<forall>e \<in> set es. freshFor oid e" by (simp add: list_all_iff)
  then show "issued g oid s es = 0" by (rule issued_fresh)
next
  assume a: "list_all (freshFor oid) es \<and> run s es = Some (Inr (s', effs))"
  then have "\<forall>e \<in> set es. freshFor oid e" by (simp add: list_all_iff)
  then have "issued g oid s es = 0" by (rule issued_fresh)
  moreover have "destroyedCount g oid effs + (if farmObject s' g oid \<noteq> None then 1 else 0)
          = (if farmObject s g oid \<noteq> None then 1 else 0) + issued g oid s es"
    using a run_account by blast
  ultimately show "destroyedCount g oid effs + (if farmObject s' g oid \<noteq> None then 1 else 0)
          = (if farmObject s g oid \<noteq> None then 1 else 0)" by simp
next
  assume a: "step s e = Some (Inr (s', effs)) \<and> farmObject s g oid = None
        \<and> farmObject s' g oid \<noteq> None"
  show "\<exists>E. eventEnv e = Some E \<and> renders E oid"
  proof (rule ccontr)
    assume "\<not> (\<exists>E. eventEnv e = Some E \<and> renders E oid)"
    then have "freshFor oid e" by (auto simp add: freshFor_def split: option.splits)
    from step_fresh[OF _ this, of s s' effs g] a show False by simp
  qed
qed

theorem C2_collect_accounting_witness:
  "farmObject duel ''r'' ''farm-1-x'' = Some gem \<and> player duel ''r'' ''a'' = Some alice
   \<and> player afterCollect ''r'' ''a'' = Some (alice\<lparr>score := 10\<rparr>)
   \<and> farmObject afterCollect ''r'' ''farm-1-x'' = None
   \<and> collectResource afterCollect ''b'' ''r'' ''farm-1-x'' = (afterCollect, [])
   \<and> list_all (freshFor ''farm-1-x'') freshRun
   \<and> issued ''r'' ''farm-1-x'' duel freshRun = 0
   \<and> run duel freshRun
        = Some (Inr (refilledDuel,
            [Emit (ToRoomExceptSender ''r'') (FarmObjectDestroyed ''farm-1-x'' ''a'' 10),
             Emit ToSender (FarmObjectDestroyed ''farm-1-x'' ''a'' 10),
             SetTimeout (FarmTimer ''r'') 2000,
             Emit (ToRoomExceptSender ''r'') (FarmObjectsUpdate (map snd tenGems)),
             Emit ToSender (FarmObjectsUpdate (map snd tenGems))]))
   \<and> destroyedInRun ''r'' ''farm-1-x'' duel freshRun = Some 1
   \<and> issued ''r'' ''farm-0-x'' joined reissue = 1
   \<and> farmObject collectedOnce ''r'' ''farm-0-x'' = None
   \<and> farmObject refilled ''r'' ''farm-0-x'' = Some (snd (crystal 0))
   \<and> renders env0 ''farm-0-x''"
proof -
  have h1: "farmObject duel ''r'' ''farm-1-x'' = Some gem" by (simp add: farmObject_def duel_def)
  have h2: "player duel ''r'' ''a'' = Some alice" by (simp add: player_def duel_def)
  have fr: "list_all (freshFor ''farm-1-x'') freshRun"
    using renders_env1 by (simp add: freshRun_def freshFor_def)
  have ab: "farmObject afterCollect ''r'' ''farm-1-x'' = None"
    by (simp add: farmObject_def afterCollect_def)
  have pa: "player afterCollect ''r'' ''a'' = Some (alice\<lparr>score := 10\<rparr>)"
    by (simp add: player_def afterCollect_def)
  have n2: "collectResource afterCollect ''b'' ''r'' ''farm-1-x'' = (afterCollect, [])"
    using C2_collect_accounting [of afterCollect "''r''" "''farm-1-x''" _ "''b''"] ab by simp
  have n3: "collectResource refilledDuel ''b'' ''r'' ''farm-1-x'' = (refilledDuel, [])"
    and n4: "farmObjectHit refilledDuel ''a'' ''r'' ''farm-1-x'' = (refilledDuel, [])"
    using C2_collect_accounting [of refilledDuel "''r''" "''farm-1-x''" _ "''b''"]
          C2_collect_accounting [of refilledDuel "''r''" "''farm-1-x''" _ "''a''"] gems_no_x
    by simp_all
  have rn: "run duel freshRun
        = Some (Inr (refilledDuel,
            [Emit (ToRoomExceptSender ''r'') (FarmObjectDestroyed ''farm-1-x'' ''a'' 10),
             Emit ToSender (FarmObjectDestroyed ''farm-1-x'' ''a'' 10),
             SetTimeout (FarmTimer ''r'') 2000,
             Emit (ToRoomExceptSender ''r'') (FarmObjectsUpdate (map snd tenGems)),
             Emit ToSender (FarmObjectsUpdate (map snd tenGems))]))"
    by (simp add: freshRun_def duel_collect refill_duel n3 n4)
  have i0: "issued ''r'' ''farm-1-x'' duel freshRun = 0"
    using C2_collect_accounting [of duel "''r''" "''farm-1-x''" gem "''a''" alice "''b''" freshRun]
      fr by blast
  have d1: "destroyedInRun ''r'' ''farm-1-x'' duel freshRun = Some 1"
    using C2_collect_accounting [of duel "''r''" "''farm-1-x''" gem "''a''" alice "''b''" freshRun
            refilledDuel] rn i0 h1 gems_no_x
    by (simp add: destroyedInRun_def)
  obtain s3 effs3 where r2: "run joined reissue = Some (Inr (s3, effs3))"
    and c2: "destroyedCount ''r'' ''farm-0-x'' effs3 = 2"
    and e3: "farmObject s3 ''r'' ''farm-0-x'' = None"
  proof -
    obtain s3 effs where h3: "farmObjectHit refilled ''a'' ''r'' ''farm-0-x'' = (s3, effs)"
      by (cases "farmObjectHit refilled ''a'' ''r'' ''farm-0-x''")
    have p: "farmObject refilled ''r'' ''farm-0-x'' \<noteq> None"
      using nine_keys by (simp add: farmObject_def refilled_def map_add_def crystal_def
          toString_digits)
    have g: "farmObject s3 ''r'' ''farm-0-x'' = None"
      using farmObjectHit_count_eq[of "''r''" "''farm-0-x''" refilled "''a''" "''r''" "''farm-0-x''"]
        step_three h3 p by (auto split: if_splits)
    have "run joined reissue = Some (Inr (s3,
              [Emit (ToRoomExceptSender ''r'') (FarmObjectDestroyed ''farm-0-x'' ''a'' 5),
               Emit ToSender (FarmObjectDestroyed ''farm-0-x'' ''a'' 5),
               SetTimeout (FarmTimer ''r'') 2000]
              @ [Emit (ToRoomExceptSender ''r'')
                   (FarmObjectsUpdate (map snd (nineCrystals @ [crystal 0]))),
                 Emit ToSender (FarmObjectsUpdate (map snd (nineCrystals @ [crystal 0])))]
              @ effs))"
      by (simp add: reissue_def step_one step_two h3)
    moreover have "destroyedCount ''r'' ''farm-0-x'' ([Emit (ToRoomExceptSender ''r'') (FarmObjectDestroyed ''farm-0-x'' ''a'' 5),
               Emit ToSender (FarmObjectDestroyed ''farm-0-x'' ''a'' 5),
               SetTimeout (FarmTimer ''r'') 2000]
              @ [Emit (ToRoomExceptSender ''r'')
                   (FarmObjectsUpdate (map snd (nineCrystals @ [crystal 0]))),
                 Emit ToSender (FarmObjectsUpdate (map snd (nineCrystals @ [crystal 0])))]
              @ effs) = 2"
      using step_three h3 by (simp add: destroyedCount_def)
    ultimately show ?thesis using that g by blast
  qed
  have i1: "issued ''r'' ''farm-0-x'' joined reissue = 1"
    using C2_collect_accounting [of joined "''r''" "''farm-0-x''" _ _ _ _ reissue s3 effs3]
      r2 c2 e3 joined_first_crystal by simp
  have o1: "farmObject collectedOnce ''r'' ''farm-0-x'' = None"
    using nine_keys by (simp add: farmObject_def collectedOnce_def)
  have o2: "farmObject refilled ''r'' ''farm-0-x'' = Some (snd (crystal 0))"
    using nine_keys by (simp add: farmObject_def refilled_def map_add_def crystal_def
        toString_digits)
  have st: "step collectedOnce (FarmTimeout ''a'' env0 ''r'')
      = Some (Inr (refilled,
          [Emit (ToRoomExceptSender ''r'')
             (FarmObjectsUpdate (map snd (nineCrystals @ [crystal 0]))),
           Emit ToSender (FarmObjectsUpdate (map snd (nineCrystals @ [crystal 0])))]))"
    by (simp add: step_two)
  have rd: "renders env0 ''farm-0-x''"
    using C2_collect_accounting
            [where s = collectedOnce and g = "''r''" and oid = "''farm-0-x''"
               and e = "FarmTimeout ''a'' env0 ''r''" and s' = refilled
               and effs = "[Emit (ToRoomExceptSender ''r'')
                              (FarmObjectsUpdate (map snd (nineCrystals @ [crystal 0]))),
                            Emit ToSender
                              (FarmObjectsUpdate (map snd (nineCrystals @ [crystal 0])))]"
               and es = "[]" and sid = "''a''" and ?sid2.0 = "''a''" and obj = gem
               and p = alice]
          st o1 o2 by simp
  show ?thesis using h1 h2 pa ab n2 fr i0 rn d1 i1 o1 o2 rd by simp
qed

subsection \<open>Attempts and clearance\<close>

lemma stubborn_accepts: "accepts roomObstaclesLayout (stubborn B) 0 k = (B \<le> k)"
proof (cases "k < B")
  case True
  then have "2 * k < 2 * B" "Suc (2 * k) < 2 * B" by simp_all
  then show ?thesis using True layout_rejects_half by (simp add: accepts_def stubborn_def)
next
  case False
  then have "\<not> 2 * k < 2 * B" "\<not> Suc (2 * k) < 2 * B" by simp_all
  then show ?thesis using False layout_accepts_quarter by (simp add: accepts_def stubborn_def)
qed

lemma stubborn_returns:
  "samplePosition roomObstaclesLayout (stubborn B) 0 = Some (550, 425, 2 * B + 2)"
proof -
  have "samplePosition roomObstaclesLayout (stubborn B) 0 = Some (sampleAt (stubborn B) 0 B)"
    by (rule samplePosition_first) (simp_all add: stubborn_accepts)
  then show ?thesis by (simp add: sampleAt_def stubborn_def)
qed

lemma no_attempt_bound:
  "\<not> (\<exists>B. \<forall>r y. samplePosition roomObstaclesLayout r 0 = Some y \<longrightarrow> attemptsMade 0 y \<le> B)"
proof
  assume "\<exists>B. \<forall>r y. samplePosition roomObstaclesLayout r 0 = Some y \<longrightarrow> attemptsMade 0 y \<le> B"
  then obtain B where
    b: "\<forall>r y. samplePosition roomObstaclesLayout r 0 = Some y \<longrightarrow> attemptsMade 0 y \<le> B"
    by blast
  from b stubborn_returns[of B] have "attemptsMade 0 (550, 425, 2 * B + 2) \<le> B" by blast
  then show False by (simp add: attemptsMade_def)
qed

lemma gridObstacle_in: "i < 13 \<Longrightarrow> j < 10 \<Longrightarrow> gridObstacle i j \<in> set denseLayout"
proof -
  assume i: "i < 13" and j: "j < 10"
  have "\<exists>x \<in> {0..<13}. gridObstacle i j \<in> gridObstacle x ` {0..<10}"
  proof (rule bexI[of _ i])
    show "gridObstacle i j \<in> gridObstacle i ` {0..<10}" using j by simp
    show "i \<in> {0..<13}" using i by simp
  qed
  then show ?thesis by (simp add: denseLayout_def)
qed

lemma nearest_grid:
  fixes x :: real
  assumes "100 \<le> x" and "x < 100 + 150 * real M - 75" 
  shows "\<exists>i<M. \<bar>x - (100 + 150 * real i)\<bar> \<le> 75"
proof -
  define q where "q = \<lfloor>(x - 100) / 150 + 1 / 2\<rfloor>"
  have q0: "0 \<le> q" using assms(1) by (simp add: q_def)
  have lo: "real_of_int q \<le> (x - 100) / 150 + 1 / 2" by (simp add: q_def)
  have hi: "(x - 100) / 150 + 1 / 2 < real_of_int q + 1" by (simp add: q_def)
  have "(x - 100) / 150 + 1 / 2 < real M" using assms(2) by (simp add: field_simps)
  then have "real_of_int q < real M" using lo by linarith
  then have qM: "nat q < M" using q0 by linarith
  have "real (nat q) = real_of_int q" using q0 by simp
  then have "\<bar>x - (100 + 150 * real (nat q))\<bar> \<le> 75" using lo hi by (simp add: field_simps abs_le_iff)
  then show ?thesis using qM by blast
qed

lemma close_not_far:
  assumes "\<bar>x - real_of_int (obstacle_x ob)\<bar> \<le> 75" and "\<bar>y - real_of_int (obstacle_y ob)\<bar> \<le> 75"
  shows "\<not> farFromObstacle x y ob"
proof -
  define dx where "dx = x - real_of_int (obstacle_x ob)"
  define dy where "dy = y - real_of_int (obstacle_y ob)"
  have "dx * dx \<le> 75 * 75" using assms(1) abs_le_square_iff[of dx 75]
    by (simp add: dx_def power2_eq_square)
  moreover have "dy * dy \<le> 75 * 75" using assms(2) abs_le_square_iff[of dy 75]
    by (simp add: dy_def power2_eq_square)
  ultimately have "dx * dx + dy * dy \<le> 14400" by simp
  then show ?thesis by (simp add: farFromObstacle_iff dx_def dy_def)
qed

lemma dense_noClearance: "noClearance denseLayout"
  unfolding noClearance_def
proof (intro allI impI)
  fix x y :: real
  assume a: "100 \<le> x \<and> x < 1900 \<and> 100 \<le> y \<and> y < 1400"
  from a nearest_grid[of x 13] obtain i where i: "i < 13" "\<bar>x - (100 + 150 * real i)\<bar> \<le> 75"
    by auto
  from a nearest_grid[of y 10] obtain j where j: "j < 10" "\<bar>y - (100 + 150 * real j)\<bar> \<le> 75"
    by auto
  have "\<not> farFromObstacle x y (gridObstacle i j)"
    by (rule close_not_far) (use i j in \<open>simp_all add: gridObstacle_def\<close>)
  then show "\<not> list_all (farFromObstacle x y) denseLayout"
    using gridObstacle_in[OF i(1) j(1)] by (auto simp add: list_all_iff)
qed

lemma noClearance_rejects:
  assumes "noClearance obs" and "unitStream r"
  shows "\<not> accepts obs r n k"
proof -
  have u: "0 \<le> r (n + 2 * k) \<and> r (n + 2 * k) < 1" "0 \<le> r (n + 2 * k + 1) \<and> r (n + 2 * k + 1) < 1"
    using assms(2) by (simp_all add: unitStream_def)
  have "100 \<le> r (n + 2 * k) * 1800 + 100 \<and> r (n + 2 * k) * 1800 + 100 < 1900
      \<and> 100 \<le> r (n + 2 * k + 1) * 1300 + 100 \<and> r (n + 2 * k + 1) * 1300 + 100 < 1400"
    using u by simp
  then show ?thesis using assms(1) unfolding noClearance_def accepts_def by blast
qed

lemma noClearance_diverges:
  "noClearance obs \<Longrightarrow> unitStream r \<Longrightarrow> samplePosition obs r n = None"
  by (rule samplePosition_None) (simp add: noClearance_rejects)

lemma farmLoop_add:
  "farmLoop E obs (j + k) i n objs =
     (case farmLoop E obs j i n objs of
        None \<Rightarrow> None
      | Some (Inl e) \<Rightarrow> Some (Inl e)
      | Some (Inr (objs1, n1)) \<Rightarrow> farmLoop E obs k (i + j) n1 objs1)"
proof (induction j arbitrary: i n objs)
  case 0
  show ?case by simp
next
  case (Suc j)
  show ?case
  proof (cases "samplePosition obs (rnd E) (n + 2)")
    case None
    then show ?thesis by (simp add: Let_def)
  next
    case (Some p)
    obtain x y m where p: "p = (x, y, m)" by (cases p)
    show ?thesis using Some p
      by (simp add: Let_def Suc.IH split: option.splits sum.splits prod.splits)
  qed
qed

lemma farmLoop_stuck:
  assumes "farmLoop E obs j i n objs = Some (Inr (objs1, n1))"
    and "samplePosition obs (rnd E) (n1 + 2) = None"
  shows "farmLoop E obs (j + Suc k) i n objs = None"
  unfolding farmLoop_add assms(1) using assms(2) by (simp add: Let_def)

lemma generateFarmObjects_stuck:
  assumes "j < c - length (storedObjects s g)"
    and "farmLoop E (storedObstacles s g) j 0 n (storedObjects s g) = Some (Inr (objs1, n1))"
    and "samplePosition (storedObstacles s g) (rnd E) (n1 + 2) = None"
  shows "generateFarmObjects s E n g c = None"
proof -
  define gfo where "gfo = (if \<not> has (globalFarmObjects s) g
                 then AList.update g [] (globalFarmObjects s)
                 else globalFarmObjects s)"
  have st: "(case map_of gfo g of Some m \<Rightarrow> m | None \<Rightarrow> []) = storedObjects s g"
    by (auto simp add: gfo_def storedObjects_def has_def update_conv' split: option.splits)
  obtain k where k: "c - length (storedObjects s g) = j + Suc k"
    using assms(1) by (metis add_Suc_right less_imp_Suc_add)
  have lt: "length (storedObjects s g) < c" using assms(1) by simp
  have "farmLoop E (storedObstacles s g) (c - length (storedObjects s g)) 0 n (storedObjects s g)
          = None"
    unfolding k by (rule farmLoop_stuck[OF assms(2,3)])
  then show ?thesis
    unfolding generateFarmObjects_def Let_def gfo_def[symmetric] st
    using lt by (simp add: storedObstacles_def)
qed

lemma farmTimeout_stuck:
  assumes "j < 10 - length (storedObjects s g)"
    and "farmLoop E (storedObstacles s g) j 0 0 (storedObjects s g) = Some (Inr (objs1, n1))"
    and "samplePosition (storedObstacles s g) (rnd E) (n1 + 2) = None"
  shows "farmTimeout s E g = None"
  using generateFarmObjects_stuck[OF assms] by (simp add: farmTimeout_def)

lemma joinGame_stuck:
  assumes "j < 10 - length (storedObjects s g)"
    and "farmLoop E (obstaclesAfterJoin s g) j 0 (case nameOpt of Some v \<Rightarrow> 0 | None \<Rightarrow> 1)
           (storedObjects s g) = Some (Inr (objs1, n1))"
    and "samplePosition (obstaclesAfterJoin s g) (rnd E) (n1 + 2) = None"
  shows "joinGame s sid E g nameOpt colorOpt = None"
proof -
  define nm where "nm = (case nameOpt of Some v \<Rightarrow> v
                | None \<Rightarrow> ''Player-'' @ toString \<lfloor>rnd E 0 * 1000\<rfloor>)"
  define col where "col = (case colorOpt of Some c \<Rightarrow> c | None \<Rightarrow> (1734143::int))"
  define t where "t = fst (generateObstacles (addPlayer s sid g nm col) g)"
  have so: "storedObjects t g = storedObjects s g"
    by (simp add: t_def storedObjects_def generateObstacles_def addPlayer_def Let_def)
  have ob: "storedObstacles t g = obstaclesAfterJoin s g"
    by (auto simp add: t_def storedObstacles_def obstaclesAfterJoin_def generateObstacles_def
          addPlayer_def Let_def has_def update_conv' split: option.splits)
  have "generateFarmObjects t E (case nameOpt of Some v \<Rightarrow> 0 | None \<Rightarrow> 1) g 10 = None"
    by (rule generateFarmObjects_stuck[where j=j and ?objs1.0=objs1 and ?n1.0=n1])
       (use assms so ob in simp_all)
  then show ?thesis
    unfolding joinGame_def Let_def nm_def[symmetric] col_def[symmetric] t_def[symmetric]
    by simp
qed

lemma unit_env0: "unitStream (rnd env0)"
  by (simp add: unitStream_def env0_def)

lemma stubborn3: "samplePosition roomObstaclesLayout (stubborn 3) 0 = Some (550, 425, 8)"
  using stubborn_returns[of 3] by simp

lemma centre_in_layout:
  "\<lparr>obstacle_id = ''obstacle-center-0'', obstacle_x = 1000, obstacle_y = 750, part = ''center''\<rparr>
     \<in> set roomObstaclesLayout"
  by (simp add: layout_explicit)

lemma window_rejected:
  assumes a: "\<bar>a - 1 / 2\<bar> \<le> 1 / 40" and b: "\<bar>b - 1 / 2\<bar> \<le> 1 / (40::real)"
  shows "\<not> list_all (farFromObstacle (a * 1800 + 100) (b * 1300 + 100)) roomObstaclesLayout"
proof
  assume "list_all (farFromObstacle (a * 1800 + 100) (b * 1300 + 100)) roomObstaclesLayout"
  then have "farFromObstacle (a * 1800 + 100) (b * 1300 + 100)
      \<lparr>obstacle_id = ''obstacle-center-0'', obstacle_x = 1000, obstacle_y = 750, part = ''center''\<rparr>"
    using centre_in_layout by (simp add: list_all_iff)
  then have far: "14400 < (a * 1800 - 900) * (a * 1800 - 900) + (b * 1300 - 650) * (b * 1300 - 650)"
    by (simp add: farFromObstacle_iff)
  have "\<bar>a * 1800 - 900\<bar> \<le> 45" using a by linarith
  then have x: "(a * 1800 - 900) * (a * 1800 - 900) \<le> 45 * 45"
    using abs_le_square_iff[of "a * 1800 - 900" 45] by (simp add: power2_eq_square)
  have "\<bar>b * 1300 - 650\<bar> \<le> 65 / 2" using b by linarith
  then have y: "(b * 1300 - 650) * (b * 1300 - 650) \<le> (65 / 2) * (65 / 2)"
    using abs_le_square_iff[of "b * 1300 - 650" "65 / 2"] by (simp add: power2_eq_square)
  from far x y show False by simp
qed

lemma nearCentre_rejects: "nearCentre B r \<Longrightarrow> k < B \<Longrightarrow> \<not> accepts roomObstaclesLayout r 0 k"
proof -
  assume n: "nearCentre B r" and k: "k < B"
  then have "2 * k < 2 * B" "2 * k + 1 < 2 * B" by simp_all
  then have "\<bar>r (2 * k) - 1 / 2\<bar> \<le> 1 / 40" "\<bar>r (2 * k + 1) - 1 / 2\<bar> \<le> 1 / 40"
    using n unfolding nearCentre_def by blast+
  then show ?thesis
    using window_rejected[of "r (2 * k)" "r (2 * k + 1)"] by (simp add: accepts_def)
qed

lemma nearCentre_attempts:
  assumes "nearCentre B r" and "samplePosition roomObstaclesLayout r 0 = Some y"
  shows "B < attemptsMade 0 y"
proof -
  from samplePosition_Some_accepts[OF assms(2)] obtain k where
    k: "accepts roomObstaclesLayout r 0 k" and y: "y = sampleAt r 0 k" by blast
  have "\<not> k < B" using nearCentre_rejects[OF assms(1)] k by blast
  then show ?thesis by (simp add: y attemptsMade_def sampleAt_def)
qed

lemma nearCentre_stubborn: "nearCentre B (stubborn B)"
  by (simp add: nearCentre_def stubborn_def)

text \<open>
  C8 (as the claim states it, refuted). On the generated layout no number bounds the
  attempts of the placement loop: a random stream whose first \<open>B\<close> samples hit an obstacle
  makes it sample \<open>B + 1\<close> times, and it still returns a position at the full clearance
  (three rejected samples, then the fourth is returned); every stream whose first \<open>B\<close>
  samples lie within 1/40 of the centre does so. On a layout that leaves no position of
  the sampled rectangle with the clearance the loop returns for no stream of numbers in
  [0, 1): it does not give up after a number of attempts and it does not relax the
  radius.
\<close>

theorem C8_no_attempt_bound_counterexample:
  "\<not> (\<exists>B. \<forall>r y. samplePosition roomObstaclesLayout r 0 = Some y \<longrightarrow> attemptsMade 0 y \<le> B)
   \<and> samplePosition roomObstaclesLayout (stubborn 3) 0 = Some (550, 425, 8)
   \<and> attemptsMade 0 (550, 425, 8) = 4
   \<and> nearCentre 3 (stubborn 3)
   \<and> \<not> (\<exists>B r y. nearCentre B r \<and> samplePosition roomObstaclesLayout r 0 = Some y
            \<and> attemptsMade 0 y \<le> B)
   \<and> noClearance denseLayout
   \<and> \<not> (\<exists>r n y. unitStream r \<and> samplePosition denseLayout r n = Some y)"
proof -
  have d: "\<not> (\<exists>r n y. unitStream r \<and> samplePosition denseLayout r n = Some y)"
    using noClearance_diverges[OF dense_noClearance] by auto
  have w: "\<not> (\<exists>B r y. nearCentre B r \<and> samplePosition roomObstaclesLayout r 0 = Some y
            \<and> attemptsMade 0 y \<le> B)"
  proof
    assume "\<exists>B r y. nearCentre B r \<and> samplePosition roomObstaclesLayout r 0 = Some y
            \<and> attemptsMade 0 y \<le> B"
    then obtain B r y where "nearCentre B r" "samplePosition roomObstaclesLayout r 0 = Some y"
      and le: "attemptsMade 0 y \<le> B" by blast
    then have "B < attemptsMade 0 y" using nearCentre_attempts by blast
    then show False using le by simp
  qed
  have a: "attemptsMade 0 (550, 425, 8) = 4" by (simp add: attemptsMade_def)
  show ?thesis
    using no_attempt_bound stubborn3 a nearCentre_stubborn[of 3] w dense_noClearance d
    by (intro conjI)
qed

text \<open>
  C8 (amended). The placement loop has no bound on its attempts and never relaxes the
  clearance. It returns the first sampled position that is farther than 120 from every
  obstacle of the room, after as many attempts as that takes, at once when the room has no
  obstacle; whatever it returns has the full clearance. When no sample of the random
  stream is accepted it never returns, and that is so for every stream of numbers in
  [0, 1) when no position of the sampled rectangle has the clearance. When the loop of a
  placement round never returns, the repopulation timer or the join that runs the round
  never returns either.
\<close>

theorem C8_sampling_returns_first_accepted:
  "(accepts obs r n k \<and> (\<forall>j<k. \<not> accepts obs r n j) \<longrightarrow>
      samplePosition obs r n = Some (sampleAt r n k)
      \<and> attemptsMade n (sampleAt r n k) = k + 1)
   \<and> ((\<forall>k. \<not> accepts obs r n k) \<longrightarrow> samplePosition obs r n = None)
   \<and> samplePosition [] r n = Some (sampleAt r n 0)
   \<and> (samplePosition obs r n = Some (x, y, m) \<longrightarrow> list_all (farFromObstacle x y) obs)
   \<and> (noClearance obs \<and> unitStream r \<longrightarrow> samplePosition obs r n = None)
   \<and> (j < 10 - length (storedObjects s g)
        \<and> farmLoop E (storedObstacles s g) j 0 0 (storedObjects s g) = Some (Inr (objs1, n1))
        \<and> samplePosition (storedObstacles s g) (rnd E) (n1 + 2) = None \<longrightarrow>
        farmTimeout s E g = None)
   \<and> (j < 10 - length (storedObjects s g)
        \<and> farmLoop E (obstaclesAfterJoin s g) j 0 (case nameOpt of Some v \<Rightarrow> 0 | None \<Rightarrow> 1)
             (storedObjects s g) = Some (Inr (objs1, n1))
        \<and> samplePosition (obstaclesAfterJoin s g) (rnd E) (n1 + 2) = None \<longrightarrow>
        joinGame s sid E g nameOpt colorOpt = None)"
proof (intro conjI impI)
  assume "accepts obs r n k \<and> (\<forall>j<k. \<not> accepts obs r n j)"
  then show "samplePosition obs r n = Some (sampleAt r n k)"
    using samplePosition_first by blast
next
  show "attemptsMade n (sampleAt r n k) = k + 1" by (simp add: attemptsMade_def sampleAt_def)
next
  assume "\<forall>k. \<not> accepts obs r n k"
  then show "samplePosition obs r n = None" by (rule samplePosition_None)
next
  show "samplePosition [] r n = Some (sampleAt r n 0)"
    by (subst samplePosition_unfold) (simp add: accepts_def)
next
  assume "samplePosition obs r n = Some (x, y, m)"
  from samplePosition_Some_accepts[OF this]
  show "list_all (farFromObstacle x y) obs" by (auto simp add: accepts_def sampleAt_def)
next
  assume "noClearance obs \<and> unitStream r"
  then show "samplePosition obs r n = None" using noClearance_diverges by blast
next
  assume "j < 10 - length (storedObjects s g)
        \<and> farmLoop E (storedObstacles s g) j 0 0 (storedObjects s g) = Some (Inr (objs1, n1))
        \<and> samplePosition (storedObstacles s g) (rnd E) (n1 + 2) = None"
  then show "farmTimeout s E g = None" using farmTimeout_stuck by blast
next
  assume "j < 10 - length (storedObjects s g)
        \<and> farmLoop E (obstaclesAfterJoin s g) j 0 (case nameOpt of Some v \<Rightarrow> 0 | None \<Rightarrow> 1)
             (storedObjects s g) = Some (Inr (objs1, n1))
        \<and> samplePosition (obstaclesAfterJoin s g) (rnd E) (n1 + 2) = None"
  then show "joinGame s sid E g nameOpt colorOpt = None" using joinGame_stuck by blast
qed

theorem C8_sampling_returns_first_accepted_witness:
  "accepts roomObstaclesLayout (stubborn 3) 0 3
   \<and> \<not> accepts roomObstaclesLayout (stubborn 3) 0 0
   \<and> \<not> accepts roomObstaclesLayout (stubborn 3) 0 1
   \<and> \<not> accepts roomObstaclesLayout (stubborn 3) 0 2
   \<and> samplePosition roomObstaclesLayout (stubborn 3) 0 = Some (550, 425, 8)
   \<and> list_all (farFromObstacle 550 425) roomObstaclesLayout
   \<and> samplePosition [] (rnd env0) 0 = Some (550, 425, 2)
   \<and> noClearance denseLayout \<and> unitStream (rnd env0)
   \<and> samplePosition denseLayout (rnd env0) 2 = None
   \<and> storedObjects crowded ''r'' = [] \<and> storedObstacles crowded ''r'' = denseLayout
   \<and> obstaclesAfterJoin crowded ''r'' = denseLayout
   \<and> farmTimeout crowded env0 ''r'' = None
   \<and> joinGame crowded ''b'' env0 ''r'' (Some ''Bob'') None = None
   \<and> storedObjects afterCollect ''r'' = []
   \<and> storedObstacles afterCollect ''r'' = roomObstaclesLayout
   \<and> samplePosition roomObstaclesLayout (rnd envHalf) 2 = None
   \<and> farmTimeout afterCollect envHalf ''r'' = None
   \<and> obstaclesAfterJoin initial ''r'' = roomObstaclesLayout
   \<and> joinGame initial ''a'' envHalf ''r'' (Some ''Alice'') None = None"
proof -
  have a: "accepts roomObstaclesLayout (stubborn 3) 0 3"
    "\<not> accepts roomObstaclesLayout (stubborn 3) 0 0"
    "\<not> accepts roomObstaclesLayout (stubborn 3) 0 1"
    "\<not> accepts roomObstaclesLayout (stubborn 3) 0 2"
    by (simp_all add: stubborn_accepts)
  have b: "\<forall>j<3. \<not> accepts roomObstaclesLayout (stubborn 3) 0 j"
    by (simp add: stubborn_accepts)
  have s3: "sampleAt (stubborn 3) 0 3 = (550, 425, 8)" by (simp add: sampleAt_def stubborn_def)
  have s0: "sampleAt (rnd env0) 0 0 = (550, 425, 2)" by (simp add: sampleAt_def env0_def)
  have c: "storedObjects crowded ''r'' = []" "storedObstacles crowded ''r'' = denseLayout"
    "obstaclesAfterJoin crowded ''r'' = denseLayout"
    by (simp_all add: storedObjects_def storedObstacles_def obstaclesAfterJoin_def crowded_def)
  have d: "samplePosition denseLayout (rnd env0) (Suc (Suc 0)) = None"
    using C8_sampling_returns_first_accepted [of denseLayout "rnd env0" "Suc (Suc 0)"]
      dense_noClearance unit_env0 by blast
  have d2: "samplePosition denseLayout (rnd env0) 2 = None" using d by (simp add: numeral_2_eq_2)
  have r1: "samplePosition roomObstaclesLayout (stubborn 3) 0 = Some (550, 425, 8)"
    using C8_sampling_returns_first_accepted [of roomObstaclesLayout "stubborn 3" 0 3] a(1) b s3
    by simp
  have r2: "list_all (farFromObstacle 550 425) roomObstaclesLayout"
    using C8_sampling_returns_first_accepted [of roomObstaclesLayout "stubborn 3" 0 3 550 425 8]
      r1 by blast
  have r3: "samplePosition [] (rnd env0) 0 = Some (550, 425, 2)"
    using C8_sampling_returns_first_accepted [of "[]" "rnd env0" 0] s0 by simp
  have f0: "farmLoop env0 denseLayout 0 0 0 [] = Some (Inr ([], 0))" by simp
  have t: "farmTimeout crowded env0 ''r'' = None"
    using C8_sampling_returns_first_accepted
            [where s = crowded and g = "''r''" and E = env0 and j = 0 and ?objs1.0 = "[]"
               and ?n1.0 = 0 and nameOpt = "Some ''Bob''" and sid = "''b''" and colorOpt = None
               and obs = "[]" and r = "rnd env0" and n = 0 and k = 0 and x = 0 and y = 0
               and m = 0] c f0 d by simp
  have jn: "joinGame crowded ''b'' env0 ''r'' (Some ''Bob'') None = None"
    using C8_sampling_returns_first_accepted
            [where s = crowded and g = "''r''" and E = env0 and j = 0 and ?objs1.0 = "[]"
               and ?n1.0 = 0 and nameOpt = "Some ''Bob''" and sid = "''b''" and colorOpt = None
               and obs = "[]" and r = "rnd env0" and n = 0 and k = 0 and x = 0 and y = 0
               and m = 0]
          c f0 d by simp
  have c': "storedObjects afterCollect ''r'' = []"
    "storedObstacles afterCollect ''r'' = roomObstaclesLayout"
    "storedObjects initial ''r'' = []" "obstaclesAfterJoin initial ''r'' = roomObstaclesLayout"
    by (simp_all add: storedObjects_def storedObstacles_def obstaclesAfterJoin_def
          afterCollect_def initial_def)
  have h: "samplePosition roomObstaclesLayout (rnd envHalf) (Suc (Suc 0)) = None"
    by (rule sample_half)
  have h2: "samplePosition roomObstaclesLayout (rnd envHalf) 2 = None" by (rule sample_half)
  have f1: "farmLoop envHalf roomObstaclesLayout 0 0 0 [] = Some (Inr ([], 0))" by simp
  have t': "farmTimeout afterCollect envHalf ''r'' = None"
    using C8_sampling_returns_first_accepted
            [where s = afterCollect and g = "''r''" and E = envHalf and j = 0
               and ?objs1.0 = "[]" and ?n1.0 = 0 and nameOpt = "Some ''Bob''" and sid = "''b''"
               and colorOpt = None and obs = "[]" and r = "rnd env0" and n = 0 and k = 0
               and x = 0 and y = 0 and m = 0] c'(1,2) f1 h by simp
  have jn': "joinGame initial ''a'' envHalf ''r'' (Some ''Alice'') None = None"
    using C8_sampling_returns_first_accepted
            [where s = initial and g = "''r''" and E = envHalf and j = 0
               and ?objs1.0 = "[]" and ?n1.0 = 0 and nameOpt = "Some ''Alice''"
               and sid = "''a''" and colorOpt = None and obs = "[]" and r = "rnd env0"
               and n = 0 and k = 0 and x = 0 and y = 0 and m = 0] c'(3,4) f1 h by simp
  show ?thesis
    using a r1 r2 r3 dense_noClearance unit_env0 d2 c t jn c'(1,2,4) h2 t' jn' by simp
qed

subsection \<open>Joining a room that was left behind\<close>

lemma length_update_le: "length (AList.update k v al) \<le> Suc (length al)"
  by (induction al) auto

lemma keys_update_extend: "\<exists>ks. map fst (AList.update k v al) = map fst al @ ks"
  by (simp add: update_keys)

lemma farmLoop_shape:
  "farmLoop E obs k i n objs = Some (Inr (objs', n')) \<Longrightarrow>
     length objs' \<le> length objs + k \<and> (\<exists>ks. map fst objs' = map fst objs @ ks)"
proof (induction k arbitrary: i n objs)
  case 0
  then show ?case by simp
next
  case (Suc k)
  from Suc.prems(1) obtain x y m where
    sp: "samplePosition obs (rnd E) (n + 2) = Some (x, y, m)"
    by (auto simp add: Let_def split: option.splits)
  define ident where "ident = ''farm-'' @ toString (clock E i) @ ''-'' @ base36 E (rnd E n)"
  define idx where "idx = \<lfloor>rnd E (n + 1) * real (length typesAndValues)\<rfloor>"
  define obj where "obj = \<lparr>farm_id = ident, farm_position = (x, y),
                     farm_type = fst (typesAndValues ! nat idx),
                     farm_value = snd (typesAndValues ! nat idx)\<rparr>"
  from Suc.prems(1) sp have
    rec: "farmLoop E obs k (i + 1) m (AList.update ident obj objs) = Some (Inr (objs', n'))"
    by (auto simp add: Let_def ident_def idx_def obj_def split: if_splits)
  from Suc.IH[OF rec] obtain ks where
    l: "length objs' \<le> length (AList.update ident obj objs) + k"
    and ks: "map fst objs' = map fst (AList.update ident obj objs) @ ks" by blast
  obtain ks0 where "map fst (AList.update ident obj objs) = map fst objs @ ks0"
    using keys_update_extend[of ident obj objs] by (elim exE)
  then have "map fst objs' = map fst objs @ (ks0 @ ks)" using ks by simp
  moreover have "length objs' \<le> length objs + Suc k"
    using l length_update_le[of ident obj objs] by linarith
  ultimately show ?case by blast
qed

lemma farmLoop_prefix:
  assumes "farmLoop E obs k i n objs = Some (Inr (objs', n'))"
  shows "take (length objs) (map fst objs') = map fst objs"
proof -
  from farmLoop_shape[OF assms] obtain ks where "map fst objs' = map fst objs @ ks" by blast
  then show ?thesis by simp
qed

lemma has_room_addPlayer: "has (rooms (addPlayer s sid g nm col)) g"
  by (simp add: addPlayer_def Let_def has_def update_conv')

lemma addPlayer_frame:
  "globalFarmObjects (addPlayer s sid g nm col) = globalFarmObjects s
   \<and> obstacles (addPlayer s sid g nm col) = obstacles s"
  by (simp add: addPlayer_def Let_def)

lemma joinGame_full:
  assumes "map_of (obstacles s) g = Some obs" and "map_of (globalFarmObjects s) g = Some objs"
    and "10 \<le> length objs"
  shows "joinGame s sid E g nameOpt colorOpt =
           Some (Inr (addPlayer s sid g (joinName E nameOpt) (joinColor colorOpt),
                      joinEffects (addPlayer s sid g (joinName E nameOpt) (joinColor colorOpt))
                        sid g (joinName E nameOpt) (joinColor colorOpt) obs []))"
proof -
  let ?t = "addPlayer s sid g (joinName E nameOpt) (joinColor colorOpt)"
  have go: "generateObstacles ?t g = (?t, obs)"
    using assms(1) addPlayer_frame[of s sid g] by (simp add: generateObstacles_def has_def Let_def)
  have gf: "generateFarmObjects ?t E (joinIndex nameOpt) g 10 = Some (Inr (?t, [], joinIndex nameOpt))"
    using assms(2,3) addPlayer_frame[of s sid g]
    by (simp add: generateFarmObjects_def has_def Let_def)
  show ?thesis
    unfolding joinGame_def Let_def joinName_def[symmetric] joinColor_def[symmetric]
      joinIndex_def[symmetric] go
    by (simp add: gf)
qed

lemma joinGame_partial:
  assumes "map_of (obstacles s) g = Some obs" and "map_of (globalFarmObjects s) g = Some objs"
    and "length objs < 10"
  shows "joinGame s sid E g nameOpt colorOpt =
           (case farmLoop E obs (10 - length objs) 0 (joinIndex nameOpt) objs of
              None \<Rightarrow> None
            | Some (Inl e) \<Rightarrow> Some (Inl e)
            | Some (Inr (objs', n')) \<Rightarrow>
                Some (Inr ((addPlayer s sid g (joinName E nameOpt) (joinColor colorOpt))
                             \<lparr>globalFarmObjects := AList.update g objs' (globalFarmObjects s)\<rparr>,
                   joinEffects
                     ((addPlayer s sid g (joinName E nameOpt) (joinColor colorOpt))
                        \<lparr>globalFarmObjects := AList.update g objs' (globalFarmObjects s)\<rparr>)
                     sid g (joinName E nameOpt) (joinColor colorOpt) obs
                     [Emit (ToRoomExceptSender g) (FarmObjectsUpdate (map snd objs')),
                      Emit ToSender (FarmObjectsUpdate (map snd objs'))])))"
proof -
  let ?t = "addPlayer s sid g (joinName E nameOpt) (joinColor colorOpt)"
  have go: "generateObstacles ?t g = (?t, obs)"
    using assms(1) addPlayer_frame[of s sid g] by (simp add: generateObstacles_def has_def Let_def)
  have gf: "generateFarmObjects ?t E (joinIndex nameOpt) g 10 =
      (case farmLoop E obs (10 - length objs) 0 (joinIndex nameOpt) objs of
              None \<Rightarrow> None
            | Some (Inl e) \<Rightarrow> Some (Inl e)
            | Some (Inr (objs', n')) \<Rightarrow>
                Some (Inr (?t\<lparr>globalFarmObjects := AList.update g objs' (globalFarmObjects s)\<rparr>,
                    [Emit (ToRoomExceptSender g) (FarmObjectsUpdate (map snd objs')),
                      Emit ToSender (FarmObjectsUpdate (map snd objs'))], n')))"
    using assms addPlayer_frame[of s sid g] has_room_addPlayer[of s sid g]
    by (simp add: generateFarmObjects_def has_def Let_def del: farmLoop.simps
          split: option.splits sum.splits prod.splits)
  show ?thesis
    unfolding joinGame_def Let_def joinName_def[symmetric] joinColor_def[symmetric]
      joinIndex_def[symmetric] go
    by (simp add: gf del: farmLoop.simps split: option.splits sum.splits prod.splits)
qed

lemma joinGame_stored:
  assumes j: "joinGame s sid E g nameOpt colorOpt = Some (Inr (s', effs))"
    and o: "map_of (obstacles s) g = Some obs"
    and f: "map_of (globalFarmObjects s) g = Some objs"
  shows "length (storedObjects s' g) \<le> max 10 (length objs)
       \<and> take (length objs) (map fst (storedObjects s' g)) = map fst objs
       \<and> (\<not> renders E oid \<longrightarrow> farmObject s' g oid = farmObject s g oid)
       \<and> Emit ToSender (FarmObjectsUpdate (map snd (storedObjects s' g))) \<in> set effs"
proof (cases "10 \<le> length objs")
  case True
  let ?t = "addPlayer s sid g (joinName E nameOpt) (joinColor colorOpt)"
  from joinGame_full[OF o f True, of sid E nameOpt colorOpt] j
  have s': "s' = ?t"
    and ef: "effs = joinEffects ?t sid g (joinName E nameOpt) (joinColor colorOpt) obs []"
    by simp_all
  have g: "globalFarmObjects s' = globalFarmObjects s"
    unfolding s' using addPlayer_frame[of s sid g] by simp
  have st: "storedObjects s' g = objs" by (simp add: storedObjects_def g f)
  have "Emit ToSender (FarmObjectsUpdate (map snd objs)) \<in> set effs"
    unfolding ef joinEffects_def using g f s' by simp
  then show ?thesis
    by (simp add: st farmObject_def g)
next
  case False
  then have lt: "length objs < 10" by simp
  let ?t = "addPlayer s sid g (joinName E nameOpt) (joinColor colorOpt)"
  from joinGame_partial[OF o f lt, of sid E nameOpt colorOpt] j
  obtain objs' n' where
    fl: "farmLoop E obs (10 - length objs) 0 (joinIndex nameOpt) objs = Some (Inr (objs', n'))"
    and s': "s' = ?t\<lparr>globalFarmObjects := AList.update g objs' (globalFarmObjects s)\<rparr>"
    and ef: "effs = joinEffects s' sid g (joinName E nameOpt) (joinColor colorOpt) obs
                     [Emit (ToRoomExceptSender g) (FarmObjectsUpdate (map snd objs')),
                      Emit ToSender (FarmObjectsUpdate (map snd objs'))]"
    by (auto split: option.splits sum.splits prod.splits)
  have g: "map_of (globalFarmObjects s') g = Some objs'"
    unfolding s' by (simp add: update_conv')
  have st: "storedObjects s' g = objs'" by (simp add: storedObjects_def g)
  have len: "length objs' \<le> max 10 (length objs)"
    using farmLoop_shape[OF fl] lt by simp
  have pre: "take (length objs) (map fst objs') = map fst objs"
    using farmLoop_prefix[OF fl] .
  have fr: "\<not> renders E oid \<longrightarrow> farmObject s' g oid = farmObject s g oid"
    using farmLoop_fresh[OF fl, of oid] by (simp add: farmObject_def g f)
  have "Emit ToSender (FarmObjectsUpdate (map snd objs')) \<in> set effs"
    unfolding ef joinEffects_def by simp
  then show ?thesis using len pre fr by (simp add: st)
qed

lemma sparse_loop:
  "farmLoop env1 roomObstaclesLayout 9 0 0 [(''farm-1-x'', gem)]
     = Some (Inr ((''farm-1-x'', gem) # map gemAt [0..<9], 36))"
proof -
  have u: "[0..<9] = [0, 1, 2, 3, 4, 5, 6, 7, 8]" by (simp add: upt_rec)
  show ?thesis
    unfolding farmLoop_env1
    by (simp add: u gemAt_def toString_digits toString_more)
qed

lemma sparse_add: "addPlayer sparse ''b'' ''r'' ''Bob'' 1734143
    = \<lparr>rooms = [(''r'', [(''b'', newcomer)])],
       globalFarmObjects = [(''r'', [(''farm-1-x'', gem)])],
       obstacles = [(''r'', roomObstaclesLayout)]\<rparr>"
  by (simp add: addPlayer_def sparse_def newcomer_def has_def Let_def)

lemma sparse_join:
  "joinGame sparse ''b'' env1 ''r'' (Some ''Bob'') None =
     Some (Inr (topped,
       [JoinRoom ''r'',
        Emit (ToRoomExceptSender ''r'')
          (FarmObjectsUpdate (gem # map (\<lambda>j. snd (gemAt j)) [0..<9])),
        Emit ToSender (FarmObjectsUpdate (gem # map (\<lambda>j. snd (gemAt j)) [0..<9])),
        Emit ToSender (CurrentPlayers [newcomer]),
        Emit ToSender (ObstaclesUpdate roomObstaclesLayout),
        Emit ToSender (FarmObjectsUpdate (gem # map (\<lambda>j. snd (gemAt j)) [0..<9])),
        Emit (ToRoomExceptSender ''r'') (PlayerJoined ''b'' ''Bob'' 1734143 (400, 300) (0, 0) 0 True)]))"
proof -
  have o: "map_of (obstacles sparse) ''r'' = Some roomObstaclesLayout"
    and f: "map_of (globalFarmObjects sparse) ''r'' = Some [(''farm-1-x'', gem)]"
    and l: "length [(''farm-1-x'', gem)] < 10"
    by (simp_all add: sparse_def)
  have nine: "10 - length [(''farm-1-x'', gem)] = 9" by simp
  have g: "globalFarmObjects sparse = [(''r'', [(''farm-1-x'', gem)])]"
    by (simp add: sparse_def)
  show ?thesis
    unfolding joinGame_partial[OF o f l] nine
    by (simp add: joinIndex_def joinName_def joinColor_def sparse_loop sparse_add topped_def
          g joinEffects_def comp_def del: farmLoop.simps)
qed

text \<open>
  C6 (amended). When the last member of a room disconnects, the room is removed from the
  room registry in that call; the collectibles and the obstacle list stored under the room
  identifier are left as they are, by every disconnect. A later join with the same room
  identifier, with an obstacle list and collectibles stored, does not build a new layout:
  with ten or more collectibles stored it returns, generates none and sends the stored
  obstacles and collectibles; with \<open>n < 10\<close> stored it runs \<open>10 - n\<close> placement rounds on
  top of the stored ones and returns, throws or runs forever exactly as they do. Placement
  rounds keep the stored identifiers first and in their order, add at most one collectible
  per round, and leave every collectible whose identifier they do not issue again as it
  is; so after a join that returns at most \<open>max 10 n\<close> collectibles are stored, and they
  are the ones sent to the joining socket.
\<close>

theorem C6_last_leave_keeps_layout:
  "(map_of (rooms s) g = Some ps \<and> fst ` set ps = {sid} \<longrightarrow>
      map_of (rooms (fst (disconnect s sid))) g = None)
   \<and> globalFarmObjects (fst (disconnect s sid)) = globalFarmObjects s
   \<and> obstacles (fst (disconnect s sid)) = obstacles s
   \<and> (joinGame s sid E g nameOpt colorOpt = Some (Inr (s', effs)) \<longrightarrow>
        (map_of (obstacles s) g = Some obs \<longrightarrow>
           map_of (obstacles s') g = Some obs \<and> Emit ToSender (ObstaclesUpdate obs) \<in> set effs)
        \<and> (farmObject s g oid \<noteq> None \<longrightarrow> farmObject s' g oid \<noteq> None)
        \<and> (map_of (globalFarmObjects s) g = Some objs \<and> 10 \<le> length objs \<longrightarrow>
             globalFarmObjects s' = globalFarmObjects s
             \<and> Emit ToSender (FarmObjectsUpdate (map snd objs)) \<in> set effs))
   \<and> (map_of (obstacles s) g = Some obs \<and> map_of (globalFarmObjects s) g = Some objs
        \<and> 10 \<le> length objs \<longrightarrow>
        joinGame s sid E g nameOpt colorOpt =
          Some (Inr (addPlayer s sid g (joinName E nameOpt) (joinColor colorOpt),
                     joinEffects (addPlayer s sid g (joinName E nameOpt) (joinColor colorOpt))
                       sid g (joinName E nameOpt) (joinColor colorOpt) obs []))
        \<and> globalFarmObjects (addPlayer s sid g (joinName E nameOpt) (joinColor colorOpt))
            = globalFarmObjects s
        \<and> obstacles (addPlayer s sid g (joinName E nameOpt) (joinColor colorOpt))
            = obstacles s)
   \<and> (map_of (obstacles s) g = Some obs \<and> map_of (globalFarmObjects s) g = Some objs
        \<and> length objs < 10 \<longrightarrow>
        joinGame s sid E g nameOpt colorOpt =
          (case farmLoop E obs (10 - length objs) 0 (joinIndex nameOpt) objs of
             None \<Rightarrow> None
           | Some (Inl e) \<Rightarrow> Some (Inl e)
           | Some (Inr (objs', n')) \<Rightarrow>
               Some (Inr ((addPlayer s sid g (joinName E nameOpt) (joinColor colorOpt))
                            \<lparr>globalFarmObjects := AList.update g objs' (globalFarmObjects s)\<rparr>,
                  joinEffects
                    ((addPlayer s sid g (joinName E nameOpt) (joinColor colorOpt))
                       \<lparr>globalFarmObjects := AList.update g objs' (globalFarmObjects s)\<rparr>)
                    sid g (joinName E nameOpt) (joinColor colorOpt) obs
                    [Emit (ToRoomExceptSender g) (FarmObjectsUpdate (map snd objs')),
                     Emit ToSender (FarmObjectsUpdate (map snd objs'))]))))
   \<and> (farmLoop E obs k i n objs = Some (Inr (objs1, n1)) \<longrightarrow>
        length objs1 \<le> length objs + k
        \<and> take (length objs) (map fst objs1) = map fst objs
        \<and> (\<not> renders E oid \<longrightarrow> map_of objs1 oid = map_of objs oid))
   \<and> (joinGame s sid E g nameOpt colorOpt = Some (Inr (s', effs))
        \<and> map_of (obstacles s) g = Some obs \<and> map_of (globalFarmObjects s) g = Some objs \<longrightarrow>
        length (storedObjects s' g) \<le> max 10 (length objs)
        \<and> take (length objs) (map fst (storedObjects s' g)) = map fst objs
        \<and> (\<not> renders E oid \<longrightarrow> farmObject s' g oid = farmObject s g oid)
        \<and> Emit ToSender (FarmObjectsUpdate (map snd (storedObjects s' g))) \<in> set effs)"
proof (intro conjI impI)
  assume "map_of (rooms s) g = Some ps \<and> fst ` set ps = {sid}"
  then show "map_of (rooms (fst (disconnect s sid))) g = None"
    using disconnect_last_member by blast
next
  show "globalFarmObjects (fst (disconnect s sid)) = globalFarmObjects s"
    using disconnect_frame by blast
  show "obstacles (fst (disconnect s sid)) = obstacles s"
    using disconnect_frame by blast
next
  assume j: "joinGame s sid E g nameOpt colorOpt = Some (Inr (s', effs))"
    and o: "map_of (obstacles s) g = Some obs"
  show "map_of (obstacles s') g = Some obs" using joinGame_obstacles_kept[OF j o] by simp
  show "Emit ToSender (ObstaclesUpdate obs) \<in> set effs"
    using joinGame_obstacles_kept[OF j o] by simp
next
  assume j: "joinGame s sid E g nameOpt colorOpt = Some (Inr (s', effs))"
    and f: "farmObject s g oid \<noteq> None"
  show "farmObject s' g oid \<noteq> None" using joinGame_keeps[OF j f] .
next
  assume j: "joinGame s sid E g nameOpt colorOpt = Some (Inr (s', effs))"
    and f: "map_of (globalFarmObjects s) g = Some objs \<and> 10 \<le> length objs"
  show "globalFarmObjects s' = globalFarmObjects s"
    using joinGame_full_room_kept[OF j] f by blast
  show "Emit ToSender (FarmObjectsUpdate (map snd objs)) \<in> set effs"
    using joinGame_full_room_kept[OF j] f by blast
next
  assume a: "map_of (obstacles s) g = Some obs \<and> map_of (globalFarmObjects s) g = Some objs
        \<and> 10 \<le> length objs"
  show "joinGame s sid E g nameOpt colorOpt =
          Some (Inr (addPlayer s sid g (joinName E nameOpt) (joinColor colorOpt),
                     joinEffects (addPlayer s sid g (joinName E nameOpt) (joinColor colorOpt))
                       sid g (joinName E nameOpt) (joinColor colorOpt) obs []))"
    using a joinGame_full by blast
  show "globalFarmObjects (addPlayer s sid g (joinName E nameOpt) (joinColor colorOpt))
            = globalFarmObjects s"
    using addPlayer_frame by blast
  show "obstacles (addPlayer s sid g (joinName E nameOpt) (joinColor colorOpt)) = obstacles s"
    using addPlayer_frame by blast
next
  assume a: "map_of (obstacles s) g = Some obs \<and> map_of (globalFarmObjects s) g = Some objs
        \<and> length objs < 10"
  then have a1: "map_of (obstacles s) g = Some obs"
    and a2: "map_of (globalFarmObjects s) g = Some objs" and a3: "length objs < 10"
    by simp_all
  show "joinGame s sid E g nameOpt colorOpt =
          (case farmLoop E obs (10 - length objs) 0 (joinIndex nameOpt) objs of
             None \<Rightarrow> None
           | Some (Inl e) \<Rightarrow> Some (Inl e)
           | Some (Inr (objs', n')) \<Rightarrow>
               Some (Inr ((addPlayer s sid g (joinName E nameOpt) (joinColor colorOpt))
                            \<lparr>globalFarmObjects := AList.update g objs' (globalFarmObjects s)\<rparr>,
                  joinEffects
                    ((addPlayer s sid g (joinName E nameOpt) (joinColor colorOpt))
                       \<lparr>globalFarmObjects := AList.update g objs' (globalFarmObjects s)\<rparr>)
                    sid g (joinName E nameOpt) (joinColor colorOpt) obs
                    [Emit (ToRoomExceptSender g) (FarmObjectsUpdate (map snd objs')),
                     Emit ToSender (FarmObjectsUpdate (map snd objs'))])))"
    using joinGame_partial[OF a1 a2 a3] .
next
  assume fl: "farmLoop E obs k i n objs = Some (Inr (objs1, n1))"
  show "length objs1 \<le> length objs + k" using farmLoop_shape[OF fl] by simp
  show "take (length objs) (map fst objs1) = map fst objs" using farmLoop_prefix[OF fl] .
  assume "\<not> renders E oid"
  then show "map_of objs1 oid = map_of objs oid" using farmLoop_fresh[OF fl] by simp
next
  assume a: "joinGame s sid E g nameOpt colorOpt = Some (Inr (s', effs))
        \<and> map_of (obstacles s) g = Some obs \<and> map_of (globalFarmObjects s) g = Some objs"
  then have j: "joinGame s sid E g nameOpt colorOpt = Some (Inr (s', effs))"
    and o: "map_of (obstacles s) g = Some obs"
    and f: "map_of (globalFarmObjects s) g = Some objs" by simp_all
  note r = joinGame_stored[OF j o f, of oid]
  show "length (storedObjects s' g) \<le> max 10 (length objs)" using r by simp
  show "take (length objs) (map fst (storedObjects s' g)) = map fst objs" using r by simp
  show "Emit ToSender (FarmObjectsUpdate (map snd (storedObjects s' g))) \<in> set effs"
    using r by simp
  assume "\<not> renders E oid"
  then show "farmObject s' g oid = farmObject s g oid" using r by simp
qed

theorem C6_last_leave_keeps_layout_witness:
  "map_of (rooms joined) ''r'' = Some [(''a'', alice)]
   \<and> map_of (rooms (fst (disconnect joined ''a''))) ''r'' = None
   \<and> globalFarmObjects (fst (disconnect joined ''a'')) = [(''r'', tenCrystals)]
   \<and> obstacles (fst (disconnect joined ''a'')) = [(''r'', roomObstaclesLayout)]
   \<and> map_of (obstacles abandoned) ''r'' = Some roomObstaclesLayout
   \<and> map_of (obstacles rejoined) ''r'' = Some roomObstaclesLayout
   \<and> map_of (globalFarmObjects abandoned) ''r'' = Some tenCrystals
   \<and> length tenCrystals = 10
   \<and> joinGame abandoned ''b'' env1 ''r'' (Some ''Bob'') None
       = Some (Inr (rejoined,
           joinEffects rejoined ''b'' ''r'' ''Bob'' 1734143 roomObstaclesLayout []))
   \<and> globalFarmObjects rejoined = globalFarmObjects abandoned
   \<and> storedObjects sparse ''r'' = [(''farm-1-x'', gem)]
   \<and> farmLoop env1 roomObstaclesLayout 9 0 0 [(''farm-1-x'', gem)]
       = Some (Inr ((''farm-1-x'', gem) # map gemAt [0..<9], 36))
   \<and> (\<exists>effs. joinGame sparse ''b'' env1 ''r'' (Some ''Bob'') None = Some (Inr (topped, effs))
        \<and> Emit ToSender (FarmObjectsUpdate (map snd (storedObjects topped ''r''))) \<in> set effs)
   \<and> length (storedObjects topped ''r'') = 10
   \<and> take 1 (map fst (storedObjects topped ''r'')) = [''farm-1-x'']
   \<and> \<not> renders env1 ''farm-1-x''
   \<and> farmObject topped ''r'' ''farm-1-x'' = Some gem"
proof -
  let ?effs2 = "[JoinRoom ''r'',
        Emit ToSender (CurrentPlayers [newcomer]),
        Emit ToSender (ObstaclesUpdate roomObstaclesLayout),
        Emit ToSender (FarmObjectsUpdate (map snd tenCrystals)),
        Emit (ToRoomExceptSender ''r'') (PlayerJoined ''b'' ''Bob'' 1734143 (400, 300) (0, 0) 0 True)]"
  let ?effs3 = "[JoinRoom ''r'',
        Emit (ToRoomExceptSender ''r'')
          (FarmObjectsUpdate (gem # map (\<lambda>j. snd (gemAt j)) [0..<9])),
        Emit ToSender (FarmObjectsUpdate (gem # map (\<lambda>j. snd (gemAt j)) [0..<9])),
        Emit ToSender (CurrentPlayers [newcomer]),
        Emit ToSender (ObstaclesUpdate roomObstaclesLayout),
        Emit ToSender (FarmObjectsUpdate (gem # map (\<lambda>j. snd (gemAt j)) [0..<9])),
        Emit (ToRoomExceptSender ''r'') (PlayerJoined ''b'' ''Bob'' 1734143 (400, 300) (0, 0) 0 True)]"
  have h1: "map_of (rooms joined) ''r'' = Some [(''a'', alice)]" by (simp add: joined_def)
  have h2: "fst ` set [(''a'', alice)] = {''a''}" by simp
  have h3: "map_of (obstacles abandoned) ''r'' = Some roomObstaclesLayout"
    by (simp add: abandoned_def)
  have h4: "map_of (globalFarmObjects abandoned) ''r'' = Some tenCrystals"
    by (simp add: abandoned_def)
  have h5: "map_of (obstacles sparse) ''r'' = Some roomObstaclesLayout"
    by (simp add: sparse_def)
  have h6: "map_of (globalFarmObjects sparse) ''r'' = Some [(''farm-1-x'', gem)]"
    by (simp add: sparse_def)
  have j: "globalFarmObjects joined = [(''r'', tenCrystals)]"
    "obstacles joined = [(''r'', roomObstaclesLayout)]" by (simp_all add: joined_def)
  have a: "addPlayer abandoned ''b'' ''r'' ''Bob'' 1734143 = rejoined"
    by (simp add: addPlayer_def abandoned_def rejoined_def newcomer_def has_def Let_def)
  have nm: "joinName env1 (Some ''Bob'') = ''Bob''" "joinColor None = 1734143"
    "joinIndex (Some ''Bob'') = 0" by (simp_all add: joinName_def joinColor_def joinIndex_def)
  have st: "storedObjects sparse ''r'' = [(''farm-1-x'', gem)]"
    "storedObjects topped ''r'' = (''farm-1-x'', gem) # map gemAt [0..<9]"
    by (simp_all add: storedObjects_def sparse_def topped_def)
  have fo: "farmObject sparse ''r'' ''farm-1-x'' = Some gem"
    by (simp add: farmObject_def sparse_def)
  note A = C6_last_leave_keeps_layout
      [where s = joined and g = "''r''" and ps = "[(''a'', alice)]" and sid = "''a''"
         and E = env1 and nameOpt = "Some ''Bob''" and colorOpt = None and s' = rejoined
         and effs = "[]" and obs = "[]" and oid = "''farm-1-x''" and objs = "[]" and k = 0
         and i = 0 and n = 0 and ?objs1.0 = "[]" and ?n1.0 = 0]
  note B = C6_last_leave_keeps_layout
      [where s = abandoned and g = "''r''" and ps = "[]" and sid = "''b''"
         and E = env1 and nameOpt = "Some ''Bob''" and colorOpt = None and s' = rejoined
         and effs = ?effs2 and obs = roomObstaclesLayout and oid = "''farm-1-x''"
         and objs = tenCrystals and k = 0 and i = 0 and n = 0
         and ?objs1.0 = tenCrystals and ?n1.0 = 0]
  note C = C6_last_leave_keeps_layout
      [where s = sparse and g = "''r''" and ps = "[]" and sid = "''b''"
         and E = env1 and nameOpt = "Some ''Bob''" and colorOpt = None and s' = topped
         and effs = ?effs3 and obs = roomObstaclesLayout and oid = "''farm-1-x''"
         and objs = "[(''farm-1-x'', gem)]" and k = 9 and i = 0 and n = 0
         and ?objs1.0 = "(''farm-1-x'', gem) # map gemAt [0..<9]" and ?n1.0 = 36]
  have c1: "map_of (rooms (fst (disconnect joined ''a''))) ''r'' = None"
    "globalFarmObjects (fst (disconnect joined ''a'')) = [(''r'', tenCrystals)]"
    "obstacles (fst (disconnect joined ''a'')) = [(''r'', roomObstaclesLayout)]"
    using A h1 h2 j by simp_all
  have c2: "joinGame abandoned ''b'' env1 ''r'' (Some ''Bob'') None
       = Some (Inr (rejoined,
           joinEffects rejoined ''b'' ''r'' ''Bob'' 1734143 roomObstaclesLayout []))"
    "globalFarmObjects rejoined = globalFarmObjects abandoned"
    using B h3 h4 length_tenCrystals a nm by simp_all
  have c3: "map_of (obstacles rejoined) ''r'' = Some roomObstaclesLayout"
    by (simp add: rejoined_def)
  have c4: "length (storedObjects topped ''r'') \<le> max 10 (length [(''farm-1-x'', gem)])"
    "take (length [(''farm-1-x'', gem)]) (map fst (storedObjects topped ''r''))
       = map fst [(''farm-1-x'', gem)]"
    "farmObject topped ''r'' ''farm-1-x'' = farmObject sparse ''r'' ''farm-1-x''"
    "Emit ToSender (FarmObjectsUpdate (map snd (storedObjects topped ''r''))) \<in> set ?effs3"
    using C sparse_join h5 h6 renders_env1 by simp_all
  have c5: "length (storedObjects topped ''r'') = 10" by (simp add: st)
  show ?thesis
    using h1 c1 h3 c3 h4 length_tenCrystals c2 st(1) sparse_loop sparse_join c4 c5
      renders_env1 fo
    by (simp del: farmLoop.simps)
qed

end
